theory Spec2Isabelle
  imports Main "HOL-Library.Word"
begin

section \<open>Python values, errors and the outside world\<close>

text \<open>
  The handlers of \<^verbatim>\<open>cyclonedx/api.py\<close> and the Dependency-Track helpers of
  \<^verbatim>\<open>cyclonedx/clients/dependency_track/dependency_track.py\<close> are embedded as functions
  over an explicit world: the SSM parameter store, the S3 buckets, the DynamoDB team table,
  the process environment, the source of \<^verbatim>\<open>uuid4()\<close> values, the behaviour of the
  Dependency-Track server, and the trace of every effect performed so far.
\<close>

subsection \<open>Values decoded from JSON\<close>

datatype json =
    JNull
  | JBool bool
  | JNum int
  | JStr string
  | JArr "json list"
  | JObj "(string \<times> json) list"

text \<open>
  Every \<^verbatim>\<open>raise\<close> of the source and of the library calls it makes is a value.
  \<open>OutOfFuel\<close> is not a Python exception: it marks that a loop or recursion of the source
  has not returned within the number of rounds the model was given.
\<close>

datatype error =
    KeyError string
  | IndexError
  | TypeError
  | JSONDecodeError
  | UnicodeDecodeError
  | ConnectionError
  | ParamValidationError
  | NoSuchKey
  | ValidationError string
  | PyException string
  | OutOfFuel

text \<open>\<^verbatim>\<open>bool(v)\<close>, as used by \<^verbatim>\<open>not v\<close> and \<^verbatim>\<open>if v:\<close>.\<close>

fun py_truthy :: "json \<Rightarrow> bool" where
  "py_truthy JNull = False"
| "py_truthy (JBool b) = b"
| "py_truthy (JNum n) = (n \<noteq> 0)"
| "py_truthy (JStr s) = (s \<noteq> [])"
| "py_truthy (JArr xs) = (xs \<noteq> [])"
| "py_truthy (JObj kvs) = (kvs \<noteq> [])"

text \<open>\<^verbatim>\<open>v[k]\<close> for a string \<open>k\<close>.\<close>

fun getitem :: "json \<Rightarrow> string \<Rightarrow> error + json" where
  "getitem (JObj kvs) k = (case map_of kvs k of None \<Rightarrow> Inl (KeyError k) | Some v \<Rightarrow> Inr v)"
| "getitem _ k = Inl TypeError"

text \<open>
  \<^verbatim>\<open>v[i]\<close> for a non-negative integer \<open>i\<close>; the keys of a decoded JSON object are
  strings, so an object has no integer key. The source only ever takes index 0.
\<close>

fun getidx :: "json \<Rightarrow> nat \<Rightarrow> error + json" where
  "getidx (JArr xs) i = (if i < length xs then Inr (xs ! i) else Inl IndexError)"
| "getidx (JStr s) i = (if i < length s then Inr (JStr [s ! i]) else Inl IndexError)"
| "getidx (JObj kvs) i = Inl (KeyError ''0'')"
| "getidx _ i = Inl TypeError"

text \<open>\<^verbatim>\<open>for x in v\<close>: the elements the loop visits.\<close>

fun py_iter :: "json \<Rightarrow> error + json list" where
  "py_iter (JArr xs) = Inr xs"
| "py_iter (JObj kvs) = Inr (map (\<lambda>kv. JStr (fst kv)) kvs)"
| "py_iter (JStr s) = Inr (map (\<lambda>c. JStr [c]) s)"
| "py_iter _ = Inl TypeError"

fun substring :: "string \<Rightarrow> string \<Rightarrow> bool" where
  "substring k [] = (k = [])"
| "substring k (c # cs) = (take (length k) (c # cs) = k \<or> substring k cs)"

text \<open>\<^verbatim>\<open>k in v\<close> for a string \<open>k\<close>.\<close>

fun py_contains :: "string \<Rightarrow> json \<Rightarrow> error + bool" where
  "py_contains k (JObj kvs) = Inr (map_of kvs k \<noteq> None)"
| "py_contains k (JArr xs) = Inr (JStr k \<in> set xs)"
| "py_contains k (JStr s) = Inr (substring k s)"
| "py_contains k _ = Inl TypeError"

text \<open>A parameter that boto3 declares as a string: any other value is refused before the call.\<close>

fun str_param :: "json \<Rightarrow> error + string" where
  "str_param (JStr s) = Inr s"
| "str_param _ = Inl ParamValidationError"

subsection \<open>\<^verbatim>\<open>str(uuid4())\<close>\<close>

definition hex_digit :: "nat \<Rightarrow> char" where
  "hex_digit d = ''0123456789abcdef'' ! (d mod 16)"

definition nibble :: "128 word \<Rightarrow> nat \<Rightarrow> nat" where
  "nibble u i = unat (take_bit 4 (drop_bit (4 * i) u))"

definition hex32 :: "128 word \<Rightarrow> string" where
  "hex32 u = map (\<lambda>i. hex_digit (nibble u (31 - i))) [0..<32]"

definition uuid_str :: "128 word \<Rightarrow> string" where
  "uuid_str u =
     (let h = hex32 u
      in take 8 h @ ''-'' @ take 4 (drop 8 h) @ ''-'' @ take 4 (drop 12 h) @ ''-''
         @ take 4 (drop 16 h) @ ''-'' @ drop 20 h)"

subsection \<open>Constants of \<^verbatim>\<open>cyclonedx/constants.py\<close>\<close>

definition DT_DEFAULT_ADMIN_PWD :: string where "DT_DEFAULT_ADMIN_PWD = ''admin''"
definition EMPTY_VALUE :: string where "EMPTY_VALUE = ''EMPTY''"
definition ENRICHMENT_ID :: string where "ENRICHMENT_ID = ''ENRICHMENTID''"
definition SBOM_BUCKET_NAME_KEY :: string where "SBOM_BUCKET_NAME_KEY = ''sbom.bucket.name''"
definition SBOM_S3_KEY :: string where "SBOM_S3_KEY = ''sbom.s3.key''"

text \<open>
  The helpers import \<^verbatim>\<open>DT_API_KEY\<close> and \<^verbatim>\<open>DT_ROOT_PWD\<close> from \<^verbatim>\<open>deploy.constants\<close>,
  which is not among the sources; the values are those \<^verbatim>\<open>cyclonedx/constants.py\<close>
  gives to the same names.
\<close>

definition DT_API_KEY :: string where "DT_API_KEY = ''DT_API_KEY''"
definition DT_ROOT_PWD :: string where "DT_ROOT_PWD = ''DT_ROOT_PWD''"

subsection \<open>Requests to Dependency-Track\<close>

text \<open>
  \<^verbatim>\<open>DTEndpoints\<close> (module \<^verbatim>\<open>cyclonedx.dtendpoints\<close>) builds the URL of each call and is
  not among the sources. An endpoint is kept as the name of the builder with the arguments
  the source passes to it.
\<close>

datatype endpoint =
    EP_force_chg_pwd
  | EP_do_login
  | EP_get_teams_data
  | EP_add_permission_to_team string json
  | EP_get_sbom_status json
  | EP_get_findings json
  | EP_rotate_api_key string
  | EP_create_project
  | EP_delete_project json
  | EP_post_sbom

datatype http_method = GET | POST | PUT

text \<open>
  The body of a request: \<^verbatim>\<open>data=\<close> with a dict (form fields), \<^verbatim>\<open>json=\<close>, or the
  \<^verbatim>\<open>MultipartEncoder\<close> of \<^verbatim>\<open>__upload_sbom\<close> with its fields \<^verbatim>\<open>project\<close>,
  \<^verbatim>\<open>autoCreate\<close> and \<^verbatim>\<open>bom\<close> (file name, content, content type).
\<close>

datatype payload =
    NoBody
  | FormData "(string \<times> string) list"
  | JsonBody json
  | Multipart json string string string string

record request =
  meth :: http_method
  url :: endpoint
  headers :: "(string \<times> string) list"
  content :: payload

text \<open>
  A response: \<^verbatim>\<open>status_code\<close>, \<^verbatim>\<open>text\<close>, and what \<^verbatim>\<open>json()\<close> decodes
  (\<open>None\<close> when the body is not JSON and \<^verbatim>\<open>json()\<close> raises).
\<close>

record response =
  status_code :: int
  resp_text :: string
  decoded :: "json option"

record s3_object =
  Body :: string
  Metadata :: "(string \<times> string) list"

datatype log_level = INFO | WARNING

text \<open>An update expression of \<^verbatim>\<open>delete_token_handler\<close>: \<^verbatim>\<open>REMOVE #t[index]\<close> on \<^verbatim>\<open>tokens\<close>.\<close>

datatype update_expr = REMOVE_tokens json

text \<open>
  Every effect on the outside world, in the order performed. A request is recorded
  with what came back: \<open>None\<close> when \<^verbatim>\<open>requests\<close> raised instead of returning a response.
  A log record keeps the level and the first argument of the \<^verbatim>\<open>logger\<close> call as the
  source writes it: the format string, or the name of the variable logged. \<^verbatim>\<open>print\<close>
  writes to standard output and is left out. \<open>Sleep\<close> counts milliseconds.
\<close>

datatype event =
    Http request "response option"
  | SsmGet string
  | SsmPut string string
  | S3Get string string
  | S3Put string string s3_object
  | DdbGet string
  | DdbUpdate string update_expr
  | Sleep nat
  | Log log_level string

text \<open>
  The world. \<open>analyzer\<close> is the Dependency-Track server: what it answers to a request,
  given everything that happened before. \<open>uuids\<close> is the sequence of values \<^verbatim>\<open>uuid4()\<close>
  returns and \<open>drawn\<close> how many have been taken. \<open>ddb_fault\<close> tells whether the next
  \<^verbatim>\<open>update_item\<close> raises, and with which message.
\<close>

record world =
  ssm :: "string \<rightharpoonup> string"
  s3 :: "string \<times> string \<rightharpoonup> s3_object"
  team_table :: "string \<rightharpoonup> json"
  environ :: "string \<rightharpoonup> string"
  analyzer :: "event list \<Rightarrow> request \<Rightarrow> response option"
  uuids :: "nat \<Rightarrow> 128 word"
  drawn :: nat
  ddb_fault :: "event list \<Rightarrow> string option"
  trace :: "event list"

type_synonym 'a io = "world \<Rightarrow> (error + 'a) \<times> world"

definition and_then :: "'a io \<Rightarrow> ('a \<Rightarrow> 'b io) \<Rightarrow> 'b io" where
  "and_then m f w = (case m w of (Inl e, w') \<Rightarrow> (Inl e, w') | (Inr x, w') \<Rightarrow> f x w')"

definition return :: "'a \<Rightarrow> 'a io" where
  "return x w = (Inr x, w)"

definition lift :: "error + 'a \<Rightarrow> 'a io" where
  "lift r w = (r, w)"

definition emit :: "event \<Rightarrow> world \<Rightarrow> world" where
  "emit e w = w\<lparr>trace := trace w @ [e]\<rparr>"

definition logger_info :: "string \<Rightarrow> unit io" where
  "logger_info msg w = (Inr (), emit (Log INFO msg) w)"

definition sleep :: "nat \<Rightarrow> unit io" where
  "sleep ms w = (Inr (), emit (Sleep ms) w)"

definition uuid4 :: "(128 word) io" where
  "uuid4 w = (Inr (uuids w (drawn w)), w\<lparr>drawn := Suc (drawn w)\<rparr>)"

text \<open>\<^verbatim>\<open>requests.get/post/put\<close>: the server answers, or the call raises.\<close>

definition send :: "request \<Rightarrow> response io" where
  "send rq w =
     (let rp = analyzer w (trace w) rq
      in (case rp of None \<Rightarrow> Inl ConnectionError | Some r \<Rightarrow> Inr r, emit (Http rq rp) w))"

definition http_get :: "endpoint \<Rightarrow> (string \<times> string) list \<Rightarrow> response io" where
  "http_get ep hs = send \<lparr>meth = GET, url = ep, headers = hs, content = NoBody\<rparr>"

definition http_post :: "endpoint \<Rightarrow> (string \<times> string) list \<Rightarrow> payload \<Rightarrow> response io" where
  "http_post ep hs b = send \<lparr>meth = POST, url = ep, headers = hs, content = b\<rparr>"

definition http_put :: "endpoint \<Rightarrow> (string \<times> string) list \<Rightarrow> payload \<Rightarrow> response io" where
  "http_put ep hs b = send \<lparr>meth = PUT, url = ep, headers = hs, content = b\<rparr>"

text \<open>\<^verbatim>\<open>response.json()\<close>.\<close>

definition json_of :: "response \<Rightarrow> error + json" where
  "json_of r = (case decoded r of None \<Rightarrow> Inl JSONDecodeError | Some j \<Rightarrow> Inr j)"

text \<open>
  \<^verbatim>\<open>ssm.get_parameter(Name=n)["Parameter"]["Value"]\<close>. \<open>None\<close> stands for the
  \<^verbatim>\<open>ParameterNotFound\<close> the callers catch; no other call of the model raises it.
\<close>

definition ssm_get_parameter :: "string \<Rightarrow> world \<Rightarrow> string option \<times> world" where
  "ssm_get_parameter n w = (ssm w n, emit (SsmGet n) w)"

text \<open>\<^verbatim>\<open>ssm.put_parameter(Name=n, Value=v, Overwrite=True, ...)\<close>.\<close>

definition ssm_put_parameter :: "string \<Rightarrow> string \<Rightarrow> unit io" where
  "ssm_put_parameter n v w = (Inr (), emit (SsmPut n v) (w\<lparr>ssm := (ssm w)(n \<mapsto> v)\<rparr>))"

section \<open>The helpers of \<^verbatim>\<open>dependency_track.py\<close>\<close>

definition change_dt_root_pwd :: "string io" where
  "change_dt_root_pwd =
     and_then (logger_info ''@START __change_dt_root_pwd()'') (\<lambda>_.
     let pwd = DT_DEFAULT_ADMIN_PWD in
     and_then uuid4 (\<lambda>u.
     let new_pwd = uuid_str u in
     and_then (logger_info ''NEW PASSWORD __change_dt_root_pwd %s'') (\<lambda>_.
     let hs = [(''Content-Type'', ''application/x-www-form-urlencoded''),
               (''Accept'', ''text/plain'')];
         params = [(''username'', pwd), (''password'', pwd),
                   (''newPassword'', new_pwd), (''confirmPassword'', new_pwd)] in
     and_then (http_post EP_force_chg_pwd hs (FormData params)) (\<lambda>_.
     and_then (ssm_put_parameter DT_ROOT_PWD new_pwd) (\<lambda>_.
     and_then (logger_info ''END __change_dt_root_pwd() -> new Pwd %s'') (\<lambda>_.
     return new_pwd))))))"

function get_root_password :: "string io" where
  "get_root_password w =
     (case ssm_get_parameter DT_ROOT_PWD w of
        (Some v, w1) \<Rightarrow>
          if EMPTY_VALUE = v
          then (case change_dt_root_pwd w1 of
                  (Inl e, w2) \<Rightarrow> (Inl e, w2)
                | (Inr _, w2) \<Rightarrow> get_root_password w2)
          else (Inr v, w1)
      | (None, w1) \<Rightarrow>
          (case change_dt_root_pwd w1 of
             (Inl e, w2) \<Rightarrow> (Inl e, w2)
           | (Inr _, w2) \<Rightarrow> get_root_password w2))"
  by pat_completeness auto

termination get_root_password
proof (relation "measure (\<lambda>w. case ssm w DT_ROOT_PWD of None \<Rightarrow> 1
                                     | Some v \<Rightarrow> if v = EMPTY_VALUE then 1 else 0)")
  show "wf (measure (\<lambda>w. case ssm w DT_ROOT_PWD of None \<Rightarrow> 1
                             | Some v \<Rightarrow> if v = EMPTY_VALUE then 1 else (0::nat)))"
    by simp
next
  have len: "\<And>u. length (uuid_str u) = 36"
    by (simp add: uuid_str_def hex32_def Let_def)
  have fresh: "\<And>u. uuid_str u \<noteq> EMPTY_VALUE"
  proof
    fix u assume "uuid_str u = EMPTY_VALUE"
    then have "length (uuid_str u) = length EMPTY_VALUE" by simp
    then show False by (simp add: len EMPTY_VALUE_def)
  qed
  have stored: "\<And>w x w'. change_dt_root_pwd w = (Inr x, w') \<Longrightarrow>
      (case ssm w' DT_ROOT_PWD of None \<Rightarrow> 1
       | Some v \<Rightarrow> if v = EMPTY_VALUE then 1 else (0::nat)) = 0"
    by (auto simp: change_dt_root_pwd_def and_then_def logger_info_def uuid4_def http_post_def
        send_def ssm_put_parameter_def return_def emit_def Let_def fresh
        split: option.splits prod.splits sum.splits if_splits)
  fix w x1 w1 v x2 w2 a
  assume a: "(x1, w1) = ssm_get_parameter DT_ROOT_PWD w" "x1 = Some v" "EMPTY_VALUE = v"
    "(x2, w2) = change_dt_root_pwd w1" "x2 = Inr a"
  have "ssm w DT_ROOT_PWD = Some EMPTY_VALUE"
    using a by (auto simp: ssm_get_parameter_def)
  moreover have "change_dt_root_pwd w1 = (Inr a, w2)"
    using a by simp
  ultimately show "(w2, w) \<in> measure (\<lambda>w. case ssm w DT_ROOT_PWD of None \<Rightarrow> 1
                                          | Some v \<Rightarrow> if v = EMPTY_VALUE then 1 else 0)"
    using stored by simp
next
  have len: "\<And>u. length (uuid_str u) = 36"
    by (simp add: uuid_str_def hex32_def Let_def)
  have fresh: "\<And>u. uuid_str u \<noteq> EMPTY_VALUE"
  proof
    fix u assume "uuid_str u = EMPTY_VALUE"
    then have "length (uuid_str u) = length EMPTY_VALUE" by simp
    then show False by (simp add: len EMPTY_VALUE_def)
  qed
  have stored: "\<And>w x w'. change_dt_root_pwd w = (Inr x, w') \<Longrightarrow>
      (case ssm w' DT_ROOT_PWD of None \<Rightarrow> 1
       | Some v \<Rightarrow> if v = EMPTY_VALUE then 1 else (0::nat)) = 0"
    by (auto simp: change_dt_root_pwd_def and_then_def logger_info_def uuid4_def http_post_def
        send_def ssm_put_parameter_def return_def emit_def Let_def fresh
        split: option.splits prod.splits sum.splits if_splits)
  fix w x1 w1 x2 w2 a
  assume a: "(x1, w1) = ssm_get_parameter DT_ROOT_PWD w" "x1 = None"
    "(x2, w2) = change_dt_root_pwd w1" "x2 = Inr a"
  have "ssm w DT_ROOT_PWD = None"
    using a by (auto simp: ssm_get_parameter_def)
  moreover have "change_dt_root_pwd w1 = (Inr a, w2)"
    using a by simp
  ultimately show "(w2, w) \<in> measure (\<lambda>w. case ssm w DT_ROOT_PWD of None \<Rightarrow> 1
                                          | Some v \<Rightarrow> if v = EMPTY_VALUE then 1 else 0)"
    using stored by simp
qed

text \<open>\<^verbatim>\<open>__get_jwt(root_pwd=None)\<close>.\<close>

definition get_jwt :: "string option \<Rightarrow> string io" where
  "get_jwt root_pwd_arg =
     and_then (logger_info ''@START __get_jwt()'') (\<lambda>_.
     and_then (case root_pwd_arg of None \<Rightarrow> get_root_password | Some p \<Rightarrow> return p)
       (\<lambda>root_pwd.
     let user = ''admin'';
         hs = [(''Content-Type'', ''application/x-www-form-urlencoded''),
               (''Accept'', ''text/plain'')];
         params = [(''username'', user), (''password'', root_pwd)] in
     and_then (logger_info ''GetJwtRequest ep=%s headers=%s params= %s'') (\<lambda>_.
     and_then (http_post EP_do_login hs (FormData params)) (\<lambda>response.
     let jwt = resp_text response in
     and_then (logger_info ''END __get_jwt %s'') (\<lambda>_.
     return jwt)))))"

definition bearer :: "string \<Rightarrow> (string \<times> string) list" where
  "bearer jwt = [(''Authorization'', ''Bearer '' @ jwt), (''Accept'', ''application/json'')]"

definition get_teams :: "json io" where
  "get_teams =
     and_then (logger_info ''@START __get_teams()'') (\<lambda>_.
     and_then (get_jwt None) (\<lambda>jwt.
     and_then (http_get EP_get_teams_data (bearer jwt)) (\<lambda>response.
     and_then (lift (json_of response)) (\<lambda>teams.
     and_then (logger_info ''END __get_teams %s'') (\<lambda>_.
     return teams)))))"

text \<open>The \<^verbatim>\<open>for team in ...\<close> loop of \<^verbatim>\<open>__get_automation_team_data_from_dt\<close>.\<close>

fun find_automation_team :: "json list \<Rightarrow> (json \<times> json) io" where
  "find_automation_team [] = lift (Inl (PyException ''Unable to find Automation team in DT''))"
| "find_automation_team (team # rest) =
     and_then (lift (getitem team ''name'')) (\<lambda>name.
     if name = JStr ''Automation''
     then and_then (lift (getitem team ''uuid'')) (\<lambda>uuid.
          and_then (lift (getitem team ''apiKeys'')) (\<lambda>api_keys.
          and_then (lift (getidx api_keys 0)) (\<lambda>first_key.
          and_then (lift (getitem first_key ''key'')) (\<lambda>api_key.
          and_then (logger_info ''END __get_automation_team_data_from_dt %s'') (\<lambda>_.
          return (uuid, api_key))))))
     else find_automation_team rest)"

definition get_automation_team_data_from_dt :: "(json \<times> json) io" where
  "get_automation_team_data_from_dt =
     and_then (logger_info ''@START __get_automation_team_data_from_dt()'') (\<lambda>_.
     and_then get_teams (\<lambda>teams.
     and_then (lift (py_iter teams)) find_automation_team))"

definition permissions :: "string list" where
  "permissions =
     [''ACCESS_MANAGEMENT'', ''POLICY_MANAGEMENT'', ''POLICY_VIOLATION_ANALYSIS'',
      ''PORTFOLIO_MANAGEMENT'', ''PROJECT_CREATION_UPLOAD'', ''SYSTEM_CONFIGURATION'',
      ''VIEW_PORTFOLIO'', ''VIEW_VULNERABILITY'', ''VULNERABILITY_ANALYSIS'']"

text \<open>The \<^verbatim>\<open>for perm in permissions\<close> loop of \<^verbatim>\<open>__set_team_permissions\<close>.\<close>

fun grant_each :: "json \<Rightarrow> (string \<times> string) list \<Rightarrow> string list \<Rightarrow> unit io" where
  "grant_each team_uuid hs [] = return ()"
| "grant_each team_uuid hs (perm # rest) =
     and_then (http_post (EP_add_permission_to_team perm team_uuid) hs NoBody) (\<lambda>_.
     grant_each team_uuid hs rest)"

definition set_team_permissions :: "json \<Rightarrow> unit io" where
  "set_team_permissions team_uuid =
     and_then (logger_info ''@START __set_team_permissions()'') (\<lambda>_.
     and_then (get_jwt None) (\<lambda>jwt.
     and_then (grant_each team_uuid (bearer jwt) permissions) (\<lambda>_.
     logger_info ''@END __set_team_permissions()'')))"

definition set_initial_api_key_in_ssm :: "string io" where
  "set_initial_api_key_in_ssm =
     and_then get_automation_team_data_from_dt (\<lambda>team_data.
     let automation_team_uuid = fst team_data; api_key = snd team_data in
     and_then (set_team_permissions automation_team_uuid) (\<lambda>_.
     and_then (lift (str_param api_key)) (\<lambda>v.
     and_then (ssm_put_parameter DT_API_KEY v) (\<lambda>_.
     return v))))"

definition get_api_key :: "string io" where
  "get_api_key w =
     (case ssm_get_parameter DT_API_KEY w of
        (Some v, w1) \<Rightarrow>
          if EMPTY_VALUE = v then set_initial_api_key_in_ssm w1 else (Inr v, w1)
      | (None, w1) \<Rightarrow>
          and_then (logger_info ''<__get_api_key -> Loc 05>'') (\<lambda>_.
          set_initial_api_key_in_ssm) w1)"

definition api_key_headers :: "string \<Rightarrow> (string \<times> string) list" where
  "api_key_headers key = [(''X-Api-Key'', key), (''Accept'', ''application/json'')]"

definition findings_ready :: "string \<Rightarrow> json \<Rightarrow> bool io" where
  "findings_ready key sbom_token =
     and_then (http_get (EP_get_sbom_status sbom_token) (api_key_headers key)) (\<lambda>response.
     and_then (lift (json_of response)) (\<lambda>json_dict.
     and_then (lift (getitem json_dict ''processing'')) (\<lambda>processing.
     return (\<not> py_truthy processing))))"

text \<open>
  The \<^verbatim>\<open>while not __findings_ready(key, sbom_token)\<close> loop of \<^verbatim>\<open>__get_findings\<close>,
  with \<^verbatim>\<open>sleep(0.5)\<close> as 500 milliseconds. The source puts no bound on the number of
  rounds; the first argument is the number of rounds the model follows.
\<close>

fun poll :: "nat \<Rightarrow> string \<Rightarrow> json \<Rightarrow> unit io" where
  "poll 0 key sbom_token = lift (Inl OutOfFuel)"
| "poll (Suc n) key sbom_token =
     and_then (findings_ready key sbom_token) (\<lambda>ready.
     if ready then return ()
     else and_then (sleep 500) (\<lambda>_.
          and_then (logger_info ''Not ready...'') (\<lambda>_.
          poll n key sbom_token)))"

definition get_findings :: "nat \<Rightarrow> json \<Rightarrow> json \<Rightarrow> json io" where
  "get_findings fuel project_uuid sbom_token =
     and_then get_api_key (\<lambda>key.
     and_then (poll fuel key sbom_token) (\<lambda>_.
     and_then (http_get (EP_get_findings project_uuid) (api_key_headers key)) (\<lambda>findings.
     and_then (lift (json_of findings)) (\<lambda>json.
     and_then (logger_info ''<Results are in!>'') (\<lambda>_.
     and_then (logger_info ''json'') (\<lambda>_.
     and_then (logger_info ''</Results are in!>'') (\<lambda>_.
     return json)))))))"

definition validate :: "json \<Rightarrow> unit io" where
  "validate event =
     (if \<not> py_truthy event then lift (Inl (ValidationError ''event should never be none''))
      else return ())"

text \<open>\<^verbatim>\<open>__rotate_api_key\<close> has no \<^verbatim>\<open>return\<close> statement: its value is \<^verbatim>\<open>None\<close>.\<close>

definition rotate_api_key :: "json io" where
  "rotate_api_key =
     and_then get_api_key (\<lambda>old_key.
     and_then (get_jwt None) (\<lambda>jwt.
     and_then (http_post (EP_rotate_api_key old_key) (bearer jwt) NoBody) (\<lambda>resp.
     and_then (lift (json_of resp)) (\<lambda>json.
     and_then (lift (getitem json ''key'')) (\<lambda>new_api_key.
     and_then (lift (str_param new_api_key)) (\<lambda>v.
     and_then (ssm_put_parameter DT_API_KEY v) (\<lambda>_.
     return JNull)))))))"

definition project_headers :: "string \<Rightarrow> (string \<times> string) list" where
  "project_headers key =
     [(''X-Api-Key'', key), (''Content-Type'', ''application/json''),
      (''Accept'', ''application/json'')]"

text \<open>
  \<^verbatim>\<open>__create_project\<close> calls itself after a 401; the source puts no bound on the depth
  (Python stops at its recursion limit). The argument is the depth the model follows.
\<close>

fun create_project :: "nat \<Rightarrow> json io" where
  "create_project 0 = lift (Inl OutOfFuel)"
| "create_project (Suc n) =
     and_then get_api_key (\<lambda>key.
     and_then uuid4 (\<lambda>u.
     let create_proj_body =
           JObj [(''author'', JStr ''EnrichmentLambda''), (''version'', JStr ''1.0.0''),
                 (''classifier'', JStr ''APPLICATION''), (''name'', JStr (uuid_str u)),
                 (''description'', JStr ''auto generated project'')] in
     and_then (http_put EP_create_project (project_headers key) (JsonBody create_proj_body))
       (\<lambda>create_proj_rsp.
     if status_code create_proj_rsp = 401
     then and_then rotate_api_key (\<lambda>_. create_project n)
     else and_then (lift (json_of create_proj_rsp)) (\<lambda>proj.
          and_then (lift (getitem proj ''uuid'')) (\<lambda>project_uuid.
          and_then (logger_info ''ProjectCreated uuid= %s'') (\<lambda>_.
          return project_uuid))))))"

definition delete_project :: "json \<Rightarrow> json io" where
  "delete_project project_uuid =
     and_then get_api_key (\<lambda>api_key.
     and_then (logger_info ''<DeletingProject>'') (\<lambda>_.
     and_then (logger_info ''project_uuid'') (\<lambda>_.
     and_then (logger_info ''</DeletingProject>'') (\<lambda>_.
     and_then (http_put (EP_delete_project project_uuid) (project_headers api_key) NoBody)
       (\<lambda>_.
     return JNull)))))"

text \<open>
  \<^verbatim>\<open>mpe.content_type\<close> is \<^verbatim>\<open>multipart/form-data\<close> followed by a boundary the
  encoder picks; the boundary is left out.
\<close>

definition upload_sbom :: "json \<Rightarrow> string \<Rightarrow> json io" where
  "upload_sbom project_uuid bom_str_file =
     and_then get_api_key (\<lambda>api_key.
     let mpe = Multipart project_uuid ''false'' ''filename'' bom_str_file ''multipart/form-data'';
         bom_upload_headers =
           [(''X-Api-Key'', api_key), (''Accept'', ''application/json''),
            (''Content-Type'', ''multipart/form-data'')] in
     and_then (logger_info ''<BomUploadHeaders>'') (\<lambda>_.
     and_then (logger_info ''bom_upload_headers'') (\<lambda>_.
     and_then (logger_info ''</BomUploadHeaders>'') (\<lambda>_.
     and_then (http_post EP_post_sbom bom_upload_headers mpe) (\<lambda>upload_sbom_rsp.
     and_then (lift (json_of upload_sbom_rsp)) (\<lambda>json.
     lift (getitem json ''token'')))))))"

section \<open>Events, bodies and response objects\<close>

text \<open>
  \<^verbatim>\<open>json.dumps\<close>, \<^verbatim>\<open>json.loads\<close> and \<^verbatim>\<open>bytes.decode("utf-8")\<close> are library
  functions; the handlers take them as a parameter. \<open>loads\<close> and \<open>decode_utf8\<close>
  give \<open>None\<close> where the library raises. Texts are kept in their UTF-8 encoding, so
  \<^verbatim>\<open>bytearray(s, "utf-8")\<close> is \<open>s\<close>.
\<close>

record codec =
  dumps :: "json \<Rightarrow> string"
  loads :: "string \<Rightarrow> json option"
  decode_utf8 :: "string \<Rightarrow> string option"

text \<open>\<^verbatim>\<open>loads(v)\<close>: only a string can be decoded.\<close>

definition py_loads :: "codec \<Rightarrow> json \<Rightarrow> error + json" where
  "py_loads c v =
     (case v of
        JStr s \<Rightarrow> (case loads c s of None \<Rightarrow> Inl JSONDecodeError | Some j \<Rightarrow> Inr j)
      | _ \<Rightarrow> Inl TypeError)"

definition py_decode :: "codec \<Rightarrow> string \<Rightarrow> error + string" where
  "py_decode c b = (case decode_utf8 c b of None \<Rightarrow> Inl UnicodeDecodeError | Some s \<Rightarrow> Inr s)"

text \<open>\<^verbatim>\<open>if "Records" in event_dict: event_dict = event_dict["Records"][0]\<close>.\<close>

definition first_record :: "json \<Rightarrow> error + json" where
  "first_record event_dict =
     (case py_contains ''Records'' event_dict of
        Inl e \<Rightarrow> Inl e
      | Inr True \<Rightarrow>
          (case getitem event_dict ''Records'' of
             Inl e \<Rightarrow> Inl e
           | Inr records \<Rightarrow> getidx records 0)
      | Inr False \<Rightarrow> Inr event_dict)"

definition get_body_from_event :: "codec \<Rightarrow> json \<Rightarrow> error + json" where
  "get_body_from_event c event =
     (case (case event of
              JObj kvs \<Rightarrow> Inr event
            | JStr s \<Rightarrow> py_loads c event
            | _ \<Rightarrow> Inr (JObj [])) of
        Inl e \<Rightarrow> Inl e
      | Inr event_dict \<Rightarrow>
          (case first_record event_dict of
             Inl e \<Rightarrow> Inl e
           | Inr record \<Rightarrow>
               (case getitem record ''body'' of
                  Inl e \<Rightarrow> Inl e
                | Inr body \<Rightarrow> py_loads c body)))"

definition get_body_from_first_record :: "codec \<Rightarrow> json \<Rightarrow> error + json" where
  "get_body_from_first_record c event =
     (case first_record event of
        Inl e \<Rightarrow> Inl e
      | Inr record \<Rightarrow>
          (case getitem record ''body'' of
             Inl e \<Rightarrow> Inl e
           | Inr body \<Rightarrow> py_loads c body))"

text \<open>The dict a Lambda handler returns.\<close>

record lambda_response =
  statusCode :: int
  isBase64Encoded :: bool
  body :: string

definition create_pristine_response_obj :: "codec \<Rightarrow> string \<Rightarrow> string \<Rightarrow> lambda_response" where
  "create_pristine_response_obj c bucket_name key =
     \<lparr>statusCode = 200, isBase64Encoded = False,
      body = dumps c (JObj [(''valid'', JBool True), (''s3BucketName'', JStr bucket_name),
                            (''s3ObjectKey'', JStr key)])\<rparr>"

text \<open>\<^verbatim>\<open>__token_response_obj(status_code, token, msg=None)\<close>; \<^verbatim>\<open>if msg:\<close> is false
  for \<^verbatim>\<open>None\<close> and for the empty string.\<close>

definition token_response_obj :: "codec \<Rightarrow> int \<Rightarrow> string \<Rightarrow> string option \<Rightarrow> lambda_response" where
  "token_response_obj c code token msg =
     (let body0 = [(''token'', JStr token)];
          body1 = (case msg of
                     None \<Rightarrow> body0
                   | Some m \<Rightarrow> if m \<noteq> [] then body0 @ [(''error'', JStr m)] else body0)
      in \<lparr>statusCode = code, isBase64Encoded = False, body = dumps c (JObj body1)\<rparr>)"

section \<open>The handlers of \<^verbatim>\<open>api.py\<close>\<close>

definition environ_get :: "string \<Rightarrow> string io" where
  "environ_get k w = (case environ w k of None \<Rightarrow> Inl (KeyError k) | Some v \<Rightarrow> Inr v, w)"

text \<open>\<^verbatim>\<open>s3.Object(bucket, key).get()\<close> and \<^verbatim>\<open>.put(Body=..., Metadata=...)\<close>.\<close>

definition s3_get :: "string \<Rightarrow> string \<Rightarrow> s3_object io" where
  "s3_get bucket key w =
     (case s3 w (bucket, key) of None \<Rightarrow> Inl NoSuchKey | Some obj \<Rightarrow> Inr obj,
      emit (S3Get bucket key) w)"

definition s3_put :: "string \<Rightarrow> string \<Rightarrow> s3_object \<Rightarrow> unit io" where
  "s3_put bucket key obj w =
     (Inr (), emit (S3Put bucket key obj) (w\<lparr>s3 := (s3 w)((bucket, key) \<mapsto> obj)\<rparr>))"

text \<open>
  \<^verbatim>\<open>pristine_sbom_ingress_handler\<close>. \<^verbatim>\<open>CycloneDxCore.validate\<close> and
  \<^verbatim>\<open>__generate_sbom_api_token\<close> are not among the sources and are parameters:
  \<open>core_validate\<close> gives \<open>Inl (ValidationError text)\<close> when the validator raises
  \<^verbatim>\<open>ValidationError\<close>, \<open>text\<close> being what \<^verbatim>\<open>str\<close> makes of the exception.
  Only that exception is caught.
\<close>

definition pristine_sbom_ingress_handler ::
  "codec \<Rightarrow> (json \<Rightarrow> error + unit) \<Rightarrow> string io \<Rightarrow> json \<Rightarrow> lambda_response io" where
  "pristine_sbom_ingress_handler c core_validate generate_sbom_api_token event =
     and_then (lift (get_body_from_event c event)) (\<lambda>bom_obj.
     and_then (environ_get SBOM_BUCKET_NAME_KEY) (\<lambda>bucket_name.
     and_then uuid4 (\<lambda>u.
     let key = ''sbom-'' @ uuid_str u;
         response_obj = create_pristine_response_obj c bucket_name key;
         attempt =
           and_then (lift (core_validate bom_obj)) (\<lambda>_.
           and_then generate_sbom_api_token (\<lambda>enrichment_id.
           let metadata = [(ENRICHMENT_ID, enrichment_id)];
               bom_bytes = dumps c bom_obj in
           s3_put bucket_name key \<lparr>Body = bom_bytes, Metadata = metadata\<rparr>))
     in (\<lambda>w. case attempt w of
               (Inl (ValidationError validation_error), w') \<Rightarrow>
                 (Inr (response_obj\<lparr>statusCode := 400, body := validation_error\<rparr>), w')
             | (Inl e, w') \<Rightarrow> (Inl e, w')
             | (Inr _, w') \<Rightarrow> (Inr response_obj, w')))))"

text \<open>
  \<^verbatim>\<open>dt_interface_handler\<close>. The bucket name and the key are passed to boto3 as strings,
  so from \<^verbatim>\<open>s3.Object(bucket_name, key).get()\<close> on they are the strings \<open>b\<close> and
  \<open>k\<close>. \<open>fuel\<close> bounds the recursion of \<open>create_project\<close> and the polling loop.
\<close>

definition dt_interface_handler :: "nat \<Rightarrow> codec \<Rightarrow> json \<Rightarrow> bool io" where
  "dt_interface_handler fuel c event =
     and_then (validate event) (\<lambda>_.
     and_then (lift (get_body_from_first_record c event)) (\<lambda>s3_info.
     and_then (lift (getitem s3_info SBOM_BUCKET_NAME_KEY)) (\<lambda>bucket_name.
     and_then (lift (getitem s3_info SBOM_S3_KEY)) (\<lambda>key.
     and_then (lift (str_param bucket_name)) (\<lambda>b.
     and_then (lift (str_param key)) (\<lambda>k.
     and_then (s3_get b k) (\<lambda>s3_object.
     and_then (lift (py_decode c (Body s3_object))) (\<lambda>bom_str_file.
     and_then (create_project fuel) (\<lambda>project_uuid.
     and_then (upload_sbom project_uuid bom_str_file) (\<lambda>sbom_token.
     and_then (get_findings fuel project_uuid sbom_token) (\<lambda>findings.
     and_then (delete_project project_uuid) (\<lambda>_.
     let findings_bytes = dumps c findings;
         findings_key = ''findings-'' @ k in
     and_then (s3_put b findings_key \<lparr>Body = findings_bytes, Metadata = []\<rparr>) (\<lambda>_.
     return True)))))))))))))"

subsection \<open>Deleting a token of a team\<close>

text \<open>
  Modelled from the spec: \<^verbatim>\<open>__get_token_index\<close> is imported from \<^verbatim>\<open>cyclonedx.util\<close>,
  which is not among the sources. The spec calls it the token-index lookup: the position
  in the team's token list of the entry whose \<^verbatim>\<open>token\<close> is the one asked for.
  \<^verbatim>\<open>None\<close> (here \<open>JNull\<close>) stands for the answer when there is no such entry.
\<close>

fun token_index_from :: "nat \<Rightarrow> json list \<Rightarrow> string \<Rightarrow> json" where
  "token_index_from i [] token = JNull"
| "token_index_from i (t # ts) token =
     (if getitem t ''token'' = Inr (JStr token) then JNum (int i)
      else token_index_from (Suc i) ts token)"

definition get_token_index :: "json \<Rightarrow> string \<Rightarrow> error + json" where
  "get_token_index tokens token =
     (case py_iter tokens of Inl e \<Rightarrow> Inl e | Inr ts \<Rightarrow> Inr (token_index_from 0 ts token))"

text \<open>
  The event of \<^verbatim>\<open>delete_token_handler\<close>: API Gateway delivers the path parameters as
  a dict of strings, or \<^verbatim>\<open>null\<close>.
\<close>

record path_event =
  pathParameters :: "(string \<times> string) list option"

definition path_parameter :: "path_event \<Rightarrow> string \<Rightarrow> error + string" where
  "path_parameter event name =
     (case pathParameters event of
        None \<Rightarrow> Inl TypeError
      | Some ps \<Rightarrow> (case map_of ps name of None \<Rightarrow> Inl (KeyError name) | Some v \<Rightarrow> Inr v))"

text \<open>\<^verbatim>\<open>table.get_item(Key={"Id": team_name})["Item"]\<close>.\<close>

definition ddb_get_item :: "string \<Rightarrow> json io" where
  "ddb_get_item team_name w =
     (case team_table w team_name of None \<Rightarrow> Inl (KeyError ''Item'') | Some item \<Rightarrow> Inr item,
      emit (DdbGet team_name) w)"

text \<open>What \<^verbatim>\<open>REMOVE #t[i]\<close> leaves of an item: the list \<^verbatim>\<open>tokens\<close> without position \<open>i\<close>.\<close>

definition remove_token_at :: "nat \<Rightarrow> json \<Rightarrow> json option" where
  "remove_token_at i item =
     (case item of
        JObj kvs \<Rightarrow>
          (case map_of kvs ''tokens'' of
             Some (JArr ts) \<Rightarrow>
               Some (JObj (map (\<lambda>kv. if fst kv = ''tokens''
                                      then (fst kv, JArr (take i ts @ drop (Suc i) ts))
                                      else kv) kvs))
           | _ \<Rightarrow> None)
      | _ \<Rightarrow> None)"

text \<open>
  \<^verbatim>\<open>table.update_item(Key=key, UpdateExpression="REMOVE #t[index]", ...)\<close>.
  \<open>Inl text\<close> is an exception raised by the call, \<open>text\<close> being what \<^verbatim>\<open>str\<close>
  makes of it.
\<close>

definition ddb_update_item :: "string \<Rightarrow> json \<Rightarrow> world \<Rightarrow> (string + unit) \<times> world" where
  "ddb_update_item team_name index w =
     (let w' = emit (DdbUpdate team_name (REMOVE_tokens index)) w
      in case ddb_fault w (trace w) of
           Some text \<Rightarrow> (Inl text, w')
         | None \<Rightarrow>
             (case (team_table w team_name, index) of
                (Some item, JNum i) \<Rightarrow>
                  (case (if 0 \<le> i then remove_token_at (nat i) item else None) of
                     None \<Rightarrow> (Inl ''ValidationException'', w')
                   | Some item' \<Rightarrow>
                       (Inr (), w'\<lparr>team_table := (team_table w)(team_name \<mapsto> item')\<rparr>))
              | _ \<Rightarrow> (Inl ''ValidationException'', w')))"

definition delete_token_handler :: "codec \<Rightarrow> path_event \<Rightarrow> lambda_response io" where
  "delete_token_handler c event =
     and_then (lift (path_parameter event ''team'')) (\<lambda>team_name.
     and_then (lift (path_parameter event ''token'')) (\<lambda>token.
     and_then (ddb_get_item team_name) (\<lambda>team.
     and_then (lift (getitem team ''tokens'')) (\<lambda>tokens.
     and_then (lift (get_token_index tokens token)) (\<lambda>index.
     if py_truthy index
     then (\<lambda>w. case ddb_update_item team_name index w of
                 (Inr _, w') \<Rightarrow> (Inr (token_response_obj c 200 token None), w')
               | (Inl err, w') \<Rightarrow>
                   (Inr (token_response_obj c 500 token (Some (''Request Error: '' @ err))), w'))
     else return (token_response_obj c 401 token
            (Some (''No such token('' @ token @ '') belongs to team('' @ team_name @ '') ''))))))))"

section \<open>Scenarios\<close>

text \<open>
  Concrete worlds on which the theorems below are exercised. \<open>scenario_analyzer\<close> is a
  server that accepts everything: the Automation team exists, the upload gets the token
  \<open>tok-1\<close>, the first two status polls report \<open>processing\<close> and the third does not,
  and the findings are \<^verbatim>\<open>{"vulns": []}\<close>.
\<close>

definition ok :: "string \<Rightarrow> json option \<Rightarrow> response option" where
  "ok t j = Some \<lparr>status_code = 200, resp_text = t, decoded = j\<rparr>"

fun is_status_poll :: "event \<Rightarrow> bool" where
  "is_status_poll (Http rq rp) = (case url rq of EP_get_sbom_status t \<Rightarrow> True | _ \<Rightarrow> False)"
| "is_status_poll _ = False"

definition scenario_teams :: json where
  "scenario_teams =
     JArr [JObj [(''name'', JStr ''Administrators''), (''uuid'', JStr ''team-1''),
                 (''apiKeys'', JArr [])],
           JObj [(''name'', JStr ''Automation''), (''uuid'', JStr ''team-7''),
                 (''apiKeys'', JArr [JObj [(''key'', JStr ''key-0'')]])]]"

definition scenario_analyzer :: "event list \<Rightarrow> request \<Rightarrow> response option" where
  "scenario_analyzer h rq =
     (case url rq of
        EP_force_chg_pwd \<Rightarrow> ok [] None
      | EP_do_login \<Rightarrow> ok ''jwt-1'' None
      | EP_get_teams_data \<Rightarrow> ok [] (Some scenario_teams)
      | EP_add_permission_to_team perm team \<Rightarrow> ok [] None
      | EP_get_sbom_status t \<Rightarrow>
          ok [] (Some (JObj [(''processing'', JBool (length (filter is_status_poll h) < 2))]))
      | EP_get_findings p \<Rightarrow> ok [] (Some (JObj [(''vulns'', JArr [])]))
      | EP_rotate_api_key k \<Rightarrow> ok [] (Some (JObj [(''key'', JStr (k @ ''+''))]))
      | EP_create_project \<Rightarrow> ok [] (Some (JObj [(''uuid'', JStr ''proj-1'')]))
      | EP_delete_project p \<Rightarrow> ok [] None
      | EP_post_sbom \<Rightarrow> ok [] (Some (JObj [(''token'', JStr ''tok-1'')])))"

text \<open>A server that answers 401 to every project creation.\<close>

definition rejecting_analyzer :: "event list \<Rightarrow> request \<Rightarrow> response option" where
  "rejecting_analyzer h rq =
     (if url rq = EP_create_project
      then Some \<lparr>status_code = 401, resp_text = [], decoded = None\<rparr>
      else scenario_analyzer h rq)"

text \<open>A server on which no job ever finishes.\<close>

definition busy_analyzer :: "event list \<Rightarrow> request \<Rightarrow> response option" where
  "busy_analyzer h rq =
     (case url rq of
        EP_get_sbom_status t \<Rightarrow> ok [] (Some (JObj [(''processing'', JBool True)]))
      | _ \<Rightarrow> scenario_analyzer h rq)"

text \<open>A server that cannot be reached when a project is to be deleted.\<close>

definition unreachable_for_delete :: "event list \<Rightarrow> request \<Rightarrow> response option" where
  "unreachable_for_delete h rq =
     (case url rq of EP_delete_project p \<Rightarrow> None | _ \<Rightarrow> scenario_analyzer h rq)"

text \<open>A server that answers 500 when a project is to be deleted.\<close>

definition failing_delete :: "event list \<Rightarrow> request \<Rightarrow> response option" where
  "failing_delete h rq =
     (case url rq of
        EP_delete_project p \<Rightarrow> Some \<lparr>status_code = 500, resp_text = [], decoded = None\<rparr>
      | _ \<Rightarrow> scenario_analyzer h rq)"

definition scenario_team :: json where
  "scenario_team =
     JObj [(''Id'', JStr ''team-a''),
           (''tokens'', JArr [JObj [(''name'', JStr ''ci''), (''token'', JStr ''sbom-api-1'')],
                              JObj [(''name'', JStr ''cd''), (''token'', JStr ''sbom-api-2'')]])]"

definition scenario_world :: world where
  "scenario_world =
     \<lparr>ssm = [DT_ROOT_PWD \<mapsto> ''s3cret'', DT_API_KEY \<mapsto> ''key-0''],
      s3 = [(''sboms'', ''sbom-abc'') \<mapsto> \<lparr>Body = ''{}'', Metadata = []\<rparr>],
      team_table = [''team-a'' \<mapsto> scenario_team],
      environ = [SBOM_BUCKET_NAME_KEY \<mapsto> ''sboms''],
      analyzer = scenario_analyzer,
      uuids = (\<lambda>n. of_nat n),
      drawn = 0,
      ddb_fault = (\<lambda>h. None),
      trace = []\<rparr>"

text \<open>The message that points at the stored SBOM, and a codec that knows the scenario's texts.\<close>

definition scenario_message :: json where
  "scenario_message = JObj [(''Records'', JArr [JObj [(''body'', JStr ''sboms/sbom-abc'')]])]"

definition scenario_codec :: codec where
  "scenario_codec =
     \<lparr>dumps = (\<lambda>j. if j = JObj [(''vulns'', JArr [])] then ''{\"vulns\": []}'' else ''...''),
      loads = (\<lambda>s. if s = ''sboms/sbom-abc''
                     then Some (JObj [(SBOM_BUCKET_NAME_KEY, JStr ''sboms''),
                                      (SBOM_S3_KEY, JStr ''sbom-abc'')])
                     else if s = ''{}'' then Some (JObj []) else None),
      decode_utf8 = Some\<rparr>"

section \<open>Reading runs and traces\<close>

text \<open>
  The notions the proofs below are written with; none of them is part of the program.
  \<open>steps R m\<close>: every run of \<open>m\<close> takes a world to one related to it by \<open>R\<close>.
  \<open>adds Q w w'\<close>: \<open>w'\<close> has the stores and the surroundings of \<open>w\<close>, but
  for the parameter store and the number of UUIDs drawn, and its trace is that of \<open>w\<close>
  followed by events that satisfy \<open>Q\<close>. \<open>dt_event U\<close>: reads and writes of the
  parameter store, log records at \<open>INFO\<close>, and requests to the endpoints in \<open>U\<close>.
\<close>

definition steps :: "(world \<Rightarrow> world \<Rightarrow> bool) \<Rightarrow> 'a io \<Rightarrow> bool" where
  "steps R m = (\<forall>w r w'. m w = (r, w') \<longrightarrow> R w w')"

definition adds :: "(event \<Rightarrow> bool) \<Rightarrow> world \<Rightarrow> world \<Rightarrow> bool" where
  "adds Q w w' =
     (s3 w' = s3 w \<and> analyzer w' = analyzer w \<and> team_table w' = team_table w
      \<and> environ w' = environ w \<and> uuids w' = uuids w \<and> ddb_fault w' = ddb_fault w
      \<and> (\<exists>t. trace w' = trace w @ t \<and> list_all Q t))"

fun dt_event :: "(endpoint \<Rightarrow> bool) \<Rightarrow> event \<Rightarrow> bool" where
  "dt_event U (Http rq rp) = U (url rq)"
| "dt_event U (SsmGet n) = True"
| "dt_event U (SsmPut n v) = True"
| "dt_event U (Log lvl msg) = (lvl = INFO)"
| "dt_event U _ = False"

fun login_ep :: "endpoint \<Rightarrow> bool" where
  "login_ep EP_force_chg_pwd = True"
| "login_ep EP_do_login = True"
| "login_ep _ = False"

fun teams_ep :: "endpoint \<Rightarrow> bool" where
  "teams_ep EP_get_teams_data = True"
| "teams_ep ep = login_ep ep"

fun bootstrap_ep :: "endpoint \<Rightarrow> bool" where
  "bootstrap_ep (EP_add_permission_to_team p t) = True"
| "bootstrap_ep ep = teams_ep ep"

fun rotate_ep :: "endpoint \<Rightarrow> bool" where
  "rotate_ep (EP_rotate_api_key k) = True"
| "rotate_ep ep = bootstrap_ep ep"

text \<open>
  What a trace shows of the requests sent: \<open>calls U t\<close> lists, in order, the endpoints
  satisfying \<open>U\<close> that the requests recorded in \<open>t\<close> went to.
\<close>

fun request_of :: "event \<Rightarrow> request list" where
  "request_of (Http rq rp) = [rq]"
| "request_of _ = []"

definition calls :: "(endpoint \<Rightarrow> bool) \<Rightarrow> event list \<Rightarrow> endpoint list" where
  "calls U t = filter U (map url (concat (map request_of t)))"

fun is_grant :: "endpoint \<Rightarrow> bool" where
  "is_grant (EP_add_permission_to_team p t) = True"
| "is_grant _ = False"

fun is_rotation :: "endpoint \<Rightarrow> bool" where
  "is_rotation (EP_rotate_api_key k) = True"
| "is_rotation _ = False"

fun is_creation :: "endpoint \<Rightarrow> bool" where
  "is_creation EP_create_project = True"
| "is_creation _ = False"

fun is_deletion :: "endpoint \<Rightarrow> bool" where
  "is_deletion (EP_delete_project p) = True"
| "is_deletion _ = False"

fun is_upload :: "endpoint \<Rightarrow> bool" where
  "is_upload EP_post_sbom = True"
| "is_upload _ = False"

fun is_status :: "endpoint \<Rightarrow> bool" where
  "is_status (EP_get_sbom_status t) = True"
| "is_status _ = False"

fun is_findings :: "endpoint \<Rightarrow> bool" where
  "is_findings (EP_get_findings p) = True"
| "is_findings _ = False"

text \<open>
  A project creation that Dependency-Track answered with 401.
\<close>

fun rejected :: "event \<Rightarrow> bool" where
  "rejected (Http rq (Some r)) = (url rq = EP_create_project \<and> status_code r = 401)"
| "rejected _ = False"

fun is_sleep :: "event \<Rightarrow> bool" where
  "is_sleep (Sleep ms) = True"
| "is_sleep _ = False"

text \<open>
  What the polling loop may add to the trace: status requests for the token, sleeps of
  500 milliseconds, and log records.
\<close>

fun poll_event :: "json \<Rightarrow> event \<Rightarrow> bool" where
  "poll_event tok (Http rq rp) = (url rq = EP_get_sbom_status tok)"
| "poll_event tok (Sleep ms) = (ms = 500)"
| "poll_event tok (Log lvl msg) = (lvl = INFO)"
| "poll_event tok _ = False"

text \<open>
  The steps of \<open>dt_interface_handler\<close> up to the retrieval of the findings, with what the
  remaining steps need: the bucket, the key, the project and the findings. The handler is
  these steps followed by the deletion of the project and the storing of the findings
  (\<open>dt_interface_handler_split\<close> below).
\<close>

definition analysis :: "nat \<Rightarrow> codec \<Rightarrow> json \<Rightarrow> (string \<times> string \<times> json \<times> json) io" where
  "analysis fuel c event =
     and_then (validate event) (\<lambda>_.
     and_then (lift (get_body_from_first_record c event)) (\<lambda>s3_info.
     and_then (lift (getitem s3_info SBOM_BUCKET_NAME_KEY)) (\<lambda>bucket_name.
     and_then (lift (getitem s3_info SBOM_S3_KEY)) (\<lambda>key.
     and_then (lift (str_param bucket_name)) (\<lambda>b.
     and_then (lift (str_param key)) (\<lambda>k.
     and_then (s3_get b k) (\<lambda>s3_object.
     and_then (lift (py_decode c (Body s3_object))) (\<lambda>bom_str_file.
     and_then (create_project fuel) (\<lambda>project_uuid.
     and_then (upload_sbom project_uuid bom_str_file) (\<lambda>sbom_token.
     and_then (get_findings fuel project_uuid sbom_token) (\<lambda>findings.
     return (b, k, project_uuid, findings))))))))))))"

text \<open>
  What the steps before the deletion of the project may add to the trace: no deletion
  request, no S3 write, no access to the team table, no log record above \<open>INFO\<close>.
\<close>

fun before_cleanup :: "event \<Rightarrow> bool" where
  "before_cleanup (Http rq rp) = (\<not> is_deletion (url rq))"
| "before_cleanup (S3Put b k obj) = False"
| "before_cleanup (DdbGet n) = False"
| "before_cleanup (DdbUpdate n x) = False"
| "before_cleanup (Log lvl msg) = (lvl = INFO)"
| "before_cleanup _ = True"

section \<open>Basic facts\<close>

lemma length_uuid_str: "length (uuid_str u) = 36"
  by (simp add: uuid_str_def hex32_def Let_def)

lemma uuid_str_not_EMPTY: "uuid_str u \<noteq> EMPTY_VALUE" "EMPTY_VALUE \<noteq> uuid_str u"
proof -
  have "length (uuid_str u) \<noteq> length EMPTY_VALUE"
    by (simp add: length_uuid_str EMPTY_VALUE_def)
  then show "uuid_str u \<noteq> EMPTY_VALUE" "EMPTY_VALUE \<noteq> uuid_str u"
    by auto
qed

lemma uuid_str_not_default: "uuid_str u \<noteq> DT_DEFAULT_ADMIN_PWD"
  using length_uuid_str [of u] by (auto simp: DT_DEFAULT_ADMIN_PWD_def)

lemma and_then_Inr: "m w = (Inr x, w1) \<Longrightarrow> and_then m f w = f x w1"
  by (simp add: and_then_def)

lemma and_then_Inl: "m w = (Inl e, w1) \<Longrightarrow> and_then m f w = (Inl e, w1)"
  by (simp add: and_then_def)

lemma change_dt_root_pwd_run:
  "change_dt_root_pwd w =
     (let p = uuid_str (uuids w (drawn w));
          rq = \<lparr>meth = POST, url = EP_force_chg_pwd,
                headers = [(''Content-Type'', ''application/x-www-form-urlencoded''),
                           (''Accept'', ''text/plain'')],
                content = FormData [(''username'', DT_DEFAULT_ADMIN_PWD),
                                    (''password'', DT_DEFAULT_ADMIN_PWD),
                                    (''newPassword'', p), (''confirmPassword'', p)]\<rparr>;
          pre = trace w @ [Log INFO ''@START __change_dt_root_pwd()'',
                           Log INFO ''NEW PASSWORD __change_dt_root_pwd %s''];
          rp = analyzer w pre rq
      in case rp of
           None \<Rightarrow> (Inl ConnectionError,
                     w\<lparr>drawn := Suc (drawn w), trace := pre @ [Http rq None]\<rparr>)
         | Some r \<Rightarrow>
             (Inr p, w\<lparr>ssm := (ssm w)(DT_ROOT_PWD \<mapsto> p), drawn := Suc (drawn w),
                        trace := pre @ [Http rq (Some r), SsmPut DT_ROOT_PWD p,
                                        Log INFO ''END __change_dt_root_pwd() -> new Pwd %s'']\<rparr>))"
  by (simp add: change_dt_root_pwd_def and_then_def logger_info_def uuid4_def http_post_def
      send_def ssm_put_parameter_def return_def emit_def Let_def split: option.splits)

section \<open>The credential lifecycle\<close>

text \<open>
  C8. When the parameter store holds an API key that is not the \<open>EMPTY\<close> placeholder,
  \<open>get_api_key\<close> returns exactly that value. The world it leaves differs from the one
  it found only by the record of the one read: no request went to Dependency-Track, nothing
  was written to the parameter store.
\<close>

theorem get_api_key_stored:
  assumes "ssm w DT_API_KEY = Some v" and "v \<noteq> EMPTY_VALUE"
  shows "get_api_key w = (Inr v, w\<lparr>trace := trace w @ [SsmGet DT_API_KEY]\<rparr>)"
  using assms by (auto simp: get_api_key_def ssm_get_parameter_def emit_def)

text \<open>
  C4. When the root password is absent from the parameter store or is the \<open>EMPTY\<close>
  placeholder, and Dependency-Track answers the force-change-password request,
  \<open>get_root_password\<close> returns: it has sent exactly one force-change-password request,
  carrying the default password and the freshly drawn value, stored the new value once,
  read the parameter once more, and its result is the new value, which is not the default.
  The function is total: its recursion was shown to terminate where it is defined.
\<close>

theorem get_root_password_rotates_once:
  assumes "ssm w DT_ROOT_PWD = None \<or> ssm w DT_ROOT_PWD = Some EMPTY_VALUE"
    and "p = uuid_str (uuids w (drawn w))"
    and "rq = \<lparr>meth = POST, url = EP_force_chg_pwd,
                headers = [(''Content-Type'', ''application/x-www-form-urlencoded''),
                           (''Accept'', ''text/plain'')],
                content = FormData [(''username'', DT_DEFAULT_ADMIN_PWD),
                                    (''password'', DT_DEFAULT_ADMIN_PWD),
                                    (''newPassword'', p), (''confirmPassword'', p)]\<rparr>"
    and "analyzer w (trace w @ [SsmGet DT_ROOT_PWD, Log INFO ''@START __change_dt_root_pwd()'',
                           Log INFO ''NEW PASSWORD __change_dt_root_pwd %s'']) rq = Some r"
  shows "get_root_password w =
           (Inr p, w\<lparr>ssm := (ssm w)(DT_ROOT_PWD \<mapsto> p), drawn := Suc (drawn w),
                      trace := trace w @
                        [SsmGet DT_ROOT_PWD,
                         Log INFO ''@START __change_dt_root_pwd()'',
                         Log INFO ''NEW PASSWORD __change_dt_root_pwd %s'',
                         Http rq (Some r),
                         SsmPut DT_ROOT_PWD p,
                         Log INFO ''END __change_dt_root_pwd() -> new Pwd %s'',
                         SsmGet DT_ROOT_PWD]\<rparr>)
         \<and> p \<noteq> DT_DEFAULT_ADMIN_PWD"
proof -
  let ?w1 = "emit (SsmGet DT_ROOT_PWD) w"
  let ?w2 = "?w1\<lparr>ssm := (ssm w)(DT_ROOT_PWD \<mapsto> p), drawn := Suc (drawn w),
                 trace := trace ?w1 @ [Log INFO ''@START __change_dt_root_pwd()'',
                         Log INFO ''NEW PASSWORD __change_dt_root_pwd %s'',
                         Http rq (Some r),
                         SsmPut DT_ROOT_PWD p,
                         Log INFO ''END __change_dt_root_pwd() -> new Pwd %s'']\<rparr>"
  have chg: "change_dt_root_pwd ?w1 = (Inr p, ?w2)"
    using assms(2-4) by (simp add: change_dt_root_pwd_run emit_def Let_def)
  have first: "get_root_password w = get_root_password ?w2"
    using assms(1) chg
    by (subst get_root_password.simps) (auto simp: ssm_get_parameter_def)
  have second: "get_root_password ?w2 = (Inr p, emit (SsmGet DT_ROOT_PWD) ?w2)"
    using assms(2) uuid_str_not_EMPTY
    by (subst get_root_password.simps) (simp add: ssm_get_parameter_def emit_def)
  show ?thesis
    using first second assms(2) uuid_str_not_default by (simp add: emit_def)
qed


theorem get_api_key_stored_witness:
  "ssm scenario_world DT_API_KEY = Some ''key-0'' \<and> ''key-0'' \<noteq> EMPTY_VALUE
   \<and> get_api_key scenario_world
       = (Inr ''key-0'', scenario_world\<lparr>trace := trace scenario_world @ [SsmGet DT_API_KEY]\<rparr>)"
proof -
  have a: "ssm scenario_world DT_API_KEY = Some ''key-0''"
    by (simp add: scenario_world_def DT_API_KEY_def DT_ROOT_PWD_def)
  have b: "''key-0'' \<noteq> EMPTY_VALUE"
    by (simp add: EMPTY_VALUE_def)
  show ?thesis
    using a b get_api_key_stored [OF a b] by simp
qed

theorem get_root_password_rotates_once_witness:
  "get_root_password (scenario_world\<lparr>ssm := [DT_ROOT_PWD \<mapsto> EMPTY_VALUE]\<rparr>)
     = (Inr (uuid_str 0),
        scenario_world\<lparr>ssm := [DT_ROOT_PWD \<mapsto> uuid_str 0], drawn := 1,
          trace := [SsmGet DT_ROOT_PWD,
                    Log INFO ''@START __change_dt_root_pwd()'',
                    Log INFO ''NEW PASSWORD __change_dt_root_pwd %s'',
                    Http \<lparr>meth = POST, url = EP_force_chg_pwd,
                          headers = [(''Content-Type'', ''application/x-www-form-urlencoded''),
                                     (''Accept'', ''text/plain'')],
                          content = FormData [(''username'', ''admin''), (''password'', ''admin''),
                                              (''newPassword'', uuid_str 0),
                                              (''confirmPassword'', uuid_str 0)]\<rparr>
                      (ok [] None),
                    SsmPut DT_ROOT_PWD (uuid_str 0),
                    Log INFO ''END __change_dt_root_pwd() -> new Pwd %s'',
                    SsmGet DT_ROOT_PWD]\<rparr>)
   \<and> uuid_str 0 \<noteq> ''admin''"
proof -
  let ?w = "scenario_world\<lparr>ssm := [DT_ROOT_PWD \<mapsto> EMPTY_VALUE]\<rparr>"
  let ?rq = "\<lparr>meth = POST, url = EP_force_chg_pwd,
                headers = [(''Content-Type'', ''application/x-www-form-urlencoded''),
                           (''Accept'', ''text/plain'')],
                content = FormData [(''username'', DT_DEFAULT_ADMIN_PWD),
                                    (''password'', DT_DEFAULT_ADMIN_PWD),
                                    (''newPassword'', uuid_str 0), (''confirmPassword'', uuid_str 0)]\<rparr>"
  have a: "ssm ?w DT_ROOT_PWD = None \<or> ssm ?w DT_ROOT_PWD = Some EMPTY_VALUE"
    by simp
  have b: "uuid_str 0 = uuid_str (uuids ?w (drawn ?w))"
    by (simp add: scenario_world_def)
  have c: "analyzer ?w (trace ?w @ [SsmGet DT_ROOT_PWD, Log INFO ''@START __change_dt_root_pwd()'',
                           Log INFO ''NEW PASSWORD __change_dt_root_pwd %s'']) ?rq = Some (the (ok [] None))"
    by (simp add: scenario_world_def scenario_analyzer_def ok_def)
  show ?thesis
    using get_root_password_rotates_once [OF a b refl c]
    by (simp add: scenario_world_def DT_DEFAULT_ADMIN_PWD_def ok_def)
qed

lemma stepsD: "steps R m \<Longrightarrow> m w = (r, w') \<Longrightarrow> R w w'"
  by (auto simp: steps_def)

lemma adds_refl: "adds Q w w"
  by (simp add: adds_def)

lemma adds_trans: "adds Q w w1 \<Longrightarrow> adds Q w1 w2 \<Longrightarrow> adds Q w w2"
  by (auto simp: adds_def)

lemma adds_mono: "adds Q w w' \<Longrightarrow> (\<And>e. Q e \<Longrightarrow> Q' e) \<Longrightarrow> adds Q' w w'"
  by (auto simp: adds_def list_all_iff)

lemma adds_emit: "Q e \<Longrightarrow> adds Q w (emit e w)"
  by (simp add: adds_def emit_def)

lemma steps_and_then:
  "steps (adds Q) m \<Longrightarrow> (\<And>x. steps (adds Q) (f x)) \<Longrightarrow> steps (adds Q) (and_then m f)"
proof -
  assume m: "steps (adds Q) m" and f: "\<And>x. steps (adds Q) (f x)"
  show ?thesis
    unfolding steps_def
  proof (intro allI impI)
    fix w r w'
    assume run: "and_then m f w = (r, w')"
    obtain x w1 where mw: "m w = (x, w1)" by (cases "m w")
    have a: "adds Q w w1" using stepsD [OF m mw] .
    show "adds Q w w'"
    proof (cases x)
      case (Inl e)
      with run mw a show ?thesis by (simp add: and_then_def)
    next
      case (Inr y)
      with run mw have "f y w1 = (r, w')" by (simp add: and_then_def)
      from stepsD [OF f this] a show ?thesis by (blast intro: adds_trans)
    qed
  qed
qed

lemma steps_return: "steps (adds Q) (return x)"
  by (simp add: steps_def return_def adds_refl)

lemma steps_lift: "steps (adds Q) (lift r)"
  by (simp add: steps_def lift_def adds_refl)

lemma steps_if:
  "steps R m \<Longrightarrow> steps R m' \<Longrightarrow> steps R (if b then m else m')"
  by simp

lemma steps_logger_info: "Q (Log INFO msg) \<Longrightarrow> steps (adds Q) (logger_info msg)"
  by (auto simp: steps_def logger_info_def adds_emit)

lemma steps_sleep: "Q (Sleep ms) \<Longrightarrow> steps (adds Q) (sleep ms)"
  by (auto simp: steps_def sleep_def adds_emit)

lemma steps_uuid4: "steps (adds Q) uuid4"
  by (auto simp: steps_def uuid4_def adds_def)

lemma steps_send: "(\<And>rp. Q (Http rq rp)) \<Longrightarrow> steps (adds Q) (send rq)"
  by (auto simp: steps_def send_def Let_def adds_emit)

lemma steps_http_get: "(\<And>rq rp. url rq = ep \<Longrightarrow> Q (Http rq rp)) \<Longrightarrow> steps (adds Q) (http_get ep hs)"
  by (simp add: http_get_def steps_send)

lemma steps_http_post: "(\<And>rq rp. url rq = ep \<Longrightarrow> Q (Http rq rp)) \<Longrightarrow> steps (adds Q) (http_post ep hs b)"
  by (simp add: http_post_def steps_send)

lemma steps_http_put: "(\<And>rq rp. url rq = ep \<Longrightarrow> Q (Http rq rp)) \<Longrightarrow> steps (adds Q) (http_put ep hs b)"
  by (simp add: http_put_def steps_send)

lemma steps_ssm_put: "Q (SsmPut n v) \<Longrightarrow> steps (adds Q) (ssm_put_parameter n v)"
  by (auto simp: steps_def ssm_put_parameter_def adds_def emit_def)

lemma adds_ssm_get: "Q (SsmGet n) \<Longrightarrow> adds Q w (snd (ssm_get_parameter n w))"
  by (simp add: ssm_get_parameter_def adds_emit)

lemma dt_event_mono: "dt_event U e \<Longrightarrow> (\<And>ep. U ep \<Longrightarrow> U' ep) \<Longrightarrow> dt_event U' e"
  by (cases e) auto

lemma teams_ep_login: "login_ep ep \<Longrightarrow> teams_ep ep"
  by (cases ep) auto

lemma bootstrap_ep_teams: "teams_ep ep \<Longrightarrow> bootstrap_ep ep"
  by (cases ep) auto

lemma rotate_ep_bootstrap: "bootstrap_ep ep \<Longrightarrow> rotate_ep ep"
  by (cases ep) auto

lemma steps_change_dt_root_pwd:
  assumes "\<And>e. dt_event login_ep e \<Longrightarrow> Q e"
  shows "steps (adds Q) change_dt_root_pwd"
  unfolding change_dt_root_pwd_def Let_def
  by (intro steps_and_then steps_logger_info steps_uuid4 steps_http_post steps_ssm_put
      steps_return assms) auto

lemma adds_get_root_password:
  assumes Q: "\<And>e. dt_event login_ep e \<Longrightarrow> Q e"
  shows "get_root_password w = (r, w') \<Longrightarrow> adds Q w w'"
proof (induction w arbitrary: r w' rule: get_root_password.induct)
  case (1 w)
  let ?w1 = "emit (SsmGet DT_ROOT_PWD) w"
  have get: "ssm_get_parameter DT_ROOT_PWD w = (ssm w DT_ROOT_PWD, ?w1)"
    by (simp add: ssm_get_parameter_def)
  have w1: "adds Q w ?w1" by (rule adds_emit) (simp add: Q)
  have chg: "\<And>x w2. change_dt_root_pwd ?w1 = (x, w2) \<Longrightarrow> adds Q w w2"
    using stepsD [OF steps_change_dt_root_pwd [of Q], OF Q] w1 adds_trans by blast
  obtain x w2 where c: "change_dt_root_pwd ?w1 = (x, w2)"
    by (cases "change_dt_root_pwd ?w1")
  have run: "get_root_password w = (r, w')" by (rule "1.prems")
  show ?case
  proof (cases "ssm w DT_ROOT_PWD = None \<or> ssm w DT_ROOT_PWD = Some EMPTY_VALUE")
    case False
    then obtain v where v: "ssm w DT_ROOT_PWD = Some v" "EMPTY_VALUE \<noteq> v" by auto
    with run get have "w' = ?w1"
      by (subst (asm) get_root_password.simps) simp
    with w1 show ?thesis by simp
  next
    case True
    show ?thesis
    proof (cases x)
      case (Inl e)
      with True c run get have "w' = w2"
        by (subst (asm) get_root_password.simps) auto
      with chg [OF c] show ?thesis by simp
    next
      case (Inr p)
      with True c run get have again: "get_root_password w2 = (r, w')"
        by (subst (asm) get_root_password.simps) auto
      have "adds Q w2 w'"
      proof (cases "ssm w DT_ROOT_PWD")
        case None
        show ?thesis
          by (rule "1.IH"(1) [OF _ _ _ _ again, of None ?w1 "Inr p" p])
             (simp_all add: get None c Inr)
      next
        case (Some v)
        with True have "EMPTY_VALUE = v" by simp
        show ?thesis
          by (rule "1.IH"(2) [OF _ _ _ _ _ again, of "Some v" ?w1 v "Inr p" p])
             (simp_all add: get Some c Inr \<open>EMPTY_VALUE = v\<close>)
      qed
      with chg [OF c] show ?thesis by (rule adds_trans)
    qed
  qed
qed

lemma steps_get_root_password:
  "(\<And>e. dt_event login_ep e \<Longrightarrow> Q e) \<Longrightarrow> steps (adds Q) get_root_password"
  unfolding steps_def by (blast intro: adds_get_root_password)

lemma steps_get_jwt:
  assumes "\<And>e. dt_event login_ep e \<Longrightarrow> Q e"
  shows "steps (adds Q) (get_jwt None)"
  unfolding get_jwt_def Let_def
  by (intro steps_and_then steps_logger_info steps_http_post steps_return assms) 
     (auto intro: steps_get_root_password assms)

lemma steps_get_teams:
  assumes "\<And>e. dt_event teams_ep e \<Longrightarrow> Q e"
  shows "steps (adds Q) get_teams"
  unfolding get_teams_def
  by (intro steps_and_then steps_logger_info steps_http_get steps_return steps_lift
      steps_get_jwt assms) (auto intro: dt_event_mono teams_ep_login)

lemma steps_find_automation_team:
  assumes "\<And>msg. Q (Log INFO msg)"
  shows "steps (adds Q) (find_automation_team ts)"
proof (induction ts)
  case Nil
  show ?case by (simp add: steps_lift)
next
  case (Cons team rest)
  show ?case
    unfolding find_automation_team.simps
    by (intro steps_and_then steps_lift steps_if steps_logger_info steps_return assms Cons)
qed

lemma steps_get_automation_team_data_from_dt:
  assumes "\<And>e. dt_event teams_ep e \<Longrightarrow> Q e"
  shows "steps (adds Q) get_automation_team_data_from_dt"
  unfolding get_automation_team_data_from_dt_def
  by (intro steps_and_then steps_logger_info steps_lift steps_get_teams
      steps_find_automation_team assms) auto

lemma steps_grant_each:
  assumes "\<And>rq rp p. url rq = EP_add_permission_to_team p team_uuid \<Longrightarrow> Q (Http rq rp)"
  shows "steps (adds Q) (grant_each team_uuid hs ps)"
proof (induction ps)
  case Nil
  show ?case by (simp add: steps_return)
next
  case (Cons perm rest)
  show ?case
    unfolding grant_each.simps
    by (intro steps_and_then steps_http_post Cons) (auto intro: assms)
qed

lemma steps_set_team_permissions:
  assumes "\<And>e. dt_event bootstrap_ep e \<Longrightarrow> Q e"
  shows "steps (adds Q) (set_team_permissions team_uuid)"
  unfolding set_team_permissions_def
  by (intro steps_and_then steps_logger_info steps_get_jwt steps_grant_each assms)
     (auto intro: dt_event_mono teams_ep_login bootstrap_ep_teams)

lemma steps_set_initial_api_key_in_ssm:
  assumes "\<And>e. dt_event bootstrap_ep e \<Longrightarrow> Q e"
  shows "steps (adds Q) set_initial_api_key_in_ssm"
  unfolding set_initial_api_key_in_ssm_def Let_def
  by (intro steps_and_then steps_get_automation_team_data_from_dt steps_set_team_permissions
      steps_lift steps_ssm_put steps_return assms)
     (auto intro: dt_event_mono bootstrap_ep_teams)

lemma steps_get_api_key:
  assumes Q: "\<And>e. dt_event bootstrap_ep e \<Longrightarrow> Q e"
  shows "steps (adds Q) get_api_key"
  unfolding steps_def
proof (intro allI impI)
  fix w r w'
  assume run: "get_api_key w = (r, w')"
  let ?w1 = "emit (SsmGet DT_API_KEY) w"
  have w1: "adds Q w ?w1" by (rule adds_emit) (simp add: Q)
  have init: "steps (adds Q) set_initial_api_key_in_ssm"
    by (rule steps_set_initial_api_key_in_ssm) (rule Q)
  have logged: "steps (adds Q) (and_then (logger_info ''<__get_api_key -> Loc 05>'')
                  (\<lambda>_. set_initial_api_key_in_ssm))"
    by (intro steps_and_then steps_logger_info init Q) simp
  show "adds Q w w'"
  proof (cases "ssm w DT_API_KEY")
    case None
    with run have "and_then (logger_info ''<__get_api_key -> Loc 05>'')
                  (\<lambda>_. set_initial_api_key_in_ssm) ?w1 = (r, w')"
      by (simp add: get_api_key_def ssm_get_parameter_def)
    from stepsD [OF logged this] w1 show ?thesis by (blast intro: adds_trans)
  next
    case (Some v)
    show ?thesis
    proof (cases "EMPTY_VALUE = v")
      case True
      with Some run have "set_initial_api_key_in_ssm ?w1 = (r, w')"
        by (simp add: get_api_key_def ssm_get_parameter_def)
      from stepsD [OF init this] w1 show ?thesis by (blast intro: adds_trans)
    next
      case False
      with Some run have "w' = ?w1"
        by (simp add: get_api_key_def ssm_get_parameter_def)
      with w1 show ?thesis by simp
    qed
  qed
qed

lemma steps_findings_ready:
  assumes "\<And>rq rp. url rq = EP_get_sbom_status sbom_token \<Longrightarrow> Q (Http rq rp)"
  shows "steps (adds Q) (findings_ready key sbom_token)"
  unfolding findings_ready_def
  by (intro steps_and_then steps_http_get steps_lift steps_return) (auto intro: assms)

lemma steps_poll:
  assumes "\<And>rq rp. url rq = EP_get_sbom_status sbom_token \<Longrightarrow> Q (Http rq rp)"
    and "Q (Sleep 500)" and "\<And>msg. Q (Log INFO msg)"
  shows "steps (adds Q) (poll n key sbom_token)"
proof (induction n)
  case 0
  show ?case by (simp add: steps_lift)
next
  case (Suc n)
  show ?case
    unfolding poll.simps
    by (intro steps_and_then steps_findings_ready steps_if steps_return steps_sleep
        steps_logger_info Suc assms)
qed

lemma steps_get_findings:
  assumes "\<And>e. dt_event bootstrap_ep e \<Longrightarrow> Q e"
    and "\<And>rq rp. url rq = EP_get_sbom_status sbom_token \<Longrightarrow> Q (Http rq rp)"
    and "\<And>rq rp. url rq = EP_get_findings project_uuid \<Longrightarrow> Q (Http rq rp)"
    and "Q (Sleep 500)"
  shows "steps (adds Q) (get_findings n project_uuid sbom_token)"
proof -
  have log: "\<And>msg. Q (Log INFO msg)" by (rule assms(1)) simp
  show ?thesis
    unfolding get_findings_def
    by (intro steps_and_then steps_get_api_key steps_poll steps_http_get steps_lift
        steps_logger_info steps_return assms log)
qed

lemma steps_rotate_api_key:
  assumes "\<And>e. dt_event rotate_ep e \<Longrightarrow> Q e"
  shows "steps (adds Q) rotate_api_key"
  unfolding rotate_api_key_def
  by (intro steps_and_then steps_get_api_key steps_get_jwt steps_http_post steps_lift
      steps_ssm_put steps_return assms)
     (auto intro: dt_event_mono teams_ep_login bootstrap_ep_teams rotate_ep_bootstrap)

lemma steps_create_project:
  assumes "\<And>e. dt_event rotate_ep e \<Longrightarrow> Q e"
    and "\<And>rq rp. url rq = EP_create_project \<Longrightarrow> Q (Http rq rp)"
  shows "steps (adds Q) (create_project n)"
proof (induction n)
  case 0
  show ?case by (simp add: steps_lift)
next
  case (Suc n)
  have log: "\<And>msg. Q (Log INFO msg)" by (rule assms(1)) simp
  have key: "steps (adds Q) get_api_key"
    by (rule steps_get_api_key) (auto intro: assms(1) dt_event_mono rotate_ep_bootstrap)
  show ?case
    unfolding create_project.simps Let_def
    by (intro steps_and_then key steps_uuid4 steps_http_put steps_if steps_rotate_api_key
        steps_lift steps_logger_info steps_return Suc assms log)
qed

lemma steps_delete_project:
  assumes "\<And>e. dt_event bootstrap_ep e \<Longrightarrow> Q e"
    and "\<And>rq rp. url rq = EP_delete_project project_uuid \<Longrightarrow> Q (Http rq rp)"
  shows "steps (adds Q) (delete_project project_uuid)"
proof -
  have log: "\<And>msg. Q (Log INFO msg)" by (rule assms(1)) simp
  show ?thesis
    unfolding delete_project_def
    by (intro steps_and_then steps_get_api_key steps_logger_info steps_http_put 
        steps_return assms log)
qed

lemma steps_upload_sbom:
  assumes "\<And>e. dt_event bootstrap_ep e \<Longrightarrow> Q e"
    and "\<And>rq rp. url rq = EP_post_sbom \<Longrightarrow> Q (Http rq rp)"
  shows "steps (adds Q) (upload_sbom project_uuid bom)"
proof -
  have log: "\<And>msg. Q (Log INFO msg)" by (rule assms(1)) simp
  show ?thesis
    unfolding upload_sbom_def Let_def
    by (intro steps_and_then steps_get_api_key steps_logger_info steps_http_post 
        steps_lift assms log)
qed

lemma calls_Nil [simp]: "calls U [] = []"
  by (simp add: calls_def)

lemma calls_append [simp]: "calls U (t1 @ t2) = calls U t1 @ calls U t2"
  by (simp add: calls_def)

lemma calls_Cons_Http [simp]:
  "calls U (Http rq rp # t) = (if U (url rq) then url rq # calls U t else calls U t)"
  by (simp add: calls_def)

lemma calls_Cons_other [simp]:
  "calls U (SsmGet n # t) = calls U t"
  "calls U (SsmPut n v # t) = calls U t"
  "calls U (S3Get b k # t) = calls U t"
  "calls U (S3Put b k obj # t) = calls U t"
  "calls U (DdbGet n # t) = calls U t"
  "calls U (DdbUpdate n x # t) = calls U t"
  "calls U (Sleep ms # t) = calls U t"
  "calls U (Log lvl msg # t) = calls U t"
  by (simp_all add: calls_def)

lemma calls_none:
  "list_all Q t \<Longrightarrow> (\<And>rq rp. Q (Http rq rp) \<Longrightarrow> \<not> U (url rq)) \<Longrightarrow> calls U t = []"
proof (induction t)
  case Nil
  show ?case by simp
next
  case (Cons e t)
  then show ?case by (cases e) auto
qed

lemma addsE:
  assumes "adds Q w w'"
  obtains t where "trace w' = trace w @ t" "list_all Q t" "s3 w' = s3 w"
    "analyzer w' = analyzer w"
  using assms by (auto simp: adds_def)

lemma and_then_InrE:
  assumes "and_then m f w = (Inr y, w')"
  obtains x w1 where "m w = (Inr x, w1)" "f x w1 = (Inr y, w')"
  using assms by (auto simp: and_then_def split: prod.splits sum.splits)

lemma lift_Inr: "lift r w = (Inr x, w') \<Longrightarrow> r = Inr x \<and> w' = w"
  by (simp add: lift_def)

lemma return_Inr: "return x w = (Inr y, w') \<Longrightarrow> y = x \<and> w' = w"
  by (simp add: return_def)

lemma send_Inr:
  "send rq w = (Inr r, w') \<Longrightarrow>
     analyzer w (trace w) rq = Some r \<and> w' = emit (Http rq (Some r)) w"
  by (auto simp: send_def Let_def split: option.splits)

lemma logger_info_run: "logger_info msg w = (r, w') \<Longrightarrow> r = Inr () \<and> w' = emit (Log INFO msg) w"
  by (auto simp: logger_info_def)

lemma trace_emit [simp]: "trace (emit e w) = trace w @ [e]"
  by (simp add: emit_def)

lemma find_automation_team_Inr:
  "find_automation_team ts w = (Inr td, w') \<Longrightarrow>
     \<exists>pre team post api_keys first_key.
       ts = pre @ team # post
       \<and> (\<forall>t\<in>set pre. getitem t ''name'' \<noteq> Inr (JStr ''Automation''))
       \<and> getitem team ''name'' = Inr (JStr ''Automation'')
       \<and> getitem team ''uuid'' = Inr (fst td)
       \<and> getitem team ''apiKeys'' = Inr api_keys
       \<and> getidx api_keys 0 = Inr first_key
       \<and> getitem first_key ''key'' = Inr (snd td)"
proof (induction ts)
  case Nil
  then show ?case by (simp add: lift_def)
next
  case (Cons team rest)
  from Cons.prems obtain name where name: "getitem team ''name'' = Inr name"
    and run: "(if name = JStr ''Automation''
     then and_then (lift (getitem team ''uuid'')) (\<lambda>uuid.
          and_then (lift (getitem team ''apiKeys'')) (\<lambda>api_keys.
          and_then (lift (getidx api_keys 0)) (\<lambda>first_key.
          and_then (lift (getitem first_key ''key'')) (\<lambda>api_key.
          and_then (logger_info ''END __get_automation_team_data_from_dt %s'') (\<lambda>_.
          return (uuid, api_key))))))
     else find_automation_team rest) w = (Inr td, w')"
    by (auto simp: lift_def elim!: and_then_InrE)
  show ?case
  proof (cases "name = JStr ''Automation''")
    case True
    with run obtain uuid api_keys first_key api_key where
      "getitem team ''uuid'' = Inr uuid" "getitem team ''apiKeys'' = Inr api_keys"
      "getidx api_keys 0 = Inr first_key" "getitem first_key ''key'' = Inr api_key"
      "td = (uuid, api_key)"
      by (auto simp: lift_def return_def logger_info_def elim!: and_then_InrE)
    with True name have "team # rest = [] @ team # rest
       \<and> (\<forall>t\<in>set []. getitem t ''name'' \<noteq> Inr (JStr ''Automation''))
       \<and> getitem team ''name'' = Inr (JStr ''Automation'')
       \<and> getitem team ''uuid'' = Inr (fst td)
       \<and> getitem team ''apiKeys'' = Inr api_keys
       \<and> getidx api_keys 0 = Inr first_key
       \<and> getitem first_key ''key'' = Inr (snd td)"
      by simp
    then show ?thesis by blast
  next
    case False
    with run have "find_automation_team rest w = (Inr td, w')" by simp
    from Cons.IH [OF this] obtain pre t post api_keys first_key where
      *: "rest = pre @ t # post"
       "\<forall>t\<in>set pre. getitem t ''name'' \<noteq> Inr (JStr ''Automation'')"
       "getitem t ''name'' = Inr (JStr ''Automation'')"
       "getitem t ''uuid'' = Inr (fst td)"
       "getitem t ''apiKeys'' = Inr api_keys"
       "getidx api_keys 0 = Inr first_key"
       "getitem first_key ''key'' = Inr (snd td)"
      by blast
    from * False name have "team # rest = (team # pre) @ t # post
       \<and> (\<forall>t\<in>set (team # pre). getitem t ''name'' \<noteq> Inr (JStr ''Automation''))
       \<and> getitem t ''name'' = Inr (JStr ''Automation'')
       \<and> getitem t ''uuid'' = Inr (fst td)
       \<and> getitem t ''apiKeys'' = Inr api_keys
       \<and> getidx api_keys 0 = Inr first_key
       \<and> getitem first_key ''key'' = Inr (snd td)"
      by simp
    then show ?thesis by blast
  qed
qed

lemma get_teams_Inr:
  assumes "get_teams w = (Inr teams, w')"
  shows "\<exists>t rq r. trace w' = trace w @ t \<and> Http rq (Some r) \<in> set t
            \<and> url rq = EP_get_teams_data \<and> decoded r = Some teams"
proof -
  from assms obtain w1 jwt w2 r w3 where
    a: "logger_info ''@START __get_teams()'' w = (Inr (), w1)"
    and b: "get_jwt None w1 = (Inr jwt, w2)"
    and c: "http_get EP_get_teams_data (bearer jwt) w2 = (Inr r, w3)"
    and d: "json_of r = Inr teams"
    and e: "w' = emit (Log INFO ''END __get_teams %s'') w3"
    unfolding get_teams_def
    by (auto simp: lift_def return_def logger_info_def elim!: and_then_InrE)
  let ?rq = "\<lparr>meth = GET, url = EP_get_teams_data, headers = bearer jwt, content = NoBody\<rparr>"
  from a have w1: "trace w1 = trace w @ [Log INFO ''@START __get_teams()'']"
    by (auto simp: logger_info_def)
  from stepsD [OF steps_get_jwt b, of "\<lambda>e. True"] obtain t2 where
    w2: "trace w2 = trace w1 @ t2" by (auto elim: addsE)
  from c have w3: "w3 = emit (Http ?rq (Some r)) w2"
    by (auto simp: http_get_def dest: send_Inr)
  from d have dec: "decoded r = Some teams"
    by (auto simp: json_of_def split: option.splits)
  have "trace w' = trace w @ ([Log INFO ''@START __get_teams()''] @ t2 @
           [Http ?rq (Some r), Log INFO ''END __get_teams %s''])"
    using w1 w2 w3 e by simp
  moreover have "Http ?rq (Some r) \<in> set ([Log INFO ''@START __get_teams()''] @ t2 @
           [Http ?rq (Some r), Log INFO ''END __get_teams %s''])" by simp
  ultimately show ?thesis using dec
    by (intro exI [of _ "[Log INFO ''@START __get_teams()''] @ t2 @
           [Http ?rq (Some r), Log INFO ''END __get_teams %s'']"] exI [of _ ?rq] exI [of _ r]) simp
qed

lemma grant_each_Inr:
  "grant_each team_uuid hs ps w = (Inr x, w') \<Longrightarrow>
     \<exists>t. trace w' = trace w @ t
        \<and> calls is_grant t = map (\<lambda>p. EP_add_permission_to_team p team_uuid) ps"
proof (induction ps arbitrary: w)
  case Nil
  then show ?case by (simp add: return_def)
next
  case (Cons perm rest)
  let ?rq = "\<lparr>meth = POST, url = EP_add_permission_to_team perm team_uuid, headers = hs,
              content = NoBody\<rparr>"
  from Cons.prems obtain r w1 where
    a: "send ?rq w = (Inr r, w1)" and b: "grant_each team_uuid hs rest w1 = (Inr x, w')"
    by (auto simp: http_post_def elim!: and_then_InrE)
  from send_Inr [OF a] have w1: "trace w1 = trace w @ [Http ?rq (Some r)]" by simp
  from Cons.IH [OF b] obtain t where
    t: "trace w' = trace w1 @ t"
       "calls is_grant t = map (\<lambda>p. EP_add_permission_to_team p team_uuid) rest"
    by blast
  have "trace w' = trace w @ (Http ?rq (Some r) # t)" using w1 t by simp
  moreover have "calls is_grant (Http ?rq (Some r) # t)
       = map (\<lambda>p. EP_add_permission_to_team p team_uuid) (perm # rest)"
    using t by simp
  ultimately show ?case by blast
qed

lemma set_team_permissions_Inr:
  assumes "set_team_permissions team_uuid w = (Inr x, w')"
  shows "\<exists>t. trace w' = trace w @ t
           \<and> calls is_grant t = map (\<lambda>p. EP_add_permission_to_team p team_uuid) permissions"
proof -
  from assms obtain w1 jwt w2 w3 where
    a: "logger_info ''@START __set_team_permissions()'' w = (Inr (), w1)"
    and b: "get_jwt None w1 = (Inr jwt, w2)"
    and c: "grant_each team_uuid (bearer jwt) permissions w2 = (Inr (), w3)"
    and d: "logger_info ''@END __set_team_permissions()'' w3 = (Inr x, w')"
    unfolding set_team_permissions_def
    by (auto elim!: and_then_InrE)
  from a have w1: "trace w1 = trace w @ [Log INFO ''@START __set_team_permissions()'']"
    by (auto simp: logger_info_def)
  from stepsD [OF steps_get_jwt b, of "dt_event login_ep"] obtain t2 where
    w2: "trace w2 = trace w1 @ t2" "list_all (dt_event login_ep) t2"
    by (auto elim: addsE)
  have t2: "calls is_grant t2 = []"
    by (rule calls_none [OF w2(2)]) (auto elim: login_ep.elims)
  from grant_each_Inr [OF c] obtain t3 where
    w3: "trace w3 = trace w2 @ t3"
        "calls is_grant t3 = map (\<lambda>p. EP_add_permission_to_team p team_uuid) permissions"
    by blast
  from d have w': "trace w' = trace w3 @ [Log INFO ''@END __set_team_permissions()'']"
    by (auto simp: logger_info_def)
  let ?t = "[Log INFO ''@START __set_team_permissions()''] @ t2 @ t3
            @ [Log INFO ''@END __set_team_permissions()'']"
  have "trace w' = trace w @ ?t" using w1 w2 w3 w' by simp
  moreover have "calls is_grant ?t
       = map (\<lambda>p. EP_add_permission_to_team p team_uuid) permissions"
    using t2 w3 by simp
  ultimately show ?thesis by blast
qed

lemma get_automation_team_data_from_dt_Inr:
  assumes "get_automation_team_data_from_dt w = (Inr td, w')"
  shows "\<exists>t rq r teams ts.
           trace w' = trace w @ t \<and> calls is_grant t = []
           \<and> Http rq (Some r) \<in> set t \<and> url rq = EP_get_teams_data
           \<and> decoded r = Some teams \<and> py_iter teams = Inr ts
           \<and> find_automation_team ts (snd (get_teams (emit (Log INFO
                 ''@START __get_automation_team_data_from_dt()'') w))) = (Inr td, w')"
proof -
  from assms obtain w1 teams w2 ts where
    a: "logger_info ''@START __get_automation_team_data_from_dt()'' w = (Inr (), w1)"
    and b: "get_teams w1 = (Inr teams, w2)"
    and c: "py_iter teams = Inr ts"
    and d: "find_automation_team ts w2 = (Inr td, w')"
    unfolding get_automation_team_data_from_dt_def
    by (auto simp: lift_def elim!: and_then_InrE)
  from a have w1: "w1 = emit (Log INFO ''@START __get_automation_team_data_from_dt()'') w"
    by (auto simp: logger_info_def)
  from get_teams_Inr [OF b] obtain t2 rq r where
    t2: "trace w2 = trace w1 @ t2" "Http rq (Some r) \<in> set t2"
        "url rq = EP_get_teams_data" "decoded r = Some teams"
    by blast
  from stepsD [OF steps_find_automation_team d, of "\<lambda>e. True"] obtain t3 where
    t3: "trace w' = trace w2 @ t3" by (auto elim: addsE)
  from stepsD [OF steps_get_automation_team_data_from_dt assms, of "dt_event teams_ep"]
  obtain t where t: "trace w' = trace w @ t" "list_all (dt_event teams_ep) t"
    by (auto elim: addsE)
  have nog: "calls is_grant t = []"
    by (rule calls_none [OF t(2)]) (auto elim: teams_ep.elims login_ep.elims)
  have "t = [Log INFO ''@START __get_automation_team_data_from_dt()''] @ t2 @ t3"
    using t(1) t2(1) t3 w1 by simp
  then have "Http rq (Some r) \<in> set t" using t2(2) by simp
  with t(1) nog t2 c d b w1 show ?thesis by auto
qed

lemma permissions_listed:
  "set permissions =
     {''ACCESS_MANAGEMENT'', ''POLICY_MANAGEMENT'', ''POLICY_VIOLATION_ANALYSIS'',
      ''PORTFOLIO_MANAGEMENT'', ''PROJECT_CREATION_UPLOAD'', ''SYSTEM_CONFIGURATION'',
      ''VIEW_PORTFOLIO'', ''VIEW_VULNERABILITY'', ''VULNERABILITY_ANALYSIS''}
   \<and> distinct permissions \<and> length permissions = 9"
proof -
  have "set permissions =
     {''ACCESS_MANAGEMENT'', ''POLICY_MANAGEMENT'', ''POLICY_VIOLATION_ANALYSIS'',
      ''PORTFOLIO_MANAGEMENT'', ''PROJECT_CREATION_UPLOAD'', ''SYSTEM_CONFIGURATION'',
      ''VIEW_PORTFOLIO'', ''VIEW_VULNERABILITY'', ''VULNERABILITY_ANALYSIS''}"
    unfolding permissions_def list.set by (rule refl)
  moreover have "distinct permissions" by (simp add: permissions_def)
  moreover have "length permissions = 9" by (simp add: permissions_def)
  ultimately show ?thesis by blast
qed

lemma set_initial_api_key_in_ssm_Inr:
  assumes "set_initial_api_key_in_ssm w = (Inr k, w')"
  shows "ssm w' DT_API_KEY = Some k \<and>
     (\<exists>t team_uuid rq r teams ts pre team post api_keys first_key.
        trace w' = trace w @ t @ [SsmPut DT_API_KEY k]
        \<and> calls is_grant t = map (\<lambda>p. EP_add_permission_to_team p team_uuid) permissions
        \<and> Http rq (Some r) \<in> set t \<and> url rq = EP_get_teams_data \<and> decoded r = Some teams
        \<and> py_iter teams = Inr ts \<and> ts = pre @ team # post
        \<and> (\<forall>x\<in>set pre. getitem x ''name'' \<noteq> Inr (JStr ''Automation''))
        \<and> getitem team ''name'' = Inr (JStr ''Automation'')
        \<and> getitem team ''uuid'' = Inr team_uuid
        \<and> getitem team ''apiKeys'' = Inr api_keys \<and> getidx api_keys 0 = Inr first_key
        \<and> getitem first_key ''key'' = Inr (JStr k))"
proof -
  from assms obtain td w1 w2 where
    a: "get_automation_team_data_from_dt w = (Inr td, w1)"
    and b: "set_team_permissions (fst td) w1 = (Inr (), w2)"
    and c: "str_param (snd td) = Inr k"
    and d: "w' = emit (SsmPut DT_API_KEY k) (w2\<lparr>ssm := (ssm w2)(DT_API_KEY \<mapsto> k)\<rparr>)"
    unfolding set_initial_api_key_in_ssm_def Let_def
    by (auto simp: lift_def return_def ssm_put_parameter_def elim!: and_then_InrE)
  from c have key: "snd td = JStr k" by (cases "snd td") auto
  from get_automation_team_data_from_dt_Inr [OF a] obtain t1 rq r teams ts w0 where
    t1: "trace w1 = trace w @ t1" "calls is_grant t1 = []"
        "Http rq (Some r) \<in> set t1" "url rq = EP_get_teams_data"
        "decoded r = Some teams" "py_iter teams = Inr ts"
        "find_automation_team ts w0 = (Inr td, w1)"
    by blast
  from find_automation_team_Inr [OF t1(7)] obtain pre team post api_keys first_key where
    f: "ts = pre @ team # post"
       "\<forall>x\<in>set pre. getitem x ''name'' \<noteq> Inr (JStr ''Automation'')"
       "getitem team ''name'' = Inr (JStr ''Automation'')"
       "getitem team ''uuid'' = Inr (fst td)"
       "getitem team ''apiKeys'' = Inr api_keys"
       "getidx api_keys 0 = Inr first_key"
       "getitem first_key ''key'' = Inr (snd td)"
    by blast
  from set_team_permissions_Inr [OF b] obtain t2 where
    t2: "trace w2 = trace w1 @ t2"
        "calls is_grant t2 = map (\<lambda>p. EP_add_permission_to_team p (fst td)) permissions"
    by blast
  have tr: "trace w' = trace w @ (t1 @ t2) @ [SsmPut DT_API_KEY k]"
    using d t1(1) t2(1) by (simp add: emit_def)
  have gr: "calls is_grant (t1 @ t2)
              = map (\<lambda>p. EP_add_permission_to_team p (fst td)) permissions"
    using t1(2) t2(2) by simp
  have mem: "Http rq (Some r) \<in> set (t1 @ t2)" using t1(3) by simp
  have stored: "ssm w' DT_API_KEY = Some k" using d by (simp add: emit_def)
  have f7: "getitem first_key ''key'' = Inr (JStr k)" using f(7) key by simp
  show ?thesis
    by (intro conjI exI [of _ "t1 @ t2"] exI [of _ "fst td"] exI [of _ rq] exI [of _ r]
        exI [of _ teams] exI [of _ ts] exI [of _ pre] exI [of _ team] exI [of _ post]
        exI [of _ api_keys] exI [of _ first_key])
       (fact stored tr gr mem t1(4) t1(5) t1(6) f(1) f(2) f(3) f(4) f(5) f(6) f7)+
qed

text \<open>
  C3. When the API key is absent from the parameter store or is the \<open>EMPTY\<close>
  placeholder, a call of \<open>get_api_key\<close> that returns a key \<open>k\<close> has asked
  Dependency-Track for its teams, taken the first team named \<open>Automation\<close> and the
  \<open>key\<close> of the first of its \<open>apiKeys\<close>, which is \<open>k\<close>; has sent one permission
  grant for that team per entry of the permission list, in order, and no other grant;
  and has stored \<open>k\<close> under the API-key name as its last step. The permission list
  holds the nine names of the claim, each once.
\<close>

theorem get_api_key_bootstrap:
  assumes "ssm w DT_API_KEY = None \<or> ssm w DT_API_KEY = Some EMPTY_VALUE"
    and "get_api_key w = (Inr k, w')"
  shows "ssm w' DT_API_KEY = Some k \<and>
     (\<exists>t team_uuid rq r teams ts pre team post api_keys first_key.
        trace w' = trace w @ t @ [SsmPut DT_API_KEY k]
        \<and> calls is_grant t = map (\<lambda>p. EP_add_permission_to_team p team_uuid) permissions
        \<and> Http rq (Some r) \<in> set t \<and> url rq = EP_get_teams_data \<and> decoded r = Some teams
        \<and> py_iter teams = Inr ts \<and> ts = pre @ team # post
        \<and> (\<forall>x\<in>set pre. getitem x ''name'' \<noteq> Inr (JStr ''Automation''))
        \<and> getitem team ''name'' = Inr (JStr ''Automation'')
        \<and> getitem team ''uuid'' = Inr team_uuid
        \<and> getitem team ''apiKeys'' = Inr api_keys \<and> getidx api_keys 0 = Inr first_key
        \<and> getitem first_key ''key'' = Inr (JStr k))
     \<and> set permissions =
         {''ACCESS_MANAGEMENT'', ''POLICY_MANAGEMENT'', ''POLICY_VIOLATION_ANALYSIS'',
          ''PORTFOLIO_MANAGEMENT'', ''PROJECT_CREATION_UPLOAD'', ''SYSTEM_CONFIGURATION'',
          ''VIEW_PORTFOLIO'', ''VIEW_VULNERABILITY'', ''VULNERABILITY_ANALYSIS''}
     \<and> distinct permissions \<and> length permissions = 9"
proof -
  obtain t0 w1 where w1: "set_initial_api_key_in_ssm w1 = (Inr k, w')"
    "trace w1 = trace w @ t0" "calls is_grant t0 = []"
    "\<forall>rq r. Http rq r \<notin> set t0"
  proof (cases "ssm w DT_API_KEY")
    case None
    with assms(2) have "set_initial_api_key_in_ssm
        (emit (Log INFO ''<__get_api_key -> Loc 05>'') (emit (SsmGet DT_API_KEY) w)) = (Inr k, w')"
      by (auto simp: get_api_key_def ssm_get_parameter_def logger_info_def
          elim!: and_then_InrE)
    then show ?thesis by (rule that) auto
  next
    case (Some v)
    with assms have "set_initial_api_key_in_ssm (emit (SsmGet DT_API_KEY) w) = (Inr k, w')"
      by (auto simp: get_api_key_def ssm_get_parameter_def)
    then show ?thesis by (rule that) auto
  qed
  from set_initial_api_key_in_ssm_Inr [OF w1(1)] obtain t team_uuid rq r teams ts pre team
    post api_keys first_key where
    *: "ssm w' DT_API_KEY = Some k" 
        "trace w' = trace w1 @ t @ [SsmPut DT_API_KEY k]"
        "calls is_grant t = map (\<lambda>p. EP_add_permission_to_team p team_uuid) permissions"
        "Http rq (Some r) \<in> set t" "url rq = EP_get_teams_data" "decoded r = Some teams"
        "py_iter teams = Inr ts" "ts = pre @ team # post"
        "\<forall>x\<in>set pre. getitem x ''name'' \<noteq> Inr (JStr ''Automation'')"
        "getitem team ''name'' = Inr (JStr ''Automation'')"
        "getitem team ''uuid'' = Inr team_uuid"
        "getitem team ''apiKeys'' = Inr api_keys" "getidx api_keys 0 = Inr first_key"
        "getitem first_key ''key'' = Inr (JStr k)"
    by blast
  have tr: "trace w' = trace w @ (t0 @ t) @ [SsmPut DT_API_KEY k]"
    using *(2) w1(2) by simp
  have gr: "calls is_grant (t0 @ t)
      = map (\<lambda>p. EP_add_permission_to_team p team_uuid) permissions"
    using *(3) w1(3) by simp
  have mem: "Http rq (Some r) \<in> set (t0 @ t)" using *(4) by simp
  have "\<exists>t team_uuid rq r teams ts pre team post api_keys first_key.
        trace w' = trace w @ t @ [SsmPut DT_API_KEY k]
        \<and> calls is_grant t = map (\<lambda>p. EP_add_permission_to_team p team_uuid) permissions
        \<and> Http rq (Some r) \<in> set t \<and> url rq = EP_get_teams_data \<and> decoded r = Some teams
        \<and> py_iter teams = Inr ts \<and> ts = pre @ team # post
        \<and> (\<forall>x\<in>set pre. getitem x ''name'' \<noteq> Inr (JStr ''Automation''))
        \<and> getitem team ''name'' = Inr (JStr ''Automation'')
        \<and> getitem team ''uuid'' = Inr team_uuid
        \<and> getitem team ''apiKeys'' = Inr api_keys \<and> getidx api_keys 0 = Inr first_key
        \<and> getitem first_key ''key'' = Inr (JStr k)"
    by (intro conjI exI [of _ "t0 @ t"] exI [of _ team_uuid] exI [of _ rq] exI [of _ r]
        exI [of _ teams] exI [of _ ts] exI [of _ pre] exI [of _ team] exI [of _ post]
        exI [of _ api_keys] exI [of _ first_key])
       (fact tr gr mem *(5) *(6) *(7) *(8) *(9) *(10) *(11) *(12) *(13) *(14))+
  with *(1) permissions_listed show ?thesis by blast
qed

lemma get_root_password_hit:
  "ssm w DT_ROOT_PWD = Some v \<Longrightarrow> v \<noteq> EMPTY_VALUE \<Longrightarrow>
     get_root_password w = (Inr v, emit (SsmGet DT_ROOT_PWD) w)"
  by (subst get_root_password.simps) (auto simp: ssm_get_parameter_def)

lemma get_api_key_hit:
  "ssm w DT_API_KEY = Some v \<Longrightarrow> v \<noteq> EMPTY_VALUE \<Longrightarrow>
     get_api_key w = (Inr v, emit (SsmGet DT_API_KEY) w)"
  by (auto simp: get_api_key_def ssm_get_parameter_def)

lemmas run_defs =
  and_then_def return_def lift_def emit_def logger_info_def sleep_def uuid4_def send_def
  http_get_def http_post_def http_put_def json_of_def ssm_put_parameter_def
  ssm_get_parameter_def bearer_def api_key_headers_def project_headers_def

lemmas name_defs = DT_API_KEY_def DT_ROOT_PWD_def EMPTY_VALUE_def DT_DEFAULT_ADMIN_PWD_def

lemma scenario_fresh_key:
  "fst (get_api_key (scenario_world\<lparr>ssm := [DT_ROOT_PWD \<mapsto> ''s3cret'']\<rparr>)) = Inr ''key-0''"
  by (simp add: get_api_key_def set_initial_api_key_in_ssm_def
      get_automation_team_data_from_dt_def get_teams_def get_jwt_def set_team_permissions_def
      get_root_password_hit permissions_def scenario_world_def scenario_analyzer_def
      scenario_teams_def ok_def run_defs name_defs Let_def)

theorem get_api_key_bootstrap_witness:
  "ssm (scenario_world\<lparr>ssm := [DT_ROOT_PWD \<mapsto> ''s3cret'']\<rparr>) DT_API_KEY = None
   \<and> fst (get_api_key (scenario_world\<lparr>ssm := [DT_ROOT_PWD \<mapsto> ''s3cret'']\<rparr>)) = Inr ''key-0''
   \<and> ssm (snd (get_api_key (scenario_world\<lparr>ssm := [DT_ROOT_PWD \<mapsto> ''s3cret'']\<rparr>)))
         DT_API_KEY = Some ''key-0''"
proof -
  let ?w = "scenario_world\<lparr>ssm := [DT_ROOT_PWD \<mapsto> ''s3cret'']\<rparr>"
  have a: "ssm ?w DT_API_KEY = None \<or> ssm ?w DT_API_KEY = Some EMPTY_VALUE"
    by (simp add: name_defs)
  have b: "get_api_key ?w = (Inr ''key-0'', snd (get_api_key ?w))"
    using scenario_fresh_key by (simp add: prod_eq_iff)
  have "ssm ?w DT_API_KEY = None" by (simp add: name_defs)
  with scenario_fresh_key get_api_key_bootstrap [OF a b] show ?thesis by blast
qed

lemma get_jwt_Inr:
  assumes "get_jwt None w = (Inr jwt, w')"
  shows "\<exists>t pw lr.
           trace w' = trace w @ t @
             [Http \<lparr>meth = POST, url = EP_do_login,
                    headers = [(''Content-Type'', ''application/x-www-form-urlencoded''),
                               (''Accept'', ''text/plain'')],
                    content = FormData [(''username'', ''admin''), (''password'', pw)]\<rparr>
                (Some lr),
              Log INFO ''END __get_jwt %s'']
           \<and> list_all (dt_event login_ep) t \<and> resp_text lr = jwt"
proof -
  let ?hs = "[(''Content-Type'', ''application/x-www-form-urlencoded''),
              (''Accept'', ''text/plain'')]"
  from assms obtain w1 pw w2 w3 lr w4 where
    a: "logger_info ''@START __get_jwt()'' w = (Inr (), w1)"
    and b: "get_root_password w1 = (Inr pw, w2)"
    and c: "logger_info ''GetJwtRequest ep=%s headers=%s params= %s'' w2 = (Inr (), w3)"
    and d: "send \<lparr>meth = POST, url = EP_do_login, headers = ?hs,
                  content = FormData [(''username'', ''admin''), (''password'', pw)]\<rparr> w3
            = (Inr lr, w4)"
    and e: "w' = emit (Log INFO ''END __get_jwt %s'') w4" and f: "jwt = resp_text lr"
    unfolding get_jwt_def Let_def
    by (auto simp: return_def logger_info_def http_post_def elim!: and_then_InrE)
  let ?rq = "\<lparr>meth = POST, url = EP_do_login, headers = ?hs,
                  content = FormData [(''username'', ''admin''), (''password'', pw)]\<rparr>"
  from a have w1: "trace w1 = trace w @ [Log INFO ''@START __get_jwt()'']"
    by (auto simp: logger_info_def)
  from adds_get_root_password [OF _ b, of "dt_event login_ep"] obtain t2 where
    w2: "trace w2 = trace w1 @ t2" "list_all (dt_event login_ep) t2"
    by (auto elim: addsE)
  from c have w3: "trace w3 = trace w2 @ [Log INFO ''GetJwtRequest ep=%s headers=%s params= %s'']"
    by (auto simp: logger_info_def)
  from send_Inr [OF d] have w4: "trace w4 = trace w3 @ [Http ?rq (Some lr)]" by simp
  let ?t = "[Log INFO ''@START __get_jwt()''] @ t2
            @ [Log INFO ''GetJwtRequest ep=%s headers=%s params= %s'']"
  have tr: "trace w' = trace w @ ?t @ [Http ?rq (Some lr), Log INFO ''END __get_jwt %s'']"
    using w1 w2 w3 w4 e by simp
  have cl: "list_all (dt_event login_ep) ?t" using w2(2) by simp
  have tx: "resp_text lr = jwt" using f by simp
  show ?thesis
    by (intro exI [of _ ?t] exI [of _ pw] exI [of _ lr] conjI) (fact tr cl tx)+
qed

lemma rotate_api_key_Inr:
  assumes "rotate_api_key w = (Inr v, w')"
  shows "v = JNull \<and>
     (\<exists>old wk t jwt lrq lr pw r j new.
        get_api_key w = (Inr old, wk)
        \<and> trace w' = trace w @ t @
             [Http \<lparr>meth = POST, url = EP_rotate_api_key old, headers = bearer jwt,
                    content = NoBody\<rparr> (Some r),
              SsmPut DT_API_KEY new]
        \<and> calls is_rotation t = []
        \<and> Http lrq (Some lr) \<in> set t \<and> url lrq = EP_do_login
        \<and> content lrq = FormData [(''username'', ''admin''), (''password'', pw)]
        \<and> resp_text lr = jwt
        \<and> decoded r = Some j \<and> getitem j ''key'' = Inr (JStr new)
        \<and> ssm w' DT_API_KEY = Some new)"
proof -
  from assms obtain old wk jwt w2 r w3 j nk new where
    a: "get_api_key w = (Inr old, wk)"
    and b: "get_jwt None wk = (Inr jwt, w2)"
    and c: "send \<lparr>meth = POST, url = EP_rotate_api_key old, headers = bearer jwt,
                  content = NoBody\<rparr> w2 = (Inr r, w3)"
    and d: "json_of r = Inr j" and e: "getitem j ''key'' = Inr nk"
    and f: "str_param nk = Inr new"
    and g: "w' = emit (SsmPut DT_API_KEY new) (w3\<lparr>ssm := (ssm w3)(DT_API_KEY \<mapsto> new)\<rparr>)"
    and h: "v = JNull"
    unfolding rotate_api_key_def
    by (auto simp: lift_def return_def ssm_put_parameter_def http_post_def
        elim!: and_then_InrE)
  let ?rq = "\<lparr>meth = POST, url = EP_rotate_api_key old, headers = bearer jwt,
                  content = NoBody\<rparr>"
  from stepsD [OF steps_get_api_key a, of "dt_event bootstrap_ep"] obtain t1 where
    t1: "trace wk = trace w @ t1" "list_all (dt_event bootstrap_ep) t1"
    by (auto elim: addsE)
  from get_jwt_Inr [OF b] obtain t2 pw lr where
    t2: "trace w2 = trace wk @ t2 @
             [Http \<lparr>meth = POST, url = EP_do_login,
                    headers = [(''Content-Type'', ''application/x-www-form-urlencoded''),
                               (''Accept'', ''text/plain'')],
                    content = FormData [(''username'', ''admin''), (''password'', pw)]\<rparr>
                (Some lr),
              Log INFO ''END __get_jwt %s'']"
        "list_all (dt_event login_ep) t2" "resp_text lr = jwt"
    by blast
  let ?lrq = "\<lparr>meth = POST, url = EP_do_login,
                    headers = [(''Content-Type'', ''application/x-www-form-urlencoded''),
                               (''Accept'', ''text/plain'')],
                    content = FormData [(''username'', ''admin''), (''password'', pw)]\<rparr>"
  let ?t = "t1 @ t2 @ [Http ?lrq (Some lr), Log INFO ''END __get_jwt %s'']"
  from send_Inr [OF c] have w3: "trace w3 = trace w2 @ [Http ?rq (Some r)]" by simp
  have tr: "trace w' = trace w @ ?t @ [Http ?rq (Some r), SsmPut DT_API_KEY new]"
    using g w3 t2(1) t1(1) by (simp add: emit_def)
  have c1: "calls is_rotation t1 = []"
    by (rule calls_none [OF t1(2)])
       (auto elim!: bootstrap_ep.elims teams_ep.elims login_ep.elims)
  have c2: "calls is_rotation t2 = []"
    by (rule calls_none [OF t2(2)]) (auto elim!: login_ep.elims)
  have nr: "calls is_rotation ?t = []" using c1 c2 by simp
  have mem: "Http ?lrq (Some lr) \<in> set ?t" by simp
  have u: "url ?lrq = EP_do_login" by simp
  have ct: "content ?lrq = FormData [(''username'', ''admin''), (''password'', pw)]" by simp
  have dec: "decoded r = Some j" using d by (auto simp: json_of_def split: option.splits)
  have nk: "nk = JStr new" using f by (cases nk) auto
  have key: "getitem j ''key'' = Inr (JStr new)" using e nk by simp
  have stored: "ssm w' DT_API_KEY = Some new" using g by (simp add: emit_def)
  show ?thesis
    by (intro conjI exI [of _ old] exI [of _ wk] exI [of _ ?t] exI [of _ jwt]
        exI [of _ ?lrq] exI [of _ lr] exI [of _ pw] exI [of _ r] exI [of _ j] exI [of _ new])
       (fact h a tr nr mem u ct t2(3) dec key stored)+
qed

lemma scenario_rotation:
  "fst (rotate_api_key scenario_world) = Inr JNull
   \<and> ssm (snd (rotate_api_key scenario_world)) DT_API_KEY = Some ''key-0+''"
  by (simp add: rotate_api_key_def get_api_key_hit get_jwt_def get_root_password_hit
      scenario_world_def scenario_analyzer_def ok_def run_defs name_defs Let_def)

section \<open>Rotating the API key\<close>

text \<open>
  C7, as the claim states it, fails: the value \<open>rotate_api_key\<close> returns is \<^verbatim>\<open>None\<close>,
  not the new key. In the scenario the key stored after the rotation is \<open>key-0+\<close>
  and the value returned is \<open>JNull\<close>.
\<close>

theorem rotate_api_key_returns_key_counterexample:
  "fst (rotate_api_key scenario_world) = Inr JNull
   \<and> ssm (snd (rotate_api_key scenario_world)) DT_API_KEY = Some ''key-0+''
   \<and> JNull \<noteq> JStr ''key-0+''"
  using scenario_rotation by simp

text \<open>
  C7, amended. A call of \<open>rotate_api_key\<close> that returns has logged in as \<open>admin\<close>,
  sent one rotation request, for the key \<open>get_api_key\<close> gave it, with the token of that
  login as bearer, and has stored the \<open>key\<close> of the answer under the API-key name as its
  last step. It returns \<^verbatim>\<open>None\<close>: a caller gets the new key by reading the parameter
  store.
\<close>

theorem rotate_api_key_persists_new_key:
  assumes "rotate_api_key w = (Inr v, w')"
  shows "v = JNull \<and>
     (\<exists>old wk t jwt lrq lr pw r j new.
        get_api_key w = (Inr old, wk)
        \<and> trace w' = trace w @ t @
             [Http \<lparr>meth = POST, url = EP_rotate_api_key old, headers = bearer jwt,
                    content = NoBody\<rparr> (Some r),
              SsmPut DT_API_KEY new]
        \<and> calls is_rotation t = []
        \<and> Http lrq (Some lr) \<in> set t \<and> url lrq = EP_do_login
        \<and> content lrq = FormData [(''username'', ''admin''), (''password'', pw)]
        \<and> resp_text lr = jwt
        \<and> decoded r = Some j \<and> getitem j ''key'' = Inr (JStr new)
        \<and> ssm w' DT_API_KEY = Some new)"
  using rotate_api_key_Inr [OF assms] .

theorem rotate_api_key_persists_new_key_witness:
  "rotate_api_key scenario_world = (Inr JNull, snd (rotate_api_key scenario_world))
   \<and> (\<exists>old wk t jwt lrq lr pw r j new.
        get_api_key scenario_world = (Inr old, wk)
        \<and> trace (snd (rotate_api_key scenario_world)) = trace scenario_world @ t @
             [Http \<lparr>meth = POST, url = EP_rotate_api_key old, headers = bearer jwt,
                    content = NoBody\<rparr> (Some r),
              SsmPut DT_API_KEY new]
        \<and> calls is_rotation t = []
        \<and> Http lrq (Some lr) \<in> set t \<and> url lrq = EP_do_login
        \<and> content lrq = FormData [(''username'', ''admin''), (''password'', pw)]
        \<and> resp_text lr = jwt
        \<and> decoded r = Some j \<and> getitem j ''key'' = Inr (JStr new)
        \<and> ssm (snd (rotate_api_key scenario_world)) DT_API_KEY = Some new)"
proof -
  have run: "rotate_api_key scenario_world = (Inr JNull, snd (rotate_api_key scenario_world))"
    using scenario_rotation by (simp add: prod_eq_iff)
  from rotate_api_key_persists_new_key [OF run] run show ?thesis by blast
qed

lemma get_jwt_hit:
  assumes "ssm w DT_ROOT_PWD = Some pw" and "pw \<noteq> EMPTY_VALUE"
    and "\<And>h rq. url rq = EP_do_login \<Longrightarrow> analyzer w h rq \<noteq> None"
  shows "\<exists>jwt t. get_jwt None w = (Inr jwt, w\<lparr>trace := trace w @ t\<rparr>)
           \<and> list_all (dt_event login_ep) t"
proof -
  let ?rq = "\<lparr>meth = POST, url = EP_do_login,
              headers = [(''Content-Type'', ''application/x-www-form-urlencoded''),
                         (''Accept'', ''text/plain'')],
              content = FormData [(''username'', ''admin''), (''password'', pw)]\<rparr>"
  let ?h = "trace w @ [Log INFO ''@START __get_jwt()'', SsmGet DT_ROOT_PWD,
                       Log INFO ''GetJwtRequest ep=%s headers=%s params= %s'']"
  from assms(3) [of ?rq ?h] obtain lr where lr: "analyzer w ?h ?rq = Some lr" by auto
  let ?t = "[Log INFO ''@START __get_jwt()'', SsmGet DT_ROOT_PWD,
             Log INFO ''GetJwtRequest ep=%s headers=%s params= %s'',
             Http ?rq (Some lr), Log INFO ''END __get_jwt %s'']"
  have "get_jwt None w = (Inr (resp_text lr), w\<lparr>trace := trace w @ ?t\<rparr>)"
    using assms(1,2) lr
    by (simp add: get_jwt_def get_root_password_hit run_defs Let_def)
  moreover have "list_all (dt_event login_ep) ?t" by simp
  ultimately show ?thesis by blast
qed

lemma rotate_api_key_hit:
  assumes key: "ssm w DT_API_KEY = Some k0" "k0 \<noteq> EMPTY_VALUE"
    and pwd: "ssm w DT_ROOT_PWD = Some pw" "pw \<noteq> EMPTY_VALUE"
    and login: "\<And>h rq. url rq = EP_do_login \<Longrightarrow> analyzer w h rq \<noteq> None"
    and rot: "\<And>h rq k. url rq = EP_rotate_api_key k \<Longrightarrow>
               \<exists>r j new. analyzer w h rq = Some r \<and> decoded r = Some j
                 \<and> getitem j ''key'' = Inr (JStr new) \<and> new \<noteq> EMPTY_VALUE"
  shows "\<exists>t new. rotate_api_key w
              = (Inr JNull, w\<lparr>ssm := (ssm w)(DT_API_KEY \<mapsto> new), trace := trace w @ t\<rparr>)
           \<and> calls is_rotation t = [EP_rotate_api_key k0] \<and> calls is_creation t = []
           \<and> new \<noteq> EMPTY_VALUE"
proof -
  let ?w1 = "emit (SsmGet DT_API_KEY) w"
  have a: "get_api_key w = (Inr k0, ?w1)" using key by (rule get_api_key_hit)
  have "\<exists>jwt t. get_jwt None ?w1 = (Inr jwt, ?w1\<lparr>trace := trace ?w1 @ t\<rparr>)
           \<and> list_all (dt_event login_ep) t"
    by (rule get_jwt_hit [of ?w1 pw]) (use pwd login in \<open>simp_all add: emit_def\<close>)
  then obtain jwt t2 where b: "get_jwt None ?w1 = (Inr jwt, ?w1\<lparr>trace := trace ?w1 @ t2\<rparr>)"
    and t2: "list_all (dt_event login_ep) t2" by blast
  let ?w2 = "?w1\<lparr>trace := trace ?w1 @ t2\<rparr>"
  let ?rq = "\<lparr>meth = POST, url = EP_rotate_api_key k0, headers = bearer jwt,
              content = NoBody\<rparr>"
  from rot [of ?rq k0 "trace ?w2"] obtain r j new where
    r: "analyzer w (trace ?w2) ?rq = Some r" "decoded r = Some j"
       "getitem j ''key'' = Inr (JStr new)" "new \<noteq> EMPTY_VALUE"
    by auto
  let ?t = "[SsmGet DT_API_KEY] @ t2 @ [Http ?rq (Some r), SsmPut DT_API_KEY new]"
  have c2: "calls is_rotation t2 = []"
    by (rule calls_none [OF t2]) (auto elim!: login_ep.elims)
  have c3: "calls is_creation t2 = []"
    by (rule calls_none [OF t2]) (auto elim!: login_ep.elims)
  have send: "http_post (EP_rotate_api_key k0) (bearer jwt) NoBody ?w2
                = (Inr r, emit (Http ?rq (Some r)) ?w2)"
    using r(1) by (simp add: http_post_def send_def emit_def)
  have "rotate_api_key w
          = (Inr JNull, w\<lparr>ssm := (ssm w)(DT_API_KEY \<mapsto> new), trace := trace w @ ?t\<rparr>)"
    unfolding rotate_api_key_def
    apply (subst and_then_Inr [where m = get_api_key, OF a])
    apply (subst and_then_Inr [where m = "get_jwt None", OF b])
    apply (subst and_then_Inr
        [where m = "http_post (EP_rotate_api_key k0) (bearer jwt) NoBody", OF send])
    apply (simp add: r(2,3) and_then_def lift_def return_def json_of_def
        ssm_put_parameter_def emit_def)
    done
  moreover have "calls is_rotation ?t = [EP_rotate_api_key k0]" using c2 by simp
  moreover have "calls is_creation ?t = []" using c3 by simp
  ultimately show ?thesis using r(4) by blast
qed

lemma rejected_none:
  "list_all Q t \<Longrightarrow> (\<And>rq rp. Q (Http rq rp) \<Longrightarrow> url rq \<noteq> EP_create_project)
     \<Longrightarrow> filter rejected t = []"
proof (induction t)
  case Nil
  show ?case by simp
next
  case (Cons e t)
  then have "\<not> rejected e" by (cases e rule: rejected.cases) auto
  with Cons show ?case by simp
qed

lemma always_rejected:
  assumes rej: "\<And>h rq. url rq = EP_create_project \<Longrightarrow>
                  \<exists>r. a h rq = Some r \<and> status_code r = 401"
    and login: "\<And>h rq. url rq = EP_do_login \<Longrightarrow> a h rq \<noteq> None"
    and rot: "\<And>h rq k. url rq = EP_rotate_api_key k \<Longrightarrow>
               \<exists>r j new. a h rq = Some r \<and> decoded r = Some j
                 \<and> getitem j ''key'' = Inr (JStr new) \<and> new \<noteq> EMPTY_VALUE"
  shows "analyzer w = a \<Longrightarrow> ssm w DT_API_KEY = Some k0 \<Longrightarrow> k0 \<noteq> EMPTY_VALUE \<Longrightarrow>
         ssm w DT_ROOT_PWD = Some pw \<Longrightarrow> pw \<noteq> EMPTY_VALUE \<Longrightarrow>
         \<exists>w' t. create_project n w = (Inl OutOfFuel, w') \<and> trace w' = trace w @ t
           \<and> length (calls is_creation t) = n \<and> length (calls is_rotation t) = n"
proof (induction n arbitrary: w k0)
  case 0
  have "create_project 0 w = (Inl OutOfFuel, w) \<and> trace w = trace w @ []
        \<and> length (calls is_creation []) = 0 \<and> length (calls is_rotation []) = 0"
    by (simp add: lift_def)
  then show ?case by blast
next
  case (Suc n)
  let ?w1 = "emit (SsmGet DT_API_KEY) w"
  let ?w2 = "?w1\<lparr>drawn := Suc (drawn ?w1)\<rparr>"
  let ?u = "uuids ?w1 (drawn ?w1)"
  let ?body = "JsonBody (JObj [(''author'', JStr ''EnrichmentLambda''),
                 (''version'', JStr ''1.0.0''), (''classifier'', JStr ''APPLICATION''),
                 (''name'', JStr (uuid_str ?u)),
                 (''description'', JStr ''auto generated project'')])"
  let ?rq = "\<lparr>meth = PUT, url = EP_create_project, headers = project_headers k0,
              content = ?body\<rparr>"
  have a1: "get_api_key w = (Inr k0, ?w1)" using Suc.prems(2,3) by (rule get_api_key_hit)
  have a2: "uuid4 ?w1 = (Inr ?u, ?w2)" by (simp add: uuid4_def)
  from rej [of ?rq "trace ?w2"] obtain r where
    r: "a (trace ?w2) ?rq = Some r" "status_code r = 401" by auto
  let ?w3 = "emit (Http ?rq (Some r)) ?w2"
  have a3: "http_put EP_create_project (project_headers k0) ?body ?w2 = (Inr r, ?w3)"
    using r(1) Suc.prems(1) by (simp add: http_put_def send_def emit_def)
  have "\<exists>t new. rotate_api_key ?w3
              = (Inr JNull, ?w3\<lparr>ssm := (ssm ?w3)(DT_API_KEY \<mapsto> new), trace := trace ?w3 @ t\<rparr>)
           \<and> calls is_rotation t = [EP_rotate_api_key k0] \<and> calls is_creation t = []
           \<and> new \<noteq> EMPTY_VALUE"
    by (rule rotate_api_key_hit [of ?w3 k0 pw])
       (use Suc.prems login rot in \<open>simp_all add: emit_def\<close>)
  then obtain t4 new where
    a4: "rotate_api_key ?w3
           = (Inr JNull, ?w3\<lparr>ssm := (ssm ?w3)(DT_API_KEY \<mapsto> new), trace := trace ?w3 @ t4\<rparr>)"
    and t4: "calls is_rotation t4 = [EP_rotate_api_key k0]" "calls is_creation t4 = []"
    and new: "new \<noteq> EMPTY_VALUE"
    by blast
  let ?w4 = "?w3\<lparr>ssm := (ssm ?w3)(DT_API_KEY \<mapsto> new), trace := trace ?w3 @ t4\<rparr>"
  have step: "create_project (Suc n) w = create_project n ?w4"
    unfolding create_project.simps Let_def
    apply (subst and_then_Inr [where m = get_api_key, OF a1])
    apply (subst and_then_Inr [where m = uuid4, OF a2])
    apply (subst and_then_Inr
        [where m = "http_put EP_create_project (project_headers k0) ?body", OF a3])
    apply (simp only: r(2) simp_thms if_True)
    apply (rule and_then_Inr [where m = rotate_api_key, OF a4])
    done
  have "\<exists>w' t. create_project n ?w4 = (Inl OutOfFuel, w') \<and> trace w' = trace ?w4 @ t
           \<and> length (calls is_creation t) = n \<and> length (calls is_rotation t) = n"
    by (rule Suc.IH [of ?w4 new])
       (use Suc.prems new in \<open>simp_all add: emit_def name_defs\<close>)
  then obtain w' t where
    ih: "create_project n ?w4 = (Inl OutOfFuel, w')" "trace w' = trace ?w4 @ t"
        "length (calls is_creation t) = n" "length (calls is_rotation t) = n"
    by blast
  let ?t = "[SsmGet DT_API_KEY, Http ?rq (Some r)] @ t4 @ t"
  have "create_project (Suc n) w = (Inl OutOfFuel, w')" using step ih(1) by simp
  moreover have "trace w' = trace w @ ?t" using ih(2) by (simp add: emit_def)
  moreover have "length (calls is_creation ?t) = Suc n" using t4 ih(3) by simp
  moreover have "length (calls is_rotation ?t) = Suc n" using t4 ih(4) by simp
  ultimately show ?case by blast
qed

lemma and_then_cases:
  assumes "and_then m f w = (r, w')"
  obtains (fail) e where "m w = (Inl e, w')" "r = Inl e"
        | (ok) x w1 where "m w = (Inr x, w1)" "f x w1 = (r, w')"
  using assms by (auto simp: and_then_def split: prod.splits sum.splits)

lemma create_project_Inr:
  "create_project n w = (Inr pid, w') \<Longrightarrow>
     \<exists>t rq r proj.
       trace w' = trace w @ t @ [Http rq (Some r), Log INFO ''ProjectCreated uuid= %s'']
       \<and> length (calls is_rotation t) = length (filter rejected t)
       \<and> length (calls is_creation t) = length (filter rejected t)
       \<and> url rq = EP_create_project \<and> status_code r \<noteq> 401
       \<and> decoded r = Some proj \<and> getitem proj ''uuid'' = Inr pid"
proof (induction n arbitrary: w)
  case 0
  then show ?case by (simp add: lift_def)
next
  case (Suc n)
  from Suc.prems obtain key w1 u w2 r w3 where
    a1: "get_api_key w = (Inr key, w1)" and a2: "uuid4 w1 = (Inr u, w2)"
    and a3: "send \<lparr>meth = PUT, url = EP_create_project, headers = project_headers key,
               content = JsonBody (JObj [(''author'', JStr ''EnrichmentLambda''),
                 (''version'', JStr ''1.0.0''), (''classifier'', JStr ''APPLICATION''),
                 (''name'', JStr (uuid_str u)),
                 (''description'', JStr ''auto generated project'')])\<rparr> w2 = (Inr r, w3)"
    and a4: "(if status_code r = 401
              then and_then rotate_api_key (\<lambda>_. create_project n)
              else and_then (lift (json_of r)) (\<lambda>proj.
                   and_then (lift (getitem proj ''uuid'')) (\<lambda>project_uuid.
                   and_then (logger_info ''ProjectCreated uuid= %s'') (\<lambda>_.
                   return project_uuid)))) w3 = (Inr pid, w')"
    unfolding create_project.simps Let_def http_put_def
    by (elim and_then_InrE) blast
  let ?rq = "\<lparr>meth = PUT, url = EP_create_project, headers = project_headers key,
               content = JsonBody (JObj [(''author'', JStr ''EnrichmentLambda''),
                 (''version'', JStr ''1.0.0''), (''classifier'', JStr ''APPLICATION''),
                 (''name'', JStr (uuid_str u)),
                 (''description'', JStr ''auto generated project'')])\<rparr>"
  from stepsD [OF steps_get_api_key a1, of "dt_event bootstrap_ep"] obtain t1 where
    t1: "trace w1 = trace w @ t1" "list_all (dt_event bootstrap_ep) t1"
    by (auto elim: addsE)
  have t1r: "calls is_rotation t1 = []"
    by (rule calls_none [OF t1(2)])
       (auto elim!: bootstrap_ep.elims teams_ep.elims login_ep.elims)
  have t1c: "calls is_creation t1 = []"
    by (rule calls_none [OF t1(2)])
       (auto elim!: bootstrap_ep.elims teams_ep.elims login_ep.elims)
  have t1j: "filter rejected t1 = []"
    by (rule rejected_none [OF t1(2)])
       (auto elim!: bootstrap_ep.elims teams_ep.elims login_ep.elims)
  from a2 have w2: "trace w2 = trace w1" by (auto simp: uuid4_def)
  from send_Inr [OF a3] have w3: "trace w3 = trace w2 @ [Http ?rq (Some r)]" by simp
  show ?case
  proof (cases "status_code r = 401")
    case False
    with a4 obtain proj where
      p: "json_of r = Inr proj" "getitem proj ''uuid'' = Inr pid"
         "w' = emit (Log INFO ''ProjectCreated uuid= %s'') w3"
      by (auto simp: lift_def return_def logger_info_def elim!: and_then_InrE)
    have dec: "decoded r = Some proj"
      using p(1) by (auto simp: json_of_def split: option.splits)
    have tr: "trace w' = trace w @ t1 @ [Http ?rq (Some r), Log INFO ''ProjectCreated uuid= %s'']"
      using p(3) w3 w2 t1(1) by simp
    have c1: "length (calls is_rotation t1) = length (filter rejected t1)"
      using t1r t1j by simp
    have c2: "length (calls is_creation t1) = length (filter rejected t1)"
      using t1c t1j by simp
    have u: "url ?rq = EP_create_project" by simp
    show ?thesis
      by (intro exI [of _ t1] exI [of _ ?rq] exI [of _ r] exI [of _ proj] conjI)
         (fact tr c1 c2 u False dec p(2))+
  next
    case True
    with a4 obtain x w4 where
      b1: "rotate_api_key w3 = (Inr x, w4)" and b2: "create_project n w4 = (Inr pid, w')"
      by (auto elim!: and_then_InrE)
    from stepsD [OF steps_rotate_api_key b1, of "dt_event rotate_ep"] obtain t4 where
      t4: "trace w4 = trace w3 @ t4" "list_all (dt_event rotate_ep) t4"
      by (auto elim: addsE)
    have t4c: "calls is_creation t4 = []"
      by (rule calls_none [OF t4(2)])
         (auto elim!: rotate_ep.elims bootstrap_ep.elims teams_ep.elims login_ep.elims)
    have t4j: "filter rejected t4 = []"
      by (rule rejected_none [OF t4(2)])
         (auto elim!: rotate_ep.elims bootstrap_ep.elims teams_ep.elims login_ep.elims)
    from rotate_api_key_Inr [OF b1] obtain old jwt rr new t4' where
      "trace w4 = trace w3 @ t4' @
             [Http \<lparr>meth = POST, url = EP_rotate_api_key old, headers = bearer jwt,
                    content = NoBody\<rparr> (Some rr),
              SsmPut DT_API_KEY new]"
      "calls is_rotation t4' = []"
      by blast
    with t4(1) have t4r: "length (calls is_rotation t4) = 1" by auto
    from Suc.IH [OF b2] obtain t rq r' proj where
      ih: "trace w' = trace w4 @ t @ [Http rq (Some r'), Log INFO ''ProjectCreated uuid= %s'']"
          "length (calls is_rotation t) = length (filter rejected t)"
          "length (calls is_creation t) = length (filter rejected t)"
          "url rq = EP_create_project" "status_code r' \<noteq> 401"
          "decoded r' = Some proj" "getitem proj ''uuid'' = Inr pid"
      by blast
    let ?t = "t1 @ [Http ?rq (Some r)] @ t4 @ t"
    have tr: "trace w' = trace w @ ?t @ [Http rq (Some r'), Log INFO ''ProjectCreated uuid= %s'']"
      using ih(1) t4(1) w3 w2 t1(1) by simp
    have c1: "length (calls is_rotation ?t) = length (filter rejected ?t)"
      using t1r t1j t4r t4j ih(2) True by simp
    have c2: "length (calls is_creation ?t) = length (filter rejected ?t)"
      using t1c t1j t4c t4j ih(3) True by simp
    show ?thesis
      by (intro exI [of _ ?t] exI [of _ rq] exI [of _ r'] exI [of _ proj] conjI)
         (fact tr c1 c2 ih(4) ih(5) ih(6) ih(7))+
  qed
qed

lemma upload_sbom_once:
  assumes "upload_sbom project_uuid bom w = (r, w')"
  shows "\<exists>t. trace w' = trace w @ t \<and> calls is_rotation t = []
           \<and> length (calls is_upload t) \<le> 1"
proof -
  obtain x w1 where a: "get_api_key w = (x, w1)" by (cases "get_api_key w")
  from stepsD [OF steps_get_api_key a, of "dt_event bootstrap_ep"] obtain t1 where
    t1: "trace w1 = trace w @ t1" "list_all (dt_event bootstrap_ep) t1"
    by (auto elim: addsE)
  have t1r: "calls is_rotation t1 = []"
    by (rule calls_none [OF t1(2)])
       (auto elim!: bootstrap_ep.elims teams_ep.elims login_ep.elims)
  have t1u: "calls is_upload t1 = []"
    by (rule calls_none [OF t1(2)])
       (auto elim!: bootstrap_ep.elims teams_ep.elims login_ep.elims)
  show ?thesis
  proof (cases x)
    case (Inl e)
    with assms a have "w' = w1" by (simp add: upload_sbom_def and_then_def)
    with t1 t1r t1u show ?thesis by auto
  next
    case (Inr key)
    with assms a have "\<exists>rq rp. url rq = EP_post_sbom \<and> trace w' = trace w1 @
        [Log INFO ''<BomUploadHeaders>'', Log INFO ''bom_upload_headers'',
         Log INFO ''</BomUploadHeaders>'', Http rq rp]"
      by (auto simp: upload_sbom_def and_then_def logger_info_def http_post_def send_def
          lift_def emit_def Let_def split: option.splits sum.splits)
    then obtain rq rp where "url rq = EP_post_sbom" "trace w' = trace w @ t1 @
        [Log INFO ''<BomUploadHeaders>'', Log INFO ''bom_upload_headers'',
         Log INFO ''</BomUploadHeaders>'', Http rq rp]"
      using t1(1) by auto
    moreover have "calls is_rotation (t1 @
        [Log INFO ''<BomUploadHeaders>'', Log INFO ''bom_upload_headers'',
         Log INFO ''</BomUploadHeaders>'', Http rq rp]) = []"
      using t1r \<open>url rq = EP_post_sbom\<close> by simp
    moreover have "length (calls is_upload (t1 @
        [Log INFO ''<BomUploadHeaders>'', Log INFO ''bom_upload_headers'',
         Log INFO ''</BomUploadHeaders>'', Http rq rp])) \<le> 1"
      using t1u by simp
    ultimately show ?thesis by blast
  qed
qed

lemma findings_ready_once:
  assumes "findings_ready key sbom_token w = (r, w')"
  shows "\<exists>rp. w' = emit (Http \<lparr>meth = GET, url = EP_get_sbom_status sbom_token,
                   headers = api_key_headers key, content = NoBody\<rparr> rp) w"
  using assms
  by (auto simp: findings_ready_def and_then_def http_get_def send_def lift_def return_def
      Let_def split: option.splits sum.splits)

lemma poll_run:
  "poll n key tok w = (r, w') \<Longrightarrow>
     \<exists>t. trace w' = trace w @ t \<and> list_all (poll_event tok) t
        \<and> length (filter is_sleep t) \<le> length (calls is_status t)
        \<and> length (calls is_status t) \<le> Suc (length (filter is_sleep t))"
proof (induction n arbitrary: w)
  case 0
  then show ?case by (auto simp: lift_def)
next
  case (Suc n)
  let ?rq = "\<lparr>meth = GET, url = EP_get_sbom_status tok,
                   headers = api_key_headers key, content = NoBody\<rparr>"
  from Suc.prems show ?case
    unfolding poll.simps
  proof (cases rule: and_then_cases)
    case (fail e)
    from findings_ready_once [OF fail(1)] obtain rp where "w' = emit (Http ?rq rp) w"
      by blast
    then have "trace w' = trace w @ [Http ?rq rp] \<and> list_all (poll_event tok) [Http ?rq rp]
        \<and> length (filter is_sleep [Http ?rq rp]) \<le> length (calls is_status [Http ?rq rp])
        \<and> length (calls is_status [Http ?rq rp]) \<le> Suc (length (filter is_sleep [Http ?rq rp]))"
      by simp
    then show ?thesis by blast
  next
    case (ok ready w1)
    from findings_ready_once [OF ok(1)] obtain rp where w1: "w1 = emit (Http ?rq rp) w"
      by blast
    show ?thesis
    proof (cases ready)
      case True
      with ok(2) have "w' = w1" by (simp add: return_def)
      with w1 have "trace w' = trace w @ [Http ?rq rp] \<and> list_all (poll_event tok) [Http ?rq rp]
        \<and> length (filter is_sleep [Http ?rq rp]) \<le> length (calls is_status [Http ?rq rp])
        \<and> length (calls is_status [Http ?rq rp]) \<le> Suc (length (filter is_sleep [Http ?rq rp]))"
        by simp
      then show ?thesis by blast
    next
      case False
      let ?w2 = "emit (Log INFO ''Not ready...'') (emit (Sleep 500) w1)"
      from False ok(2) have "poll n key tok ?w2 = (r, w')"
        by (simp add: and_then_def sleep_def logger_info_def)
      from Suc.IH [OF this] obtain t where
        t: "trace w' = trace ?w2 @ t" "list_all (poll_event tok) t"
           "length (filter is_sleep t) \<le> length (calls is_status t)"
           "length (calls is_status t) \<le> Suc (length (filter is_sleep t))"
        by blast
      let ?t = "[Http ?rq rp, Sleep 500, Log INFO ''Not ready...''] @ t"
      have "trace w' = trace w @ ?t" using t(1) w1 by simp
      moreover have "list_all (poll_event tok) ?t" using t(2) by simp
      moreover have "length (filter is_sleep ?t) \<le> length (calls is_status ?t)"
        using t(3) by simp
      moreover have "length (calls is_status ?t) \<le> Suc (length (filter is_sleep ?t))"
        using t(4) by simp
      ultimately show ?thesis by blast
    qed
  qed
qed

lemma sleeps_none: "list_all (dt_event U) t \<Longrightarrow> filter is_sleep t = []"
proof (induction t)
  case Nil
  show ?case by simp
next
  case (Cons e t)
  then show ?case by (cases e) auto
qed

lemma poll_event_sleeps: "list_all (poll_event tok) t \<Longrightarrow> e \<in> set t \<Longrightarrow> is_sleep e
    \<Longrightarrow> e = Sleep 500"
  by (cases e) (auto simp: list_all_iff)

lemma poll_event_calls:
  assumes "list_all (poll_event tok) t"
  shows "calls is_rotation t = []" "calls is_findings t = []" "calls is_deletion t = []"
    "calls is_creation t = []" "calls is_upload t = []"
  by (rule calls_none [OF assms]; auto)+

lemma bootstrap_calls:
  assumes "list_all (dt_event bootstrap_ep) t"
  shows "calls is_rotation t = []" "calls is_findings t = []" "calls is_deletion t = []"
    "calls is_creation t = []" "calls is_upload t = []" "calls is_status t = []"
  by (rule calls_none [OF assms];
      auto elim!: bootstrap_ep.elims teams_ep.elims login_ep.elims)+

lemma get_findings_run:
  assumes "get_findings n pid tok w = (r, w')"
  shows "\<exists>t. trace w' = trace w @ t \<and> calls is_rotation t = []
           \<and> length (calls is_findings t) \<le> 1
           \<and> (\<forall>e\<in>set t. is_sleep e \<longrightarrow> e = Sleep 500)
           \<and> length (filter is_sleep t) \<le> length (calls is_status t)
           \<and> length (calls is_status t) \<le> Suc (length (filter is_sleep t))"
proof -
  obtain x w1 where a: "get_api_key w = (x, w1)" by (cases "get_api_key w")
  from stepsD [OF steps_get_api_key a, of "dt_event bootstrap_ep"] obtain t1 where
    t1: "trace w1 = trace w @ t1" "list_all (dt_event bootstrap_ep) t1"
    by (auto elim: addsE)
  note c1 = bootstrap_calls [OF t1(2)] sleeps_none [OF t1(2)]
  show ?thesis
  proof (cases x)
    case (Inl e)
    with assms a have "w' = w1" by (simp add: get_findings_def and_then_def)
    with t1(1) c1 have "trace w' = trace w @ t1 \<and> calls is_rotation t1 = []
           \<and> length (calls is_findings t1) \<le> 1
           \<and> (\<forall>e\<in>set t1. is_sleep e \<longrightarrow> e = Sleep 500)
           \<and> length (filter is_sleep t1) \<le> length (calls is_status t1)
           \<and> length (calls is_status t1) \<le> Suc (length (filter is_sleep t1))"
      by (auto simp: filter_empty_conv)
    then show ?thesis by blast
  next
    case (Inr key)
    obtain y w2 where b: "poll n key tok w1 = (y, w2)" by (cases "poll n key tok w1")
    from poll_run [OF b] obtain t2 where
      t2: "trace w2 = trace w1 @ t2" "list_all (poll_event tok) t2"
          "length (filter is_sleep t2) \<le> length (calls is_status t2)"
          "length (calls is_status t2) \<le> Suc (length (filter is_sleep t2))"
      by blast
    note c2 = poll_event_calls [OF t2(2)]
    have s2: "\<forall>e\<in>set t2. is_sleep e \<longrightarrow> e = Sleep 500"
      using poll_event_sleeps [OF t2(2)] by blast
    have "\<exists>t3. trace w' = trace w2 @ t3 \<and> calls is_rotation t3 = []
            \<and> length (calls is_findings t3) \<le> 1 \<and> filter is_sleep t3 = []
            \<and> calls is_status t3 = []"
    proof (cases y)
      case (Inl e)
      with assms a b Inr have "w' = w2" by (simp add: get_findings_def and_then_def)
      then show ?thesis by simp
    next
      case (Inr u)
      with assms a b \<open>x = Inr key\<close> show ?thesis
        by (auto simp: get_findings_def and_then_def http_get_def send_def lift_def
            return_def logger_info_def emit_def Let_def json_of_def
            split: option.splits sum.splits)
    qed
    then obtain t3 where
      t3: "trace w' = trace w2 @ t3" "calls is_rotation t3 = []"
          "length (calls is_findings t3) \<le> 1" "filter is_sleep t3 = []"
          "calls is_status t3 = []"
      by blast
    let ?t = "t1 @ t2 @ t3"
    have s3: "\<forall>e\<in>set t3. \<not> is_sleep e" using t3(4) by (simp add: filter_empty_conv)
    have s1: "\<forall>e\<in>set t1. \<not> is_sleep e" using c1(7) by (simp add: filter_empty_conv)
    have "trace w' = trace w @ ?t" using t1(1) t2(1) t3(1) by simp
    moreover have "calls is_rotation ?t = []" using c1 c2 t3 by simp
    moreover have "length (calls is_findings ?t) \<le> 1" using c1 c2 t3 by simp
    moreover have "\<forall>e\<in>set ?t. is_sleep e \<longrightarrow> e = Sleep 500" using s1 s2 s3 by auto
    moreover have "length (filter is_sleep ?t) \<le> length (calls is_status ?t)"
      using c1 t2(3) t3 by simp
    moreover have "length (calls is_status ?t) \<le> Suc (length (filter is_sleep ?t))"
      using c1 t2(4) t3 by simp
    ultimately show ?thesis by blast
  qed
qed

lemma poll_busy:
  assumes busy: "\<And>h rq. url rq = EP_get_sbom_status tok \<Longrightarrow>
              \<exists>r j p. a h rq = Some r \<and> decoded r = Some j
                 \<and> getitem j ''processing'' = Inr p \<and> py_truthy p"
  shows "analyzer w = a \<Longrightarrow>
         \<exists>t. poll n key tok w = (Inl OutOfFuel, w\<lparr>trace := trace w @ t\<rparr>)
           \<and> calls is_status t = replicate n (EP_get_sbom_status tok)
           \<and> filter is_sleep t = replicate n (Sleep 500)
           \<and> calls is_findings t = []"
proof (induction n arbitrary: w)
  case 0
  have "poll 0 key tok w = (Inl OutOfFuel, w\<lparr>trace := trace w @ []\<rparr>)"
    by (simp add: lift_def)
  then show ?case by (intro exI [of _ "[]"]) simp
next
  case (Suc n)
  let ?rq = "\<lparr>meth = GET, url = EP_get_sbom_status tok,
                   headers = api_key_headers key, content = NoBody\<rparr>"
  from busy [of ?rq "trace w"] obtain r j p where
    r: "a (trace w) ?rq = Some r" "decoded r = Some j"
       "getitem j ''processing'' = Inr p" "py_truthy p"
    by auto
  let ?w1 = "emit (Http ?rq (Some r)) w"
  let ?w2 = "emit (Log INFO ''Not ready...'') (emit (Sleep 500) ?w1)"
  have fr: "findings_ready key tok w = (Inr False, ?w1)"
    using r Suc.prems
    by (simp add: findings_ready_def and_then_def http_get_def send_def lift_def return_def
        json_of_def)
  have step: "poll (Suc n) key tok w = poll n key tok ?w2"
    unfolding poll.simps
    apply (subst and_then_Inr [where m = "findings_ready key tok", OF fr])
    apply (simp add: and_then_def sleep_def logger_info_def)
    done
  have "analyzer ?w2 = a" using Suc.prems by (simp add: emit_def)
  from Suc.IH [OF this] obtain t where
    t: "poll n key tok ?w2 = (Inl OutOfFuel, ?w2\<lparr>trace := trace ?w2 @ t\<rparr>)"
       "calls is_status t = replicate n (EP_get_sbom_status tok)"
       "filter is_sleep t = replicate n (Sleep 500)"
       "calls is_findings t = []"
    by blast
  let ?t = "[Http ?rq (Some r), Sleep 500, Log INFO ''Not ready...''] @ t"
  have "poll (Suc n) key tok w = (Inl OutOfFuel, w\<lparr>trace := trace w @ ?t\<rparr>)"
    using step t(1) by (simp add: emit_def)
  moreover have "calls is_status ?t = replicate (Suc n) (EP_get_sbom_status tok)"
    using t(2) by simp
  moreover have "filter is_sleep ?t = replicate (Suc n) (Sleep 500)"
    using t(3) by simp
  moreover have "calls is_findings ?t = []" using t(4) by simp
  ultimately show ?case by blast
qed

lemma get_findings_busy:
  assumes "ssm w DT_API_KEY = Some key" and "key \<noteq> EMPTY_VALUE"
    and busy: "\<And>h rq. url rq = EP_get_sbom_status tok \<Longrightarrow>
              \<exists>r j p. analyzer w h rq = Some r \<and> decoded r = Some j
                 \<and> getitem j ''processing'' = Inr p \<and> py_truthy p"
  shows "\<exists>w' t. get_findings n pid tok w = (Inl OutOfFuel, w') \<and> trace w' = trace w @ t
           \<and> calls is_status t = replicate n (EP_get_sbom_status tok)
           \<and> filter is_sleep t = replicate n (Sleep 500)
           \<and> calls is_findings t = []"
proof -
  let ?w1 = "emit (SsmGet DT_API_KEY) w"
  have a: "get_api_key w = (Inr key, ?w1)" using assms(1,2) by (rule get_api_key_hit)
  have "analyzer ?w1 = analyzer w" by (simp add: emit_def)
  from poll_busy [of tok "analyzer w", OF busy this] obtain t where
    t: "poll n key tok ?w1 = (Inl OutOfFuel, ?w1\<lparr>trace := trace ?w1 @ t\<rparr>)"
       "calls is_status t = replicate n (EP_get_sbom_status tok)"
       "filter is_sleep t = replicate n (Sleep 500)"
       "calls is_findings t = []"
    by blast
  let ?w' = "?w1\<lparr>trace := trace ?w1 @ t\<rparr>"
  have run: "get_findings n pid tok w = (Inl OutOfFuel, ?w')"
    unfolding get_findings_def
    apply (subst and_then_Inr [where m = get_api_key, OF a])
    apply (rule and_then_Inl [where m = "poll n key tok", OF t(1)])
    done
  have "trace ?w' = trace w @ (SsmGet DT_API_KEY # t)" by simp
  moreover have "calls is_status (SsmGet DT_API_KEY # t) = replicate n (EP_get_sbom_status tok)"
    using t(2) by simp
  moreover have "filter is_sleep (SsmGet DT_API_KEY # t) = replicate n (Sleep 500)"
    using t(3) by simp
  moreover have "calls is_findings (SsmGet DT_API_KEY # t) = []" using t(4) by simp
  ultimately show ?thesis using run by blast
qed

lemma rotated_not_EMPTY: "k @ ''+'' \<noteq> EMPTY_VALUE"
proof
  assume "k @ ''+'' = EMPTY_VALUE"
  then have "last (k @ ''+'') = last EMPTY_VALUE" by simp
  then show False by (simp add: EMPTY_VALUE_def)
qed

lemma rejecting_analyzer_facts:
  "url rq = EP_create_project \<Longrightarrow>
     \<exists>r. rejecting_analyzer h rq = Some r \<and> status_code r = 401"
  "url rq = EP_do_login \<Longrightarrow> rejecting_analyzer h rq \<noteq> None"
  "url rq = EP_rotate_api_key k \<Longrightarrow>
     \<exists>r j new. rejecting_analyzer h rq = Some r \<and> decoded r = Some j
        \<and> getitem j ''key'' = Inr (JStr new) \<and> new \<noteq> EMPTY_VALUE"
  by (simp_all add: rejecting_analyzer_def scenario_analyzer_def ok_def rotated_not_EMPTY)

lemma busy_analyzer_facts:
  "url rq = EP_get_sbom_status tok \<Longrightarrow>
     \<exists>r j p. busy_analyzer h rq = Some r \<and> decoded r = Some j
        \<and> getitem j ''processing'' = Inr p \<and> py_truthy p"
  by (simp add: busy_analyzer_def ok_def)

lemma scenario_world_fields:
  "ssm (scenario_world\<lparr>analyzer := a\<rparr>) DT_API_KEY = Some ''key-0''"
  "ssm (scenario_world\<lparr>analyzer := a\<rparr>) DT_ROOT_PWD = Some ''s3cret''"
  "analyzer (scenario_world\<lparr>analyzer := a\<rparr>) = a"
  "trace (scenario_world\<lparr>analyzer := a\<rparr>) = []"
  "''key-0'' \<noteq> EMPTY_VALUE" "''s3cret'' \<noteq> EMPTY_VALUE"
  by (simp_all add: scenario_world_def name_defs)

lemma create_project_first_request:
  assumes "ssm w DT_API_KEY = Some k" and "k \<noteq> EMPTY_VALUE"
    and "create_project (Suc n) w = (r, w')"
  shows "\<exists>rp t. trace w' = trace w @ SsmGet DT_API_KEY #
           Http \<lparr>meth = PUT, url = EP_create_project, headers = project_headers k,
                 content = JsonBody (JObj [(''author'', JStr ''EnrichmentLambda''),
                   (''version'', JStr ''1.0.0''), (''classifier'', JStr ''APPLICATION''),
                   (''name'', JStr (uuid_str (uuids w (drawn w)))),
                   (''description'', JStr ''auto generated project'')])\<rparr> rp # t"
proof -
  let ?w1 = "emit (SsmGet DT_API_KEY) w"
  let ?w2 = "?w1\<lparr>drawn := Suc (drawn ?w1)\<rparr>"
  let ?body = "JsonBody (JObj [(''author'', JStr ''EnrichmentLambda''),
                   (''version'', JStr ''1.0.0''), (''classifier'', JStr ''APPLICATION''),
                   (''name'', JStr (uuid_str (uuids ?w1 (drawn ?w1)))),
                   (''description'', JStr ''auto generated project'')])"
  let ?rq = "\<lparr>meth = PUT, url = EP_create_project, headers = project_headers k,
              content = ?body\<rparr>"
  let ?rest = "\<lambda>create_proj_rsp.
     if status_code create_proj_rsp = 401
     then and_then rotate_api_key (\<lambda>_. create_project n)
     else and_then (lift (json_of create_proj_rsp)) (\<lambda>proj.
          and_then (lift (getitem proj ''uuid'')) (\<lambda>project_uuid.
          and_then (logger_info ''ProjectCreated uuid= %s'') (\<lambda>_.
          return project_uuid)))"
  have a1: "get_api_key w = (Inr k, ?w1)" using assms(1,2) by (rule get_api_key_hit)
  have a2: "uuid4 ?w1 = (Inr (uuids ?w1 (drawn ?w1)), ?w2)" by (simp add: uuid4_def)
  have run: "and_then (http_put EP_create_project (project_headers k) ?body) ?rest ?w2
               = (r, w')"
    using assms(3)
    unfolding create_project.simps Let_def
    apply (subst (asm) and_then_Inr [where m = get_api_key, OF a1])
    apply (subst (asm) and_then_Inr [where m = uuid4, OF a2])
    apply assumption
    done
  obtain x w3 where s: "send ?rq ?w2 = (x, w3)" by (cases "send ?rq ?w2")
  then have w3: "trace w3 = trace ?w2 @ [Http ?rq (analyzer ?w2 (trace ?w2) ?rq)]"
    by (auto simp: send_def Let_def)
  have rest: "\<And>rsp. steps (adds (\<lambda>e. True)) (?rest rsp)"
    by (intro steps_if steps_and_then steps_rotate_api_key steps_create_project steps_lift
        steps_logger_info steps_return) simp_all
  have "\<exists>t. trace w' = trace w3 @ t"
  proof (cases x)
    case (Inl e)
    with run s have "w' = w3" by (simp add: and_then_def http_put_def)
    then show ?thesis by simp
  next
    case (Inr rsp)
    with run s have "?rest rsp w3 = (r, w')" by (simp add: and_then_def http_put_def)
    from stepsD [OF rest this] show ?thesis by (auto elim: addsE)
  qed
  then obtain t where "trace w' = trace w3 @ t" by blast
  with w3 have "trace w' = trace w @ SsmGet DT_API_KEY #
      Http ?rq (analyzer ?w2 (trace ?w2) ?rq) # t"
    by (simp add: emit_def)
  then show ?thesis by (auto simp: emit_def)
qed

section \<open>Answers of 401\<close>

text \<open>
  C1, as the claim states it, fails. Against a server that answers 401 to every project
  creation, \<open>create_project\<close> followed to depth 3 has sent three rotation requests, not
  one, and has not returned: it has raised nothing.
\<close>

theorem create_project_single_rotation_counterexample:
  "fst (create_project 3 (scenario_world\<lparr>analyzer := rejecting_analyzer\<rparr>)) = Inl OutOfFuel
   \<and> length (calls is_rotation
        (trace (snd (create_project 3 (scenario_world\<lparr>analyzer := rejecting_analyzer\<rparr>))))) = 3"
proof -
  let ?w = "scenario_world\<lparr>analyzer := rejecting_analyzer\<rparr>"
  have "\<exists>w' t. create_project 3 ?w = (Inl OutOfFuel, w') \<and> trace w' = trace ?w @ t
           \<and> length (calls is_creation t) = 3 \<and> length (calls is_rotation t) = 3"
    by (rule always_rejected [of rejecting_analyzer ?w "''key-0''" "''s3cret''"])
       (erule rejecting_analyzer_facts | rule scenario_world_fields
       | simp only: scenario_world_fields(3))+
  then show ?thesis by (auto simp: scenario_world_fields)
qed

text \<open>
  C1, amended. Only project creation reacts to a 401: each 401 answer is followed by one
  call of \<open>rotate_api_key\<close> and one further attempt, which reads the key afresh and is
  treated in the same way. Nothing bounds the number of attempts and no authorisation
  error is raised: where Dependency-Track answers 401 to every creation (and answers
  logins and rotations), a run followed to depth \<open>n\<close> has sent \<open>n\<close> creation
  requests and \<open>n\<close> rotation requests and has not returned. A run that returns a
  project has sent one rotation per 401 answer and one creation request more than that.
  Every attempt starts by reading the API key and sends the key it read, so an attempt
  that follows a rotation carries the key the rotation stored.
  Upload, one status poll and findings retrieval send their request once, whatever the
  status of the answer, and never a rotation.
\<close>

theorem create_project_rotates_on_every_401:
  assumes "ssm w DT_API_KEY = Some k0" and "k0 \<noteq> EMPTY_VALUE"
    and "ssm w DT_ROOT_PWD = Some pw" and "pw \<noteq> EMPTY_VALUE"
    and "\<And>h rq. url rq = EP_create_project \<Longrightarrow>
           \<exists>r. analyzer w h rq = Some r \<and> status_code r = 401"
    and "\<And>h rq. url rq = EP_do_login \<Longrightarrow> analyzer w h rq \<noteq> None"
    and "\<And>h rq k. url rq = EP_rotate_api_key k \<Longrightarrow>
           \<exists>r j new. analyzer w h rq = Some r \<and> decoded r = Some j
              \<and> getitem j ''key'' = Inr (JStr new) \<and> new \<noteq> EMPTY_VALUE"
  shows "(\<exists>w' t. create_project n w = (Inl OutOfFuel, w') \<and> trace w' = trace w @ t
            \<and> length (calls is_creation t) = n \<and> length (calls is_rotation t) = n)
     \<and> (\<forall>m w0 pid w0'. create_project m w0 = (Inr pid, w0') \<longrightarrow>
           (\<exists>t. trace w0' = trace w0 @ t
              \<and> length (calls is_rotation t) = length (filter rejected t)
              \<and> length (calls is_creation t) = Suc (length (filter rejected t))))
     \<and> (\<forall>m w0 k r w0'. ssm w0 DT_API_KEY = Some k \<longrightarrow> k \<noteq> EMPTY_VALUE \<longrightarrow>
           create_project (Suc m) w0 = (r, w0') \<longrightarrow>
           (\<exists>rp t. trace w0' = trace w0 @ SsmGet DT_API_KEY #
              Http \<lparr>meth = PUT, url = EP_create_project, headers = project_headers k,
                 content = JsonBody (JObj [(''author'', JStr ''EnrichmentLambda''),
                   (''version'', JStr ''1.0.0''), (''classifier'', JStr ''APPLICATION''),
                   (''name'', JStr (uuid_str (uuids w0 (drawn w0)))),
                   (''description'', JStr ''auto generated project'')])\<rparr> rp # t))
     \<and> (\<forall>pid bom w0 r w0'. upload_sbom pid bom w0 = (r, w0') \<longrightarrow>
           (\<exists>t. trace w0' = trace w0 @ t \<and> calls is_rotation t = []
              \<and> length (calls is_upload t) \<le> 1))
     \<and> (\<forall>key tok w0 r w0'. findings_ready key tok w0 = (r, w0') \<longrightarrow>
           (\<exists>rp. w0' = emit (Http \<lparr>meth = GET, url = EP_get_sbom_status tok,
                      headers = api_key_headers key, content = NoBody\<rparr> rp) w0))
     \<and> (\<forall>m pid tok w0 r w0'. get_findings m pid tok w0 = (r, w0') \<longrightarrow>
           (\<exists>t. trace w0' = trace w0 @ t \<and> calls is_rotation t = []
              \<and> length (calls is_findings t) \<le> 1))"
proof (intro conjI allI impI)
  show "\<exists>w' t. create_project n w = (Inl OutOfFuel, w') \<and> trace w' = trace w @ t
            \<and> length (calls is_creation t) = n \<and> length (calls is_rotation t) = n"
    by (rule always_rejected [of "analyzer w" w k0 pw]) (use assms in simp_all)
next
  fix m w0 pid w0'
  assume "create_project m w0 = (Inr pid, w0')"
  from create_project_Inr [OF this] obtain t rq r where
    t: "trace w0' = trace w0 @ t @ [Http rq (Some r), Log INFO ''ProjectCreated uuid= %s'']"
       "length (calls is_rotation t) = length (filter rejected t)"
       "length (calls is_creation t) = length (filter rejected t)"
       "url rq = EP_create_project" "status_code r \<noteq> 401"
    by blast
  let ?t = "t @ [Http rq (Some r), Log INFO ''ProjectCreated uuid= %s'']"
  have "trace w0' = trace w0 @ ?t" using t(1) by simp
  moreover have "length (calls is_rotation ?t) = length (filter rejected ?t)"
    using t(2,4,5) by simp
  moreover have "length (calls is_creation ?t) = Suc (length (filter rejected ?t))"
    using t(3,4,5) by simp
  ultimately show "\<exists>t. trace w0' = trace w0 @ t
              \<and> length (calls is_rotation t) = length (filter rejected t)
              \<and> length (calls is_creation t) = Suc (length (filter rejected t))"
    by blast
next
  fix m w0 k r w0'
  assume "ssm w0 DT_API_KEY = Some k" "k \<noteq> EMPTY_VALUE"
    "create_project (Suc m) w0 = (r, w0')"
  then show "\<exists>rp t. trace w0' = trace w0 @ SsmGet DT_API_KEY #
              Http \<lparr>meth = PUT, url = EP_create_project, headers = project_headers k,
                 content = JsonBody (JObj [(''author'', JStr ''EnrichmentLambda''),
                   (''version'', JStr ''1.0.0''), (''classifier'', JStr ''APPLICATION''),
                   (''name'', JStr (uuid_str (uuids w0 (drawn w0)))),
                   (''description'', JStr ''auto generated project'')])\<rparr> rp # t"
    by (rule create_project_first_request)
next
  fix pid bom w0 r w0'
  assume "upload_sbom pid bom w0 = (r, w0')"
  then show "\<exists>t. trace w0' = trace w0 @ t \<and> calls is_rotation t = []
              \<and> length (calls is_upload t) \<le> 1"
    by (rule upload_sbom_once)
next
  fix key tok w0 r w0'
  assume "findings_ready key tok w0 = (r, w0')"
  then show "\<exists>rp. w0' = emit (Http \<lparr>meth = GET, url = EP_get_sbom_status tok,
                      headers = api_key_headers key, content = NoBody\<rparr> rp) w0"
    by (rule findings_ready_once)
next
  fix m pid tok w0 r w0'
  assume "get_findings m pid tok w0 = (r, w0')"
  from get_findings_run [OF this]
  show "\<exists>t. trace w0' = trace w0 @ t \<and> calls is_rotation t = []
              \<and> length (calls is_findings t) \<le> 1"
    by blast
qed

theorem create_project_rotates_on_every_401_witness:
  "\<exists>w' t. create_project 2 (scenario_world\<lparr>analyzer := rejecting_analyzer\<rparr>)
              = (Inl OutOfFuel, w')
          \<and> trace w' = trace (scenario_world\<lparr>analyzer := rejecting_analyzer\<rparr>) @ t
          \<and> length (calls is_creation t) = 2 \<and> length (calls is_rotation t) = 2"
  by (rule create_project_rotates_on_every_401
        [of "scenario_world\<lparr>analyzer := rejecting_analyzer\<rparr>" "''key-0''" "''s3cret''",
         THEN conjunct1])
     (erule rejecting_analyzer_facts | rule scenario_world_fields
       | simp only: scenario_world_fields(3))+

section \<open>Polling\<close>

text \<open>
  C2, as the claim states it, fails. On a server where the job never finishes,
  \<open>get_findings\<close> followed for four rounds has asked four times, slept four times and
  has not returned: no timeout has been raised.
\<close>

theorem get_findings_timeout_counterexample:
  "fst (get_findings 4 (JStr ''proj-1'') (JStr ''tok-1'')
          (scenario_world\<lparr>analyzer := busy_analyzer\<rparr>)) = Inl OutOfFuel
   \<and> filter is_sleep (trace (snd (get_findings 4 (JStr ''proj-1'') (JStr ''tok-1'')
          (scenario_world\<lparr>analyzer := busy_analyzer\<rparr>))))
       = [Sleep 500, Sleep 500, Sleep 500, Sleep 500]"
proof -
  let ?w = "scenario_world\<lparr>analyzer := busy_analyzer\<rparr>"
  have "\<exists>w' t. get_findings 4 (JStr ''proj-1'') (JStr ''tok-1'') ?w = (Inl OutOfFuel, w')
           \<and> trace w' = trace ?w @ t
           \<and> calls is_status t = replicate 4 (EP_get_sbom_status (JStr ''tok-1''))
           \<and> filter is_sleep t = replicate 4 (Sleep 500)
           \<and> calls is_findings t = []"
    by (rule get_findings_busy [of ?w "''key-0''"])
       (erule busy_analyzer_facts | rule scenario_world_fields
       | simp only: scenario_world_fields(3))+
  then show ?thesis by (auto simp: scenario_world_fields numeral_eq_Suc)
qed

text \<open>
  C2, amended. The polling phase asks for the status of the job and, after each answer
  that still reports processing, sleeps 500 milliseconds and asks again: every sleep of a
  run is one of 500 milliseconds, between two consecutive requests. Nothing bounds the
  number of rounds or the total wait, and no timeout is raised: where Dependency-Track
  reports processing at every poll, a run followed for \<open>n\<close> rounds has sent \<open>n\<close>
  status requests, slept \<open>n\<close> times and has not returned, whatever \<open>n\<close> is.
\<close>

theorem get_findings_polls_without_bound:
  assumes "ssm w DT_API_KEY = Some key" and "key \<noteq> EMPTY_VALUE"
    and "\<And>h rq. url rq = EP_get_sbom_status tok \<Longrightarrow>
           \<exists>r j p. analyzer w h rq = Some r \<and> decoded r = Some j
              \<and> getitem j ''processing'' = Inr p \<and> py_truthy p"
  shows "(\<exists>w' t. get_findings n pid tok w = (Inl OutOfFuel, w') \<and> trace w' = trace w @ t
            \<and> calls is_status t = replicate n (EP_get_sbom_status tok)
            \<and> filter is_sleep t = replicate n (Sleep 500)
            \<and> calls is_findings t = [])
     \<and> (\<forall>m p s w0 r w0'. get_findings m p s w0 = (r, w0') \<longrightarrow>
           (\<exists>t. trace w0' = trace w0 @ t
              \<and> (\<forall>e\<in>set t. is_sleep e \<longrightarrow> e = Sleep 500)
              \<and> length (filter is_sleep t) \<le> length (calls is_status t)
              \<and> length (calls is_status t) \<le> Suc (length (filter is_sleep t))))"
proof (intro conjI allI impI)
  show "\<exists>w' t. get_findings n pid tok w = (Inl OutOfFuel, w') \<and> trace w' = trace w @ t
            \<and> calls is_status t = replicate n (EP_get_sbom_status tok)
            \<and> filter is_sleep t = replicate n (Sleep 500)
            \<and> calls is_findings t = []"
    using assms by (rule get_findings_busy)
next
  fix m p s w0 r w0'
  assume "get_findings m p s w0 = (r, w0')"
  from get_findings_run [OF this]
  show "\<exists>t. trace w0' = trace w0 @ t
              \<and> (\<forall>e\<in>set t. is_sleep e \<longrightarrow> e = Sleep 500)
              \<and> length (filter is_sleep t) \<le> length (calls is_status t)
              \<and> length (calls is_status t) \<le> Suc (length (filter is_sleep t))"
    by blast
qed

theorem get_findings_polls_without_bound_witness:
  "\<exists>w' t. get_findings 3 (JStr ''proj-1'') (JStr ''tok-1'')
              (scenario_world\<lparr>analyzer := busy_analyzer\<rparr>) = (Inl OutOfFuel, w')
          \<and> trace w' = trace (scenario_world\<lparr>analyzer := busy_analyzer\<rparr>) @ t
          \<and> calls is_status t = replicate 3 (EP_get_sbom_status (JStr ''tok-1''))
          \<and> filter is_sleep t = replicate 3 (Sleep 500)
          \<and> calls is_findings t = []"
  by (rule get_findings_polls_without_bound
        [of "scenario_world\<lparr>analyzer := busy_analyzer\<rparr>" "''key-0''", THEN conjunct1])
     (erule busy_analyzer_facts | rule scenario_world_fields
       | simp only: scenario_world_fields(3))+

section \<open>The handlers outside the enrichment pipeline\<close>

text \<open>
  C10. For an event whose body decodes to \<open>bom_obj\<close>, with the bucket name in the
  environment: when the validator rejects \<open>bom_obj\<close>, the handler leaves the world as it
  found it but for the \<^verbatim>\<open>uuid4()\<close> it drew (nothing is put in S3); when it rejects with
  \<^verbatim>\<open>ValidationError\<close> the handler returns status 400 with the text of the error as
  body. When the validator accepts and the token is generated, the handler puts the
  encoded SBOM under the key \<open>sbom-\<close> followed by the fresh UUID and returns status 200.
\<close>

theorem pristine_sbom_ingress_handler_validation:
  assumes "get_body_from_event c event = Inr bom_obj"
    and "environ w SBOM_BUCKET_NAME_KEY = Some bucket"
    and "key = ''sbom-'' @ uuid_str (uuids w (drawn w))"
  shows "(\<forall>e. core_validate bom_obj = Inl e \<longrightarrow>
            snd (pristine_sbom_ingress_handler c core_validate gen event w)
              = w\<lparr>drawn := Suc (drawn w)\<rparr>)
     \<and> (\<forall>txt. core_validate bom_obj = Inl (ValidationError txt) \<longrightarrow>
            fst (pristine_sbom_ingress_handler c core_validate gen event w)
              = Inr \<lparr>statusCode = 400, isBase64Encoded = False, body = txt\<rparr>)
     \<and> (\<forall>tok w2. core_validate bom_obj = Inr () \<longrightarrow>
            gen (w\<lparr>drawn := Suc (drawn w)\<rparr>) = (Inr tok, w2) \<longrightarrow>
            pristine_sbom_ingress_handler c core_validate gen event w
              = (Inr \<lparr>statusCode = 200, isBase64Encoded = False,
                      body = dumps c (JObj [(''valid'', JBool True),
                                            (''s3BucketName'', JStr bucket),
                                            (''s3ObjectKey'', JStr key)])\<rparr>,
                 emit (S3Put bucket key \<lparr>Body = dumps c bom_obj,
                                         Metadata = [(ENRICHMENT_ID, tok)]\<rparr>)
                   (w2\<lparr>s3 := (s3 w2)((bucket, key) \<mapsto>
                            \<lparr>Body = dumps c bom_obj, Metadata = [(ENRICHMENT_ID, tok)]\<rparr>)\<rparr>)))"
  using assms
  by (auto simp: pristine_sbom_ingress_handler_def and_then_def lift_def environ_get_def
      uuid4_def s3_put_def create_pristine_response_obj_def Let_def
      split: error.splits)

theorem pristine_sbom_ingress_handler_validation_witness:
  "snd (pristine_sbom_ingress_handler scenario_codec (\<lambda>j. Inl (ValidationError ''not a BOM''))
          (return ''t-1'') (JObj [(''body'', JStr ''{}'')]) scenario_world)
     = scenario_world\<lparr>drawn := 1\<rparr>
   \<and> fst (pristine_sbom_ingress_handler scenario_codec (\<lambda>j. Inl (ValidationError ''not a BOM''))
          (return ''t-1'') (JObj [(''body'', JStr ''{}'')]) scenario_world)
     = Inr \<lparr>statusCode = 400, isBase64Encoded = False, body = ''not a BOM''\<rparr>
   \<and> statusCode (projr (fst (pristine_sbom_ingress_handler scenario_codec (\<lambda>j. Inr ())
          (return ''t-1'') (JObj [(''body'', JStr ''{}'')]) scenario_world))) = 200
   \<and> s3 (snd (pristine_sbom_ingress_handler scenario_codec (\<lambda>j. Inr ())
          (return ''t-1'') (JObj [(''body'', JStr ''{}'')]) scenario_world))
        (''sboms'', ''sbom-'' @ uuid_str 0)
       = Some \<lparr>Body = dumps scenario_codec (JObj []), Metadata = [(ENRICHMENT_ID, ''t-1'')]\<rparr>"
proof -
  have a: "get_body_from_event scenario_codec (JObj [(''body'', JStr ''{}'')]) = Inr (JObj [])"
    by (simp add: get_body_from_event_def first_record_def py_loads_def scenario_codec_def)
  have b: "environ scenario_world SBOM_BUCKET_NAME_KEY = Some ''sboms''"
    by (simp add: scenario_world_def)
  have d: "drawn scenario_world = 0" "uuids scenario_world 0 = 0"
    by (simp_all add: scenario_world_def)
  have g: "return ''t-1'' (scenario_world\<lparr>drawn := Suc (drawn scenario_world)\<rparr>)
             = (Inr ''t-1'', scenario_world\<lparr>drawn := Suc (drawn scenario_world)\<rparr>)"
    by (simp add: return_def)
  from pristine_sbom_ingress_handler_validation [OF a b refl,
      of "\<lambda>j. Inl (ValidationError ''not a BOM'')" "return ''t-1''"] d
  have rejected: "snd (pristine_sbom_ingress_handler scenario_codec
          (\<lambda>j. Inl (ValidationError ''not a BOM''))
          (return ''t-1'') (JObj [(''body'', JStr ''{}'')]) scenario_world)
     = scenario_world\<lparr>drawn := 1\<rparr>
   \<and> fst (pristine_sbom_ingress_handler scenario_codec (\<lambda>j. Inl (ValidationError ''not a BOM''))
          (return ''t-1'') (JObj [(''body'', JStr ''{}'')]) scenario_world)
     = Inr \<lparr>statusCode = 400, isBase64Encoded = False, body = ''not a BOM''\<rparr>"
    by simp
  from pristine_sbom_ingress_handler_validation [OF a b refl,
      of "\<lambda>j. Inr ()" "return ''t-1''"] g d
  have accepted: "statusCode (projr (fst (pristine_sbom_ingress_handler scenario_codec
          (\<lambda>j. Inr ())
          (return ''t-1'') (JObj [(''body'', JStr ''{}'')]) scenario_world))) = 200
   \<and> s3 (snd (pristine_sbom_ingress_handler scenario_codec (\<lambda>j. Inr ())
          (return ''t-1'') (JObj [(''body'', JStr ''{}'')]) scenario_world))
        (''sboms'', ''sbom-'' @ uuid_str 0)
       = Some \<lparr>Body = dumps scenario_codec (JObj []), Metadata = [(ENRICHMENT_ID, ''t-1'')]\<rparr>"
    by (simp add: emit_def)
  from rejected accepted show ?thesis by blast
qed

text \<open>
  C9. When the first entry of the team's token list carries the token asked for, the
  index found is 0, which \<^verbatim>\<open>if index:\<close> takes for false: the handler sends no update
  to the team table, which it leaves as it was, and returns the 401 response saying that
  no such token belongs to the team.
\<close>

theorem delete_token_handler_skips_first_token:
  assumes "pathParameters event = Some ps"
    and "map_of ps ''team'' = Some team_name" and "map_of ps ''token'' = Some token"
    and "team_table w team_name = Some team"
    and "getitem team ''tokens'' = Inr (JArr (t0 # rest))"
    and "getitem t0 ''token'' = Inr (JStr token)"
  shows "delete_token_handler c event w
           = (Inr (token_response_obj c 401 token
                 (Some (''No such token('' @ token @ '') belongs to team('' @ team_name
                        @ '') ''))),
              emit (DdbGet team_name) w)
         \<and> statusCode (token_response_obj c 401 token
                 (Some (''No such token('' @ token @ '') belongs to team('' @ team_name
                        @ '') ''))) = 401
         \<and> get_token_index (JArr (t0 # rest)) token = Inr (JNum 0)"
  using assms
  by (simp add: delete_token_handler_def and_then_def lift_def path_parameter_def
      ddb_get_item_def get_token_index_def return_def token_response_obj_def Let_def)

theorem delete_token_handler_skips_first_token_witness:
  "delete_token_handler scenario_codec
       \<lparr>pathParameters = Some [(''team'', ''team-a''), (''token'', ''sbom-api-1'')]\<rparr>
       scenario_world
     = (Inr (token_response_obj scenario_codec 401 ''sbom-api-1''
               (Some ''No such token(sbom-api-1) belongs to team(team-a) '')),
        emit (DdbGet ''team-a'') scenario_world)
   \<and> team_table (emit (DdbGet ''team-a'') scenario_world) ''team-a'' = Some scenario_team
   \<and> getitem scenario_team ''tokens''
       = Inr (JArr [JObj [(''name'', JStr ''ci''), (''token'', JStr ''sbom-api-1'')],
                    JObj [(''name'', JStr ''cd''), (''token'', JStr ''sbom-api-2'')]])"
proof -
  let ?ev = "\<lparr>pathParameters = Some [(''team'', ''team-a''), (''token'', ''sbom-api-1'')]\<rparr>"
  have a: "pathParameters ?ev = Some [(''team'', ''team-a''), (''token'', ''sbom-api-1'')]"
    by simp
  have b: "map_of [(''team'', ''team-a''), (''token'', ''sbom-api-1'')] ''team'' = Some ''team-a''"
    by simp
  have c: "map_of [(''team'', ''team-a''), (''token'', ''sbom-api-1'')] ''token''
             = Some ''sbom-api-1''"
    by simp
  have d: "team_table scenario_world ''team-a'' = Some scenario_team"
    by (simp add: scenario_world_def)
  have e: "getitem scenario_team ''tokens''
       = Inr (JArr (JObj [(''name'', JStr ''ci''), (''token'', JStr ''sbom-api-1'')] #
                    [JObj [(''name'', JStr ''cd''), (''token'', JStr ''sbom-api-2'')]]))"
    by (simp add: scenario_team_def)
  have f: "getitem (JObj [(''name'', JStr ''ci''), (''token'', JStr ''sbom-api-1'')]) ''token''
             = Inr (JStr ''sbom-api-1'')"
    by simp
  from delete_token_handler_skips_first_token [OF a b c d e f, of scenario_codec] d e
  show ?thesis by (simp add: emit_def)
qed

lemma and_then_assoc: "and_then (and_then m f) g = and_then m (\<lambda>x. and_then (f x) g)"
  by (rule ext) (simp add: and_then_def split: prod.splits sum.splits)

lemma and_then_return: "and_then (return x) f = f x"
  by (rule ext) (simp add: and_then_def return_def)

lemma dt_interface_handler_split:
  "dt_interface_handler fuel c event =
     and_then (analysis fuel c event) (\<lambda>x.
       and_then (delete_project (fst (snd (snd x)))) (\<lambda>_.
       and_then (s3_put (fst x) (''findings-'' @ fst (snd x))
                   \<lparr>Body = dumps c (snd (snd (snd x))), Metadata = []\<rparr>) (\<lambda>_.
       return True)))"
  unfolding dt_interface_handler_def analysis_def Let_def
  by (simp add: and_then_assoc and_then_return)

lemma before_cleanup_dt_event:
  "dt_event U e \<Longrightarrow> (\<And>ep. U ep \<Longrightarrow> \<not> is_deletion ep) \<Longrightarrow> before_cleanup e"
  by (cases e) auto

lemma rotate_ep_not_deletion: "rotate_ep ep \<Longrightarrow> \<not> is_deletion ep"
  by (cases ep) auto

lemma bootstrap_ep_not_deletion: "bootstrap_ep ep \<Longrightarrow> \<not> is_deletion ep"
  by (cases ep) auto

lemma before_cleanup_rotate: "dt_event rotate_ep e \<Longrightarrow> before_cleanup e"
  by (erule before_cleanup_dt_event) (rule rotate_ep_not_deletion)

lemma before_cleanup_bootstrap: "dt_event bootstrap_ep e \<Longrightarrow> before_cleanup e"
  by (erule before_cleanup_dt_event) (rule bootstrap_ep_not_deletion)

lemma steps_s3_get: "Q (S3Get b k) \<Longrightarrow> steps (adds Q) (s3_get b k)"
  by (auto simp: steps_def s3_get_def adds_emit)

lemma steps_validate: "steps (adds Q) (validate event)"
  by (simp add: validate_def steps_lift steps_return)

lemma steps_analysis: "steps (adds before_cleanup) (analysis fuel c event)"
  unfolding analysis_def
  by (intro steps_and_then steps_validate steps_lift steps_s3_get steps_create_project
      steps_upload_sbom steps_get_findings steps_return)
     (auto intro: before_cleanup_rotate before_cleanup_bootstrap)

lemma before_cleanup_calls:
  assumes "list_all before_cleanup t"
  shows "calls is_deletion t = []"
  by (rule calls_none [OF assms]) auto

lemma get_findings_Inr:
  assumes "get_findings n pid tok w = (Inr findings, w')"
  shows "\<exists>t frq fr. trace w' = trace w @ t \<and> Http frq (Some fr) \<in> set t
           \<and> url frq = EP_get_findings pid \<and> decoded fr = Some findings"
proof -
  from assms obtain key w1 w2 fr w3 where
    a: "get_api_key w = (Inr key, w1)" and b: "poll n key tok w1 = (Inr (), w2)"
    and c: "send \<lparr>meth = GET, url = EP_get_findings pid, headers = api_key_headers key,
                  content = NoBody\<rparr> w2 = (Inr fr, w3)"
    and d: "json_of fr = Inr findings"
    and e: "trace w' = trace w3 @ [Log INFO ''<Results are in!>'', Log INFO ''json'',
                                   Log INFO ''</Results are in!>'']"
    unfolding get_findings_def http_get_def
    by (auto simp: lift_def return_def logger_info_def emit_def elim!: and_then_InrE)
  let ?rq = "\<lparr>meth = GET, url = EP_get_findings pid, headers = api_key_headers key,
                  content = NoBody\<rparr>"
  from stepsD [OF steps_get_api_key a, of "\<lambda>e. True"] obtain t1 where
    t1: "trace w1 = trace w @ t1" by (auto elim: addsE)
  from poll_run [OF b] obtain t2 where t2: "trace w2 = trace w1 @ t2" by blast
  from send_Inr [OF c] have w3: "trace w3 = trace w2 @ [Http ?rq (Some fr)]" by simp
  let ?t = "t1 @ t2 @ [Http ?rq (Some fr), Log INFO ''<Results are in!>'', Log INFO ''json'',
                                   Log INFO ''</Results are in!>'']"
  have tr: "trace w' = trace w @ ?t" using e w3 t2 t1 by simp
  have mem: "Http ?rq (Some fr) \<in> set ?t" by simp
  have u: "url ?rq = EP_get_findings pid" by simp
  have dec: "decoded fr = Some findings"
    using d by (auto simp: json_of_def split: option.splits)
  show ?thesis
    by (intro exI [of _ ?t] exI [of _ ?rq] exI [of _ fr] conjI) (fact tr mem u dec)+
qed

lemma analysis_Inr:
  assumes "analysis fuel c event w = (Inr x, w')"
  shows "\<exists>s3_info t crq cr proj frq fr.
           get_body_from_first_record c event = Inr s3_info
           \<and> getitem s3_info SBOM_BUCKET_NAME_KEY = Inr (JStr (fst x))
           \<and> getitem s3_info SBOM_S3_KEY = Inr (JStr (fst (snd x)))
           \<and> trace w' = trace w @ t \<and> list_all before_cleanup t \<and> s3 w' = s3 w
           \<and> Http crq (Some cr) \<in> set t \<and> url crq = EP_create_project
           \<and> status_code cr \<noteq> 401
           \<and> decoded cr = Some proj \<and> getitem proj ''uuid'' = Inr (fst (snd (snd x)))
           \<and> Http frq (Some fr) \<in> set t \<and> url frq = EP_get_findings (fst (snd (snd x)))
           \<and> decoded fr = Some (snd (snd (snd x)))"
proof -
  from assms obtain s3_info bucket_name key b k obj w1 bom pid w2 tok w3 findings where
    a: "get_body_from_first_record c event = Inr s3_info"
    and b: "getitem s3_info SBOM_BUCKET_NAME_KEY = Inr bucket_name"
           "getitem s3_info SBOM_S3_KEY = Inr key"
           "str_param bucket_name = Inr b" "str_param key = Inr k"
    and g: "s3_get b k w = (Inr obj, w1)"
    and cp: "create_project fuel w1 = (Inr pid, w2)"
    and up: "upload_sbom pid bom w2 = (Inr tok, w3)"
    and gf: "get_findings fuel pid tok w3 = (Inr findings, w')"
    and x: "x = (b, k, pid, findings)"
    unfolding analysis_def
    by (auto simp: lift_def return_def validate_def split: if_splits elim!: and_then_InrE)
  from b(3) have bn: "bucket_name = JStr b" by (cases bucket_name) auto
  from b(4) have kn: "key = JStr k" by (cases key) auto
  from g have w1: "trace w1 = trace w @ [S3Get b k]" by (auto simp: s3_get_def)
  from create_project_Inr [OF cp] obtain t2 crq cr proj where
    t2: "trace w2 = trace w1 @ t2 @ [Http crq (Some cr), Log INFO ''ProjectCreated uuid= %s'']"
        "url crq = EP_create_project" "decoded cr = Some proj"
        "getitem proj ''uuid'' = Inr pid" "status_code cr \<noteq> 401"
    by blast
  from upload_sbom_once [OF up] obtain t3 where t3: "trace w3 = trace w2 @ t3" by blast
  from get_findings_Inr [OF gf] obtain t4 frq fr where
    t4: "trace w' = trace w3 @ t4" "Http frq (Some fr) \<in> set t4"
        "url frq = EP_get_findings pid" "decoded fr = Some findings"
    by blast
  from stepsD [OF steps_analysis assms] obtain t where
    t: "trace w' = trace w @ t" "list_all before_cleanup t" "s3 w' = s3 w"
    by (auto elim: addsE)
  have teq: "t = [S3Get b k] @ t2 @ [Http crq (Some cr), Log INFO ''ProjectCreated uuid= %s'']
               @ t3 @ t4"
    using t(1) t4(1) t3 t2(1) w1 by simp
  have m1: "Http crq (Some cr) \<in> set t" using teq by simp
  have m2: "Http frq (Some fr) \<in> set t" using teq t4(2) by simp
  have g1: "getitem s3_info SBOM_BUCKET_NAME_KEY = Inr (JStr (fst x))"
    using b(1) bn x by simp
  have g2: "getitem s3_info SBOM_S3_KEY = Inr (JStr (fst (snd x)))"
    using b(2) kn x by simp
  have p1: "getitem proj ''uuid'' = Inr (fst (snd (snd x)))" using t2(4) x by simp
  have f1: "url frq = EP_get_findings (fst (snd (snd x)))" using t4(3) x by simp
  have f2: "decoded fr = Some (snd (snd (snd x)))" using t4(4) x by simp
  show ?thesis
    by (intro exI [of _ s3_info] exI [of _ t] exI [of _ crq] exI [of _ cr] exI [of _ proj]
        exI [of _ frq] exI [of _ fr] conjI)
       (fact a g1 g2 t(1) t(2) t(3) m1 t2(2) t2(5) t2(3) p1 m2 f1 f2)+
qed

lemma scenario_run:
  "fst (dt_interface_handler 3 scenario_codec scenario_message scenario_world) = Inr True"
  by (simp add: dt_interface_handler_def validate_def get_body_from_first_record_def
      first_record_def py_loads_def py_decode_def s3_get_def s3_put_def
      upload_sbom_def get_findings_def findings_ready_def delete_project_def
      rotate_api_key_def get_api_key_hit get_jwt_def get_root_password_hit
      scenario_world_def scenario_analyzer_def scenario_message_def scenario_codec_def
      ok_def run_defs name_defs SBOM_BUCKET_NAME_KEY_def SBOM_S3_KEY_def Let_def
      numeral_3_eq_3)

lemma scenario_unreachable_run:
  "fst (dt_interface_handler 3 scenario_codec scenario_message
          (scenario_world\<lparr>analyzer := unreachable_for_delete\<rparr>)) = Inl ConnectionError
   \<and> s3 (snd (dt_interface_handler 3 scenario_codec scenario_message
          (scenario_world\<lparr>analyzer := unreachable_for_delete\<rparr>)))
        (''sboms'', ''findings-sbom-abc'') = None"
  by (simp add: dt_interface_handler_def validate_def get_body_from_first_record_def
      first_record_def py_loads_def py_decode_def s3_get_def s3_put_def
      upload_sbom_def get_findings_def findings_ready_def delete_project_def
      rotate_api_key_def get_api_key_hit get_jwt_def get_root_password_hit
      scenario_world_def scenario_analyzer_def unreachable_for_delete_def
      scenario_message_def scenario_codec_def
      ok_def run_defs name_defs SBOM_BUCKET_NAME_KEY_def SBOM_S3_KEY_def Let_def
      numeral_3_eq_3)

lemma delete_project_run:
  assumes "delete_project pid w = (r, w')"
  obtains (no_key) t where "trace w' = trace w @ t" "list_all (dt_event bootstrap_ep) t"
      "s3 w' = s3 w" "\<forall>x. r \<noteq> Inr x"
  | (sent) t key rp where
      "trace w' = trace w @ t @ [Http \<lparr>meth = PUT, url = EP_delete_project pid,
                                      headers = project_headers key, content = NoBody\<rparr> rp]"
      "list_all (dt_event bootstrap_ep) t" "s3 w' = s3 w"
      "r = (case rp of None \<Rightarrow> Inl ConnectionError | Some x \<Rightarrow> Inr JNull)"
proof -
  obtain x w1 where a: "get_api_key w = (x, w1)" by (cases "get_api_key w")
  from stepsD [OF steps_get_api_key a, of "dt_event bootstrap_ep"] obtain t1 where
    t1: "trace w1 = trace w @ t1" "list_all (dt_event bootstrap_ep) t1" "s3 w1 = s3 w"
    by (auto elim: addsE)
  show thesis
  proof (cases x)
    case (Inl e)
    with assms a have "w' = w1" "r = Inl e" by (simp_all add: delete_project_def and_then_def)
    with t1 show thesis by (intro no_key [of t1]) auto
  next
    case (Inr key)
    let ?rq = "\<lparr>meth = PUT, url = EP_delete_project pid,
                headers = project_headers key, content = NoBody\<rparr>"
    let ?logs = "[Log INFO ''<DeletingProject>'', Log INFO ''project_uuid'',
                  Log INFO ''</DeletingProject>'']"
    from assms a Inr have "\<exists>rp. trace w' = trace w1 @ ?logs @ [Http ?rq rp] \<and> s3 w' = s3 w1
         \<and> r = (case rp of None \<Rightarrow> Inl ConnectionError | Some x \<Rightarrow> Inr JNull)"
      by (auto simp: delete_project_def and_then_def logger_info_def http_put_def send_def
          return_def emit_def Let_def split: option.splits)
    then obtain rp where
      rp: "trace w' = trace w1 @ ?logs @ [Http ?rq rp]" "s3 w' = s3 w1"
          "r = (case rp of None \<Rightarrow> Inl ConnectionError | Some x \<Rightarrow> Inr JNull)"
      by blast
    show thesis
    proof (rule sent [of "t1 @ ?logs" key rp])
      show "trace w' = trace w @ (t1 @ ?logs) @ [Http ?rq rp]" using rp(1) t1(1) by simp
      show "list_all (dt_event bootstrap_ep) (t1 @ ?logs)" using t1(2) by simp
      show "s3 w' = s3 w" using rp(2) t1(3) by simp
      show "r = (case rp of None \<Rightarrow> Inl ConnectionError | Some x \<Rightarrow> Inr JNull)" by (rule rp(3))
    qed
  qed
qed

lemma before_cleanup_no_answer:
  "list_all before_cleanup t \<Longrightarrow> Http rq rp \<in> set t \<Longrightarrow> \<not> is_deletion (url rq)"
  by (auto simp: list_all_iff)

lemma before_cleanup_no_warning: "list_all before_cleanup t \<Longrightarrow> Log WARNING msg \<notin> set t"
  by (auto simp: list_all_iff)

lemma bootstrap_before_cleanup:
  "list_all (dt_event bootstrap_ep) t \<Longrightarrow> list_all before_cleanup t"
  by (auto simp: list_all_iff intro: before_cleanup_bootstrap)

section \<open>The enrichment pipeline\<close>

text \<open>
  C5. A run of \<open>dt_interface_handler\<close> that returns has returned \<open>True\<close>. The
  message carried a bucket \<open>b\<close> and a key \<open>k\<close>; a project was created and
  Dependency-Track, in an answer other than 401, gave it the id \<open>pid\<close>; the
  findings were fetched for \<open>pid\<close>;
  exactly one deletion request was sent, and it names \<open>pid\<close>; the last effect of the
  run is the write, to bucket \<open>b\<close> under the key \<open>findings-\<close> followed by \<open>k\<close>,
  of the encoded findings without metadata, and that object is what the bucket holds
  there when the handler returns.
\<close>

theorem dt_interface_handler_stores_findings:
  assumes "dt_interface_handler fuel c event w = (Inr result, w')"
  shows "result = True \<and>
     (\<exists>s3_info b k t pid crq cr proj frq fr findings.
        get_body_from_first_record c event = Inr s3_info
        \<and> getitem s3_info SBOM_BUCKET_NAME_KEY = Inr (JStr b)
        \<and> getitem s3_info SBOM_S3_KEY = Inr (JStr k)
        \<and> trace w' = trace w @ t @
             [S3Put b (''findings-'' @ k) \<lparr>Body = dumps c findings, Metadata = []\<rparr>]
        \<and> s3 w' (b, ''findings-'' @ k) = Some \<lparr>Body = dumps c findings, Metadata = []\<rparr>
        \<and> Http crq (Some cr) \<in> set t \<and> url crq = EP_create_project
        \<and> status_code cr \<noteq> 401
        \<and> decoded cr = Some proj \<and> getitem proj ''uuid'' = Inr pid
        \<and> Http frq (Some fr) \<in> set t \<and> url frq = EP_get_findings pid
        \<and> decoded fr = Some findings
        \<and> calls is_deletion t = [EP_delete_project pid])"
proof -
  from assms obtain x w4 y w5 where
    an: "analysis fuel c event w = (Inr x, w4)"
    and del: "delete_project (fst (snd (snd x))) w4 = (Inr y, w5)"
    and put: "s3_put (fst x) (''findings-'' @ fst (snd x))
                 \<lparr>Body = dumps c (snd (snd (snd x))), Metadata = []\<rparr> w5 = (Inr (), w')"
    and res: "result = True"
    unfolding dt_interface_handler_split
    by (auto simp: return_def elim!: and_then_InrE)
  let ?b = "fst x" and ?k = "fst (snd x)" and ?pid = "fst (snd (snd x))"
  let ?findings = "snd (snd (snd x))"
  let ?obj = "\<lparr>Body = dumps c ?findings, Metadata = []\<rparr>"
  from analysis_Inr [OF an] obtain s3_info t4 crq cr proj frq fr where
    a: "get_body_from_first_record c event = Inr s3_info"
       "getitem s3_info SBOM_BUCKET_NAME_KEY = Inr (JStr ?b)"
       "getitem s3_info SBOM_S3_KEY = Inr (JStr ?k)"
       "trace w4 = trace w @ t4" "list_all before_cleanup t4"
       "Http crq (Some cr) \<in> set t4" "url crq = EP_create_project"
       "decoded cr = Some proj" "getitem proj ''uuid'' = Inr ?pid"
       "Http frq (Some fr) \<in> set t4" "url frq = EP_get_findings ?pid"
       "decoded fr = Some ?findings" "status_code cr \<noteq> 401"
    by blast
  from del obtain t5 key rp where
    d: "trace w5 = trace w4 @ t5 @ [Http \<lparr>meth = PUT, url = EP_delete_project ?pid,
                                      headers = project_headers key, content = NoBody\<rparr> rp]"
       "list_all (dt_event bootstrap_ep) t5"
    by (cases rule: delete_project_run) auto
  let ?drq = "\<lparr>meth = PUT, url = EP_delete_project ?pid,
                headers = project_headers key, content = NoBody\<rparr>"
  let ?t = "t4 @ t5 @ [Http ?drq rp]"
  from put have w': "w' = emit (S3Put ?b (''findings-'' @ ?k) ?obj)
                           (w5\<lparr>s3 := (s3 w5)((?b, ''findings-'' @ ?k) \<mapsto> ?obj)\<rparr>)"
    by (simp add: s3_put_def)
  have tr: "trace w' = trace w @ ?t @ [S3Put ?b (''findings-'' @ ?k) ?obj]"
    using w' d(1) a(4) by (simp add: emit_def)
  have st: "s3 w' (?b, ''findings-'' @ ?k) = Some ?obj" using w' by (simp add: emit_def)
  have m1: "Http crq (Some cr) \<in> set ?t" using a(6) by simp
  have m2: "Http frq (Some fr) \<in> set ?t" using a(10) by simp
  have dl: "calls is_deletion ?t = [EP_delete_project ?pid]"
    using before_cleanup_calls [OF a(5)] bootstrap_calls(3) [OF d(2)] by simp
  have "\<exists>s3_info b k t pid crq cr proj frq fr findings.
        get_body_from_first_record c event = Inr s3_info
        \<and> getitem s3_info SBOM_BUCKET_NAME_KEY = Inr (JStr b)
        \<and> getitem s3_info SBOM_S3_KEY = Inr (JStr k)
        \<and> trace w' = trace w @ t @
             [S3Put b (''findings-'' @ k) \<lparr>Body = dumps c findings, Metadata = []\<rparr>]
        \<and> s3 w' (b, ''findings-'' @ k) = Some \<lparr>Body = dumps c findings, Metadata = []\<rparr>
        \<and> Http crq (Some cr) \<in> set t \<and> url crq = EP_create_project
        \<and> status_code cr \<noteq> 401
        \<and> decoded cr = Some proj \<and> getitem proj ''uuid'' = Inr pid
        \<and> Http frq (Some fr) \<in> set t \<and> url frq = EP_get_findings pid
        \<and> decoded fr = Some findings
        \<and> calls is_deletion t = [EP_delete_project pid]"
    by (intro exI [of _ s3_info] exI [of _ ?b] exI [of _ ?k] exI [of _ ?t] exI [of _ ?pid]
        exI [of _ crq] exI [of _ cr] exI [of _ proj] exI [of _ frq] exI [of _ fr]
        exI [of _ ?findings] conjI)
       (fact a(1) a(2) a(3) tr st m1 a(7) a(13) a(8) a(9) m2 a(11) a(12) dl)+
  with res show ?thesis by blast
qed

lemmas scenario_defs =
  dt_interface_handler_def validate_def get_body_from_first_record_def
  first_record_def py_loads_def py_decode_def s3_get_def s3_put_def
  upload_sbom_def get_findings_def findings_ready_def delete_project_def
  rotate_api_key_def get_api_key_hit get_jwt_def get_root_password_hit
  scenario_world_def scenario_analyzer_def scenario_message_def scenario_codec_def
  ok_def run_defs name_defs SBOM_BUCKET_NAME_KEY_def SBOM_S3_KEY_def Let_def
  numeral_3_eq_3

lemma scenario_stored:
  "s3 (snd (dt_interface_handler 3 scenario_codec scenario_message scenario_world))
     (''sboms'', ''findings-sbom-abc'')
     = Some \<lparr>Body = dumps scenario_codec (JObj [(''vulns'', JArr [])]), Metadata = []\<rparr>
   \<and> calls is_deletion
        (trace (snd (dt_interface_handler 3 scenario_codec scenario_message scenario_world)))
     = [EP_delete_project (JStr ''proj-1'')]"
  by (simp add: scenario_defs)

lemma scenario_failing_delete:
  "fst (dt_interface_handler 3 scenario_codec scenario_message
          (scenario_world\<lparr>analyzer := failing_delete\<rparr>)) = Inr True
   \<and> Http \<lparr>meth = PUT, url = EP_delete_project (JStr ''proj-1''),
           headers = project_headers ''key-0'', content = NoBody\<rparr>
        (Some \<lparr>status_code = 500, resp_text = [], decoded = None\<rparr>)
      \<in> set (trace (snd (dt_interface_handler 3 scenario_codec scenario_message
          (scenario_world\<lparr>analyzer := failing_delete\<rparr>))))"
  by (simp add: scenario_defs failing_delete_def)

theorem dt_interface_handler_stores_findings_witness:
  "dt_interface_handler 3 scenario_codec scenario_message scenario_world
     = (Inr True, snd (dt_interface_handler 3 scenario_codec scenario_message scenario_world))
   \<and> s3 (snd (dt_interface_handler 3 scenario_codec scenario_message scenario_world))
       (''sboms'', ''findings-sbom-abc'')
     = Some \<lparr>Body = dumps scenario_codec (JObj [(''vulns'', JArr [])]), Metadata = []\<rparr>
   \<and> (\<exists>t b k findings.
        trace (snd (dt_interface_handler 3 scenario_codec scenario_message scenario_world))
          = trace scenario_world @ t @
             [S3Put b (''findings-'' @ k)
                \<lparr>Body = dumps scenario_codec findings, Metadata = []\<rparr>])"
proof -
  have run: "dt_interface_handler 3 scenario_codec scenario_message scenario_world
     = (Inr True, snd (dt_interface_handler 3 scenario_codec scenario_message scenario_world))"
    using scenario_run by (simp add: prod_eq_iff)
  from dt_interface_handler_stores_findings [OF run] run scenario_stored
  show ?thesis by blast
qed

text \<open>
  C6, as the claim states it, fails. When the deletion request cannot be delivered, the
  exception ends the run: the handler returns the error and no findings are stored.
\<close>

theorem delete_failure_is_fatal_counterexample:
  "fst (dt_interface_handler 3 scenario_codec scenario_message
          (scenario_world\<lparr>analyzer := unreachable_for_delete\<rparr>)) = Inl ConnectionError
   \<and> s3 (snd (dt_interface_handler 3 scenario_codec scenario_message
          (scenario_world\<lparr>analyzer := unreachable_for_delete\<rparr>)))
        (''sboms'', ''findings-sbom-abc'') = None"
  by (rule scenario_unreachable_run)

text \<open>
  C6, amended. Take a run whose trace holds a deletion request. It is the only one: no
  deletion is repeated. Nothing above \<open>INFO\<close> has been logged. When Dependency-Track
  answered the request, with whatever status, the run went on: it returns \<open>True\<close> and
  its last effect is the write of the findings to the bucket. When the request raised
  instead of being answered, the run ended there: it returns the error, the request is
  its last effect and the bucket is as it was.
\<close>

theorem answered_delete_never_blocks_store:
  assumes "dt_interface_handler fuel c event w = (r, w')"
    and "trace w' = trace w @ t"
    and "Http rq rp \<in> set t" and "is_deletion (url rq)"
  shows "length (calls is_deletion t) = 1
     \<and> (\<forall>msg. Log WARNING msg \<notin> set t)
     \<and> (case rp of
          Some rsp \<Rightarrow>
            r = Inr True
            \<and> (\<exists>t0 b k findings.
                 t = t0 @ [S3Put b (''findings-'' @ k)
                             \<lparr>Body = dumps c findings, Metadata = []\<rparr>]
                 \<and> s3 w' (b, ''findings-'' @ k)
                     = Some \<lparr>Body = dumps c findings, Metadata = []\<rparr>)
        | None \<Rightarrow>
            r = Inl ConnectionError \<and> s3 w' = s3 w \<and> (\<exists>t0. t = t0 @ [Http rq None]))"
proof -
  from assms(1) show ?thesis
    unfolding dt_interface_handler_split
  proof (cases rule: and_then_cases)
    case (fail e)
    from stepsD [OF steps_analysis fail(1)] obtain t' where
      "trace w' = trace w @ t'" "list_all before_cleanup t'"
      by (auto elim: addsE)
    with assms(2) have "list_all before_cleanup t" by simp
    from before_cleanup_no_answer [OF this assms(3)] assms(4) show ?thesis by simp
  next
    case (ok x w4)
    let ?b = "fst x" and ?k = "fst (snd x)" and ?pid = "fst (snd (snd x))"
    let ?findings = "snd (snd (snd x))"
    let ?obj = "\<lparr>Body = dumps c ?findings, Metadata = []\<rparr>"
    from stepsD [OF steps_analysis ok(1)] obtain t4 where
      t4: "trace w4 = trace w @ t4" "list_all before_cleanup t4" "s3 w4 = s3 w"
      by (auto elim: addsE)
    from ok(2) show ?thesis
    proof (cases rule: and_then_cases)
      case (fail e)
      from fail(1) show ?thesis
      proof (cases rule: delete_project_run)
        case (no_key t5)
        have "list_all before_cleanup (t4 @ t5)"
          using t4(2) bootstrap_before_cleanup [OF no_key(2)] by simp
        moreover have "t = t4 @ t5" using assms(2) no_key(1) t4(1) by simp
        ultimately have "list_all before_cleanup t" by simp
        from before_cleanup_no_answer [OF this assms(3)] assms(4) show ?thesis by simp
      next
        case (sent t5 key rp')
        let ?drq = "\<lparr>meth = PUT, url = EP_delete_project ?pid,
                 headers = project_headers key, content = NoBody\<rparr>"
        from sent(4) fail(2) have none: "rp' = None" by (cases rp') auto
        with sent(4) fail(2) have r: "r = Inl ConnectionError" by simp
        have b5: "list_all before_cleanup t5" by (rule bootstrap_before_cleanup [OF sent(2)])
        have b: "list_all before_cleanup (t4 @ t5)" using t4(2) b5 by simp
        have teq: "t = (t4 @ t5) @ [Http ?drq None]"
          using assms(2) sent(1) t4(1) none by simp
        have "Http rq rp \<notin> set (t4 @ t5)"
          using before_cleanup_no_answer [OF b] assms(4) by blast
        with assms(3) teq have same: "rq = ?drq" "rp = None" by auto
        have one: "length (calls is_deletion t) = 1"
          using teq before_cleanup_calls [OF t4(2)] before_cleanup_calls [OF b5] by simp
        have nw: "\<forall>msg. Log WARNING msg \<notin> set t"
          using teq before_cleanup_no_warning [OF t4(2)] before_cleanup_no_warning [OF b5]
          by auto
        have st: "s3 w' = s3 w" using sent(3) t4(3) by simp
        have "\<exists>t0. t = t0 @ [Http rq None]" using teq same(1) by blast
        with one nw r st same(2) show ?thesis by simp
      qed
    next
      case (ok y w5)
      from ok(1) obtain t5 key rp' where
        d: "trace w5 = trace w4 @ t5 @ [Http \<lparr>meth = PUT, url = EP_delete_project ?pid,
                 headers = project_headers key, content = NoBody\<rparr> rp']"
           "list_all (dt_event bootstrap_ep) t5"
           "Inr y = (case rp' of None \<Rightarrow> Inl ConnectionError | Some x \<Rightarrow> Inr JNull)"
        by (cases rule: delete_project_run) auto
      let ?drq = "\<lparr>meth = PUT, url = EP_delete_project ?pid,
                 headers = project_headers key, content = NoBody\<rparr>"
      from d(3) obtain rsp' where some: "rp' = Some rsp'" by (cases rp') auto
      from ok(2) have w': "w' = emit (S3Put ?b (''findings-'' @ ?k) ?obj)
                           (w5\<lparr>s3 := (s3 w5)((?b, ''findings-'' @ ?k) \<mapsto> ?obj)\<rparr>)"
        and r: "r = Inr True"
        by (simp_all add: s3_put_def and_then_def return_def)
      let ?t0 = "t4 @ t5 @ [Http ?drq rp']"
      have b5: "list_all before_cleanup t5" by (rule bootstrap_before_cleanup [OF d(2)])
      have b: "list_all before_cleanup (t4 @ t5)" using t4(2) b5 by simp
      have teq: "t = ?t0 @ [S3Put ?b (''findings-'' @ ?k) ?obj]"
        using assms(2) w' d(1) t4(1) by (simp add: emit_def)
      have "Http rq rp \<notin> set (t4 @ t5)"
        using before_cleanup_no_answer [OF b] assms(4) by blast
      with assms(3) teq some have same: "rp = Some rsp'" by auto
      have st: "s3 w' (?b, ''findings-'' @ ?k) = Some ?obj" using w' by (simp add: emit_def)
      have one: "length (calls is_deletion t) = 1"
        using teq before_cleanup_calls [OF t4(2)] before_cleanup_calls [OF b5] by simp
      have nw: "\<forall>msg. Log WARNING msg \<notin> set t"
        using teq before_cleanup_no_warning [OF t4(2)] before_cleanup_no_warning [OF b5]
        by auto
      have "\<exists>t0 b k findings.
          t = t0 @ [S3Put b (''findings-'' @ k) \<lparr>Body = dumps c findings, Metadata = []\<rparr>]
          \<and> s3 w' (b, ''findings-'' @ k) = Some \<lparr>Body = dumps c findings, Metadata = []\<rparr>"
        by (intro exI [of _ ?t0] exI [of _ ?b] exI [of _ ?k] exI [of _ ?findings] conjI)
           (fact teq st)+
      with r one nw same show ?thesis by simp
    qed
  qed
qed

theorem answered_delete_never_blocks_store_witness:
  "fst (dt_interface_handler 3 scenario_codec scenario_message
          (scenario_world\<lparr>analyzer := failing_delete\<rparr>)) = Inr True
   \<and> Http \<lparr>meth = PUT, url = EP_delete_project (JStr ''proj-1''),
           headers = project_headers ''key-0'', content = NoBody\<rparr>
        (Some \<lparr>status_code = 500, resp_text = [], decoded = None\<rparr>)
      \<in> set (trace (snd (dt_interface_handler 3 scenario_codec scenario_message
          (scenario_world\<lparr>analyzer := failing_delete\<rparr>))))
   \<and> length (calls is_deletion (trace (snd (dt_interface_handler 3 scenario_codec
          scenario_message (scenario_world\<lparr>analyzer := failing_delete\<rparr>))))) = 1"
proof -
  let ?w = "scenario_world\<lparr>analyzer := failing_delete\<rparr>"
  let ?run = "dt_interface_handler 3 scenario_codec scenario_message ?w"
  have a: "?run = (fst ?run, snd ?run)" by simp
  have b: "trace (snd ?run) = trace ?w @ trace (snd ?run)"
    by (simp add: scenario_world_def)
  have c: "Http \<lparr>meth = PUT, url = EP_delete_project (JStr ''proj-1''),
           headers = project_headers ''key-0'', content = NoBody\<rparr>
        (Some \<lparr>status_code = 500, resp_text = [], decoded = None\<rparr>) \<in> set (trace (snd ?run))"
    using scenario_failing_delete by blast
  have d: "is_deletion (url \<lparr>meth = PUT, url = EP_delete_project (JStr ''proj-1''),
           headers = project_headers ''key-0'', content = NoBody\<rparr>)"
    by simp
  from answered_delete_never_blocks_store [OF a b c d] c show ?thesis by simp
qed

end
